theory Spec2Isabelle
  imports Complex_Main
begin

section \<open>JavaScript values used by the client script\<close>

text \<open>
  The client is a browser script (\<^verbatim>\<open>static/script.js\<close>). Strings are modelled as
  \<^typ>\<open>string\<close>, holding the UTF-8 bytes of the JavaScript string; numbers that the
  script only prints are integers, and times are reals.
\<close>

fun show_nat :: "nat \<Rightarrow> string" where
  "show_nat n =
     (if n < 10 then [''0123456789'' ! n]
      else show_nat (n div 10) @ [''0123456789'' ! (n mod 10)])"

declare show_nat.simps [simp del]

definition show_int :: "int \<Rightarrow> string" where
  "show_int i = (if i < 0 then ''-'' @ show_nat (nat (- i)) else show_nat (nat i))"

text \<open>The remainder operator \<^verbatim>\<open>%\<close> of JavaScript truncates towards zero.\<close>

definition js_rem :: "int \<Rightarrow> int \<Rightarrow> int" where
  "js_rem a b = sgn a * (\<bar>a\<bar> mod \<bar>b\<bar>)"

subsection \<open>Strings\<close>

text \<open>
  \<^verbatim>\<open>String.prototype.trim\<close> removes the white space and line terminator code points
  of ECMAScript from both ends. \<open>ws_seqs\<close> lists their UTF-8 encodings: U+0009 to U+000D,
  U+0020, U+00A0, U+1680, U+2000 to U+200A, U+2028, U+2029, U+202F, U+205F, U+3000, U+FEFF.
\<close>

definition ws_seqs :: "string list" where
  "ws_seqs =
     [[CHR 0x09], [CHR 0x0A], [CHR 0x0B], [CHR 0x0C], [CHR 0x0D], [CHR 0x20],
      [CHR 0xC2, CHR 0xA0], [CHR 0xE1, CHR 0x9A, CHR 0x80],
      [CHR 0xE2, CHR 0x80, CHR 0x80], [CHR 0xE2, CHR 0x80, CHR 0x81],
      [CHR 0xE2, CHR 0x80, CHR 0x82], [CHR 0xE2, CHR 0x80, CHR 0x83],
      [CHR 0xE2, CHR 0x80, CHR 0x84], [CHR 0xE2, CHR 0x80, CHR 0x85],
      [CHR 0xE2, CHR 0x80, CHR 0x86], [CHR 0xE2, CHR 0x80, CHR 0x87],
      [CHR 0xE2, CHR 0x80, CHR 0x88], [CHR 0xE2, CHR 0x80, CHR 0x89],
      [CHR 0xE2, CHR 0x80, CHR 0x8A], [CHR 0xE2, CHR 0x80, CHR 0xA8],
      [CHR 0xE2, CHR 0x80, CHR 0xA9], [CHR 0xE2, CHR 0x80, CHR 0xAF],
      [CHR 0xE2, CHR 0x81, CHR 0x9F], [CHR 0xE3, CHR 0x80, CHR 0x80],
      [CHR 0xEF, CHR 0xBB, CHR 0xBF]]"

text \<open>The number of bytes of the white space code point a string starts with, 0 if none.\<close>

definition ws_len :: "string \<Rightarrow> nat" where
  "ws_len s =
     (case find (\<lambda>w. take (length w) s = w) ws_seqs of
        None \<Rightarrow> 0
      | Some w \<Rightarrow> length w)"

text \<open>The same at the end of a string.\<close>

definition ws_len_end :: "string \<Rightarrow> nat" where
  "ws_len_end s =
     (case find (\<lambda>w. drop (length s - length w) s = w) ws_seqs of
        None \<Rightarrow> 0
      | Some w \<Rightarrow> length w)"

lemma ws_len_le: "ws_len s \<le> length s"
proof (cases "find (\<lambda>w. take (length w) s = w) ws_seqs")
  case None
  then show ?thesis by (simp add: ws_len_def)
next
  case (Some w)
  then have "take (length w) s = w" by (auto simp: find_Some_iff)
  then have "length w \<le> length s" by (metis length_take min.cobounded1)
  with Some show ?thesis by (simp add: ws_len_def)
qed

lemma ws_len_end_le: "ws_len_end s \<le> length s"
proof (cases "find (\<lambda>w. drop (length s - length w) s = w) ws_seqs")
  case None
  then show ?thesis by (simp add: ws_len_end_def)
next
  case (Some w)
  then have "drop (length s - length w) s = w" by (auto simp: find_Some_iff)
  then have "length w \<le> length s" by (metis diff_le_self length_drop)
  with Some show ?thesis by (simp add: ws_len_end_def)
qed

function js_trimStart :: "string \<Rightarrow> string" where
  "js_trimStart s = (if ws_len s = 0 then s else js_trimStart (drop (ws_len s) s))"
  by pat_completeness auto
termination
proof (relation "measure length")
  show "wf (measure length)" by simp
next
  fix s :: string
  assume "ws_len s \<noteq> 0"
  moreover have "ws_len s \<le> length s" by (rule ws_len_le)
  ultimately show "(drop (ws_len s) s, s) \<in> measure length" by simp
qed

function js_trimEnd :: "string \<Rightarrow> string" where
  "js_trimEnd s =
     (if ws_len_end s = 0 then s else js_trimEnd (take (length s - ws_len_end s) s))"
  by pat_completeness auto
termination
proof (relation "measure length")
  show "wf (measure length)" by simp
next
  fix s :: string
  assume "ws_len_end s \<noteq> 0"
  moreover have "ws_len_end s \<le> length s" by (rule ws_len_end_le)
  ultimately show "(take (length s - ws_len_end s) s, s) \<in> measure length" by simp
qed

declare js_trimStart.simps [simp del] js_trimEnd.simps [simp del]

definition js_trim :: "string \<Rightarrow> string" where
  "js_trim s = js_trimEnd (js_trimStart s)"

text \<open>
  \<^verbatim>\<open>toLowerCase\<close> on the ASCII letters; the case mapping of other letters is not
  modelled (the script applies it to chip colour names only).
\<close>

definition toLowerCase :: "string \<Rightarrow> string" where
  "toLowerCase s =
     map (\<lambda>c. case map_of (zip ''ABCDEFGHIJKLMNOPQRSTUVWXYZ''
                                   ''abcdefghijklmnopqrstuvwxyz'') c of
                None \<Rightarrow> c
              | Some l \<Rightarrow> l) s"

text \<open>\<^verbatim>\<open>s.includes(sub)\<close>: \<open>sub\<close> occurs in \<open>s\<close>.\<close>

fun js_includes :: "string \<Rightarrow> string \<Rightarrow> bool" where
  "js_includes [] sub = (sub = [])"
| "js_includes (c # cs) sub = (take (length sub) (c # cs) = sub \<or> js_includes cs sub)"

text \<open>\<^verbatim>\<open>s.replace(/"/g, "&quot;")\<close>.\<close>

definition replace_quot :: "string \<Rightarrow> string" where
  "replace_quot s = concat (map (\<lambda>c. if c = CHR 0x22 then ''&quot;'' else [c]) s)"

text \<open>A value is falsy when it is null, undefined, the empty string or zero.\<close>

definition truthy_str :: "string option \<Rightarrow> bool" where
  "truthy_str v = (case v of None \<Rightarrow> False | Some s \<Rightarrow> s \<noteq> [])"

definition truthy_num :: "int option \<Rightarrow> bool" where
  "truthy_num v = (case v of None \<Rightarrow> False | Some n \<Rightarrow> n \<noteq> 0)"

subsection \<open>Text that the browser reads back\<close>

text \<open>
  The script pastes player ids into a CSS selector and into the markup of an attribute and
  lets the browser read them back. \<open>utf8\<close> gives the bytes of a code point and
  \<open>replacement\<close> those of U+FFFD.
\<close>

datatype js_error = TypeError | SyntaxError

definition replacement :: string where
  "replacement = [CHR 0xEF, CHR 0xBF, CHR 0xBD]"

definition utf8 :: "nat \<Rightarrow> string" where
  "utf8 n =
     (if n < 0x80 then [char_of n]
      else if n < 0x800 then [char_of (0xC0 + n div 64), char_of (0x80 + n mod 64)]
      else if n < 0x10000 then
        [char_of (0xE0 + n div 4096), char_of (0x80 + n div 64 mod 64),
         char_of (0x80 + n mod 64)]
      else
        [char_of (0xF0 + n div 262144), char_of (0x80 + n div 4096 mod 64),
         char_of (0x80 + n div 64 mod 64), char_of (0x80 + n mod 64)])"

definition hex_val :: "char \<Rightarrow> nat option" where
  "hex_val c = map_of (zip ''0123456789abcdefABCDEF'' ([0..<16] @ [10..<16])) c"

definition dec_val :: "char \<Rightarrow> nat option" where
  "dec_val c = map_of (zip ''0123456789'' [0..<10]) c"

definition number_of :: "nat \<Rightarrow> (char \<Rightarrow> nat option) \<Rightarrow> string \<Rightarrow> nat" where
  "number_of base val ds =
     foldl (\<lambda>n d. base * n + (case val d of Some v \<Rightarrow> v | None \<Rightarrow> 0)) 0 ds"

text \<open>One line break at the start of a text (LF, FF, CR, or CR LF), and one white space.\<close>

definition skip_newline :: "string \<Rightarrow> string" where
  "skip_newline s =
     (case s of
        [] \<Rightarrow> []
      | c # cs \<Rightarrow>
          if c = CHR 0x0D then (case cs of [] \<Rightarrow> cs | d # ds \<Rightarrow> if d = CHR 0x0A then ds else cs)
          else if c = CHR 0x0A \<or> c = CHR 0x0C then cs
          else s)"

definition skip_space :: "string \<Rightarrow> string" where
  "skip_space s =
     (case s of
        [] \<Rightarrow> []
      | c # cs \<Rightarrow> if c = CHR 0x20 \<or> c = CHR 0x09 then cs else skip_newline s)"

lemma length_skip_newline: "length (skip_newline s) \<le> length s"
  by (auto simp: skip_newline_def split: list.splits)

lemma length_skip_space: "length (skip_space s) \<le> length s"
  using length_skip_newline [of s] by (auto simp: skip_space_def split: list.splits)

text \<open>
  A string of a CSS selector, read from behind its opening quotation mark. The string ends
  at the next quotation mark; a line break in it makes it a bad string; a backslash
  escapes the next character, or stands with up to six hexadecimal digits (and one white
  space behind them) for a code point; NUL is read as U+FFFD. \<open>StringTok v rest\<close> is the
  string with value \<open>v\<close> and the text behind its closing mark, \<open>OpenString v\<close> the
  string that the end of the text has closed.
\<close>

datatype css_token = StringTok string string | OpenString string | BadString

definition css_code_point :: "nat \<Rightarrow> string" where
  "css_code_point n =
     (if n = 0 \<or> (0xD800 \<le> n \<and> n \<le> 0xDFFF) \<or> 0x10FFFF < n then replacement else utf8 n)"

function css_string :: "string \<Rightarrow> string \<Rightarrow> css_token" where
  "css_string acc [] = OpenString acc"
| "css_string acc (c # cs) =
     (if c = CHR 0x22 then StringTok acc cs
      else if c = CHR 0x0A \<or> c = CHR 0x0C \<or> c = CHR 0x0D then BadString
      else if c = CHR 0x00 then css_string (acc @ replacement) cs
      else if c = CHR 0x5C then
        (case cs of
           [] \<Rightarrow> OpenString acc
         | d # ds \<Rightarrow>
             if d = CHR 0x0A \<or> d = CHR 0x0C \<or> d = CHR 0x0D
             then css_string acc (skip_newline cs)
             else if hex_val d \<noteq> None then
               (let hs = takeWhile (\<lambda>h. hex_val h \<noteq> None) (take 6 cs)
                in css_string (acc @ css_code_point (number_of 16 hex_val hs))
                     (skip_space (drop (length hs) cs)))
             else if d = CHR 0x00 then css_string (acc @ replacement) ds
             else css_string (acc @ [d]) ds)
      else css_string (acc @ [c]) cs)"
  by pat_completeness auto
termination
proof (relation "measure (\<lambda>(acc, s). length s)")
  show "wf (measure (\<lambda>(acc, s). length s))" by simp
next
  fix acc :: string and c :: char and cs :: string and d :: char and ds :: string
  assume "cs = d # ds"
  then show "((acc, skip_newline cs), (acc, c # cs)) \<in> measure (\<lambda>(acc, s). length s)"
    using length_skip_newline [of cs] by simp
next
  fix acc :: string and c :: char and cs :: string and hs :: string
  have "length (skip_space (drop (length hs) cs)) \<le> length (drop (length hs) cs)"
    by (rule length_skip_space)
  then show "((acc @ css_code_point (number_of 16 hex_val hs), skip_space (drop (length hs) cs)),
              (acc, c # cs)) \<in> measure (\<lambda>(acc, s). length s)"
    by simp
qed simp_all

declare css_string.simps [simp del]

text \<open>
  The value that the selector \<^verbatim>\<open>.player-card[data-player-id="${id}"]\<close> asks for. The
  selector is valid when the string of the id ends at the quotation mark of the template
  (or is left open by an id that ends in a backslash). An id with a quotation mark of its
  own or a line break makes a selector that the model takes to be invalid:
  \<^verbatim>\<open>querySelector\<close> throws a \<^verbatim>\<open>SyntaxError\<close>. (A quotation mark in an id could also be
  followed by text that completes a selector of another meaning; the model does not
  follow the grammar of selectors that far.)
\<close>

definition selector_value :: "string \<Rightarrow> js_error + string" where
  "selector_value tid =
     (case css_string [] (tid @ [CHR 0x22] @ '']'') of
        StringTok v rest \<Rightarrow> if rest = '']'' then Inr v else Inl SyntaxError
      | OpenString v \<Rightarrow> Inr v
      | BadString \<Rightarrow> Inl SyntaxError)"

text \<open>
  The value of an attribute that is written as \<^verbatim>\<open>name="${text}"\<close> into \<^verbatim>\<open>innerHTML\<close>
  and read with \<^verbatim>\<open>getAttribute\<close>. The value ends at the first quotation mark; a
  character reference is replaced by its character; NUL becomes U+FFFD and CR (with a
  following LF) becomes LF. Of the named character references the model knows
  \<^verbatim>\<open>amp\<close>, \<^verbatim>\<open>lt\<close>, \<^verbatim>\<open>gt\<close>, \<^verbatim>\<open>quot\<close> and \<^verbatim>\<open>apos\<close>; without the semicolon a name is
  no reference in an attribute when \<^verbatim>\<open>=\<close>, a letter or a digit follows.
\<close>

definition alnum :: "char \<Rightarrow> bool" where
  "alnum c =
     (c \<in> set ''0123456789abcdefghijklmnopqrstuvwxyzABCDEFGHIJKLMNOPQRSTUVWXYZ'')"

definition named_ref :: "string \<Rightarrow> (string \<times> nat) option" where
  "named_ref s =
     (case find (\<lambda>(nm, txt). take (length nm) s = nm)
             [(''amp;'', ''&''), (''AMP;'', ''&''), (''lt;'', ''<''), (''LT;'', ''<''),
              (''gt;'', ''>''), (''GT;'', ''>''), (''quot;'', [CHR 0x22]),
              (''QUOT;'', [CHR 0x22]), (''apos;'', [CHR 0x27])] of
        Some (nm, txt) \<Rightarrow> Some (txt, length nm)
      | None \<Rightarrow>
          (case find (\<lambda>(nm, txt). take (length nm) s = nm)
                  [(''amp'', ''&''), (''AMP'', ''&''), (''lt'', ''<''), (''LT'', ''<''),
                   (''gt'', ''>''), (''GT'', ''>''), (''quot'', [CHR 0x22]),
                   (''QUOT'', [CHR 0x22])] of
             None \<Rightarrow> None
           | Some (nm, txt) \<Rightarrow>
               (case drop (length nm) s of
                  [] \<Rightarrow> Some (txt, length nm)
                | d # ds \<Rightarrow>
                    if d = CHR ''='' \<or> alnum d then None else Some (txt, length nm))))"

text \<open>The character of a numeric reference; HTML reads the numbers 128 to 159 as the
  characters of Windows-1252.\<close>

definition html_code_point :: "nat \<Rightarrow> string" where
  "html_code_point n =
     (if n = 0 \<or> (0xD800 \<le> n \<and> n \<le> 0xDFFF) \<or> 0x10FFFF < n then replacement
      else case map_of
             [(0x80, 0x20AC), (0x82, 0x201A), (0x83, 0x0192), (0x84, 0x201E), (0x85, 0x2026),
              (0x86, 0x2020), (0x87, 0x2021), (0x88, 0x02C6), (0x89, 0x2030), (0x8A, 0x0160),
              (0x8B, 0x2039), (0x8C, 0x0152), (0x8E, 0x017D), (0x91, 0x2018), (0x92, 0x2019),
              (0x93, 0x201C), (0x94, 0x201D), (0x95, 0x2022), (0x96, 0x2013), (0x97, 0x2014),
              (0x98, 0x02DC), (0x99, 0x2122), (0x9A, 0x0161), (0x9B, 0x203A), (0x9C, 0x0153),
              (0x9E, 0x017E), (0x9F, 0x0178)] n of
             Some m \<Rightarrow> utf8 m
           | None \<Rightarrow> utf8 n)"

definition numeric_ref :: "string \<Rightarrow> (string \<times> nat) option" where
  "numeric_ref s =
     (case s of
        [] \<Rightarrow> None
      | h # r \<Rightarrow>
          if h \<noteq> CHR ''#'' then None
          else
            (let hex = (take 1 r = ''x'' \<or> take 1 r = ''X'');
                 body = (if hex then drop 1 r else r);
                 ds = takeWhile (\<lambda>d. (if hex then hex_val d else dec_val d) \<noteq> None) body;
                 n = (if hex then number_of 16 hex_val ds else number_of 10 dec_val ds);
                 semi = (take 1 (drop (length ds) body) = '';'')
             in if ds = [] then None
                else Some (html_code_point n,
                           1 + (if hex then 1 else 0) + length ds + (if semi then 1 else 0))))"

definition char_ref :: "string \<Rightarrow> (string \<times> nat) option" where
  "char_ref s = (case numeric_ref s of Some r \<Rightarrow> Some r | None \<Rightarrow> named_ref s)"

function attr_value :: "string \<Rightarrow> string \<Rightarrow> string" where
  "attr_value acc [] = acc"
| "attr_value acc (c # cs) =
     (if c = CHR 0x22 then acc
      else if c = CHR 0x00 then attr_value (acc @ replacement) cs
      else if c = CHR 0x0D then
        attr_value (acc @ [CHR 0x0A]) (if take 1 cs = [CHR 0x0A] then drop 1 cs else cs)
      else if c = CHR ''&'' then
        (case char_ref cs of
           None \<Rightarrow> attr_value (acc @ ''&'') cs
         | Some (txt, k) \<Rightarrow> attr_value (acc @ txt) (drop k cs))
      else attr_value (acc @ [c]) cs)"
  by pat_completeness auto
termination
  by (relation "measure (\<lambda>(acc, s). length s)") auto

declare attr_value.simps [simp del]

subsection \<open>Numbers\<close>

text \<open>
  The numbers of JavaScript are IEEE 754 doubles. A finite double is modelled as the real
  number it stands for; \<^verbatim>\<open>NaN\<close> and the infinities are not in the model. An arithmetic
  operation gives the exact result rounded to the nearest double, of two equally near ones
  the one with the even mantissa: \<open>dbl\<close>. The mantissa has 53 bits; a number below
  \<open>pow2 (- 1022)\<close> is rounded to a multiple of \<open>pow2 (- 1074)\<close>. A result beyond the largest
  double, which the script would hold as \<^verbatim>\<open>Infinity\<close>, is in the model the rounded number
  itself; the script does nothing with such a value but add to it and compare it with
  times.
\<close>

text \<open>The number of binary digits of a whole number.\<close>

function bit_length :: "int \<Rightarrow> int" where
  "bit_length n = (if n \<le> 0 then 0 else bit_length (n div 2) + 1)"
  by pat_completeness auto
termination
  by (relation "measure nat") auto

declare bit_length.simps [simp del]

definition pow2 :: "int \<Rightarrow> real" where
  "pow2 e = (if 0 \<le> e then 2 ^ nat e else 1 / 2 ^ nat (- e))"

text \<open>The binary exponent of a positive number \<open>x\<close>: \<open>pow2 (expo x) \<le> x < pow2 (expo x + 1)\<close>.\<close>

definition expo :: "real \<Rightarrow> int" where
  "expo x =
     (if 1 \<le> x then bit_length \<lfloor>x\<rfloor> - 1
      else - bit_length (\<lceil>1 / x\<rceil> - 1))"

definition round_even :: "real \<Rightarrow> int" where
  "round_even r =
     (let f = \<lfloor>r\<rfloor> in
      if r - of_int f < 1 / 2 then f
      else if 1 / 2 < r - of_int f then f + 1
      else if even f then f else f + 1)"

definition dbl :: "real \<Rightarrow> real" where
  "dbl x =
     (if x = 0 then 0
      else (let u = pow2 (max (expo \<bar>x\<bar>) (- 1022) - 52)
            in sgn x * (of_int (round_even (\<bar>x\<bar> / u)) * u)))"

text \<open>
  The string of a whole number, as a template literal gives it. Every whole number below
  \<open>2 ^ 53\<close> in size is a double and is written with all its digits. A larger double is
  written with the fewest digits that still round to it (of two such digit strings the one
  nearer to the number), followed by zeros when the number has at most 21 digits and in
  exponent notation otherwise.
\<close>

function digits :: "int \<Rightarrow> string" where
  "digits n =
     (if n < 10 then [''0123456789'' ! nat n]
      else digits (n div 10) @ [''0123456789'' ! nat (n mod 10)])"
  by pat_completeness auto
termination
  by (relation "measure nat") auto

declare digits.simps [simp del]

definition shortest :: "int \<Rightarrow> int \<times> nat" where
  "shortest v =
     (let n = length (digits v);
          found = concat (map
            (\<lambda>k. let p = 10 ^ (n - k); lo = v div p; r = v mod p;
                     cs = (if 2 * r < p \<or> (2 * r = p \<and> even lo)
                           then [lo, lo + 1] else [lo + 1, lo])
                 in map (\<lambda>c. (c, n - k)) (filter (\<lambda>c. dbl (of_int (c * p)) = of_int v) cs))
            [1..<18])
      in case found of [] \<Rightarrow> (v, 0) | x # xs \<Rightarrow> x)"

definition big_num_string :: "int \<Rightarrow> string" where
  "big_num_string v =
     (let (c, z) = shortest v;
          ds = digits c;
          sig = rev (dropWhile (\<lambda>d. d = CHR ''0'') (rev ds));
          n = length ds + z
      in if n \<le> 21 then ds @ replicate z (CHR ''0'')
         else [hd sig] @ (if length sig = 1 then [] else ''.'' @ tl sig) @
              ''e+'' @ digits (int n - 1))"

definition js_String_int :: "int \<Rightarrow> string" where
  "js_String_int v =
     (if \<bar>v\<bar> < 2 ^ 53 then show_int v
      else (if v < 0 then ''-'' else []) @ big_num_string \<bar>v\<bar>)"

subsection \<open>formatDuration\<close>

text \<open>\<^verbatim>\<open>Math.floor\<close>, \<^verbatim>\<open>Math.max\<close> and \<^verbatim>\<open>%\<close> give their results exactly; the two
  divisions are rounded.\<close>

definition formatDuration :: "real \<Rightarrow> string" where
  "formatDuration secs =
     (let totalSeconds = max 0 \<lfloor>secs\<rfloor>;
          h = \<lfloor>dbl (real_of_int totalSeconds / 3600)\<rfloor>;
          m = \<lfloor>dbl (real_of_int (js_rem totalSeconds 3600) / 60)\<rfloor>;
          s = js_rem totalSeconds 60
      in if h > 0 then js_String_int h @ ''h '' @ js_String_int m @ ''m''
         else if m > 0 then js_String_int m @ ''m '' @ js_String_int s @ ''s''
         else js_String_int s @ ''s'')"

text \<open>The behaviour of \<^const>\<open>formatDuration\<close> as the specification words it.\<close>

definition formatDuration_spec :: "real \<Rightarrow> string" where
  "formatDuration_spec secs =
     (let t = \<lfloor>max 0 secs\<rfloor>;
          h = \<lfloor>real_of_int t / 3600\<rfloor>;
          m = \<lfloor>real_of_int (t mod 3600) / 60\<rfloor>;
          s = t mod 60
      in if t \<ge> 3600 then show_int h @ ''h '' @ show_int m @ ''m''
         else if t \<ge> 60 then show_int m @ ''m '' @ show_int s @ ''s''
         else show_int s @ ''s'')"

section \<open>The data of the client\<close>

subsection \<open>The state snapshot sent by the server\<close>

text \<open>
  The records list the fields of a snapshot that the script reads. A field the script
  guards against being absent (\<^verbatim>\<open>x || ...\<close>, \<^verbatim>\<open>x && ...\<close>, \<^verbatim>\<open>if (x)\<close>) is an
  option; a field it reads without a guard has the type the script expects of it.
\<close>

record card =
  str :: string
  suit :: string

record chip_entry =
  h_color :: string
  h_value :: int

record player =
  player_id :: string
  name :: string
  is_observer :: bool
  is_connected :: bool
  is_settled :: bool
  chip :: "int option"
  chip_history :: "chip_entry list option"
  hand :: "card list option"
  disconnected_at :: "real option"
  queued_to_join :: bool

record ranking_row =
  row_name :: string
  row_guess_rank :: int
  row_true_rank :: int
  row_hand_class :: string
  row_is_correct :: bool

record chat_msg =
  msg_name :: string
  msg_text :: string
  msg_is_observer :: bool

record tomato_ev =
  ev_id :: "string option"
  ev_at :: "real option"
  ev_from_id :: "string option"
  ev_to_id :: "string option"
  ev_from_name :: string
  ev_to_name :: string

record snapshot =
  me :: "player option"
  viewer_role :: string
  phase :: string
  chip_color :: string
  community_cards :: "card list"
  chips_available :: "int list"
  players :: "player list"
  result_message :: "string option"
  result_details :: "(string \<times> ranking_row list) list option"
  vaults :: int
  alarms :: int
  chat_messages :: "chat_msg list option"
  tomato_event :: "tomato_ev option"

subsection \<open>Socket events sent to the server\<close>

datatype json = JNull | JBool bool | JNum int | JStr string | JObj "(string \<times> json) list"

text \<open>An emitted event: its name and the arguments of \<^verbatim>\<open>socket.emit\<close> after the name.\<close>

type_synonym socket_event = "string \<times> json list"

subsection \<open>The document\<close>

text \<open>
  The page is a fixed skeleton of elements found by id; the record has one field for each
  property of an element that the script writes. An element whose absence the script
  tolerates (\<^verbatim>\<open>if (chatForm)\<close>, \<^verbatim>\<open>if (playerAreaEl)\<close>, \<^verbatim>\<open>if (!container)\<close>) is an
  option. A class attribute is kept as the list of its tokens. Elements that the script
  creates and later finds again or captures in a closure carry a node number.
\<close>

datatype content = InnerText string | InnerHTML string

record card_div =
  cd_className :: "string list"
  cd_innerText :: string

text \<open>A chip button of the bank: \<open>cb_onclick\<close> holds the arguments its handler gives to
  \<^verbatim>\<open>takeChip\<close>.\<close>

record chip_button =
  cb_className :: "string list"
  cb_innerText :: string
  cb_onclick :: "json \<times> json"

datatype status_label =
    Disconnected real string
  | StatusText string

text \<open>
  An opponent's card. Its \<^verbatim>\<open>innerHTML\<close> is a fixed template; the record keeps what the
  script puts into the template's holes. \<open>Disconnected a txt\<close> is the label with the
  \<^verbatim>\<open>disc-time\<close> span, its \<^verbatim>\<open>data-disconnected-at\<close> attribute and its text.
  \<open>pc_name_btn\<close> is the \<^verbatim>\<open>data-player-id\<close> attribute of the name button, which its click
  listener reads and passes on (\<open>None\<close> in the version without that button).
\<close>

record opp_card =
  pc_node :: nat
  pc_className :: "string list"
  pc_data_player_id :: "string option"
  pc_name :: string
  pc_name_btn :: "string option"
  pc_status :: status_label
  pc_kickHtml :: string
  pc_handHtml :: string
  pc_chipHtml :: string
  pc_historyHtml :: string
  pc_splat :: bool

record pill =
  pill_className :: "string list"
  pill_textContent :: string

record chat_line =
  cl_name :: string
  cl_text :: string

record mini_chip =
  mc_className :: "string list"
  mc_innerText :: string

record player_area =
  pa_classList :: "string list"
  pa_data_player_id :: "string option"
  pa_splat :: bool

record toast =
  toast_classList :: "string list"
  toast_textContent :: string

text \<open>The open tomato menu: its node, the card whose name button it hangs on, and the
  player id its button throws at.\<close>

record tomato_menu =
  tm_node :: nat
  tm_anchor :: nat
  tm_target :: string

record dom =
  body_classList :: "string list"
  phase_display :: content
  vault_count :: string
  alarm_count :: string
  my_name :: string
  community_cards_el :: "card_div list"
  chip_bank :: "chip_button list"
  chip_bank_classList :: "string list"
  opponents_row :: "opp_card list"
  observer_list_html :: string
  observer_list :: "pill list"
  observer_status :: string
  observer_btn :: string
  chat_messages_el :: "chat_line list option"
  my_cards :: "card_div list"
  my_history :: "mini_chip list"
  my_chip_slot :: string
  settle_btn_disabled :: bool
  settle_btn_innerText :: string
  settle_btn_classList :: "string list"
  return_btn_disabled :: bool
  player_area_el :: "player_area option"
  game_container :: bool
  tomato_flights :: "nat list"
  tomato_toast :: "toast option"
  game_action_toast :: "toast option"
  chat_input :: "string option"
  name_input :: string
  menu :: "tomato_menu option"

subsection \<open>Timers\<close>

text \<open>What a pending \<^verbatim>\<open>setTimeout\<close> callback will do, with the values its closure holds.\<close>

datatype target_ref = CardRef nat | AreaRef

text \<open>\<open>flight_listeners\<close> of the client holds the \<^verbatim>\<open>transitionend\<close> listeners of the
  flying tomatoes: the tomato's node and the element it flies to.\<close>

datatype timer_cb =
    ClearCb
  | ImpactCb string "player option"
  | FlightCb nat target_ref
  | ToastCb

record timer =
  t_id :: nat
  t_due :: real
  t_cb :: timer_cb

subsection \<open>The script's variables\<close>

record client =
  localStorage :: "string \<rightharpoonup> string"
  playerId :: string
  myName :: string
  isObserver :: bool
  showResultDetails :: bool
  lastState :: "snapshot option"
  tomatoClearTimeout :: "nat option"
  lastTomatoEventId :: "string option"
  pendingTomatoEvent :: "tomato_ev option"
  activeTomatoTargetId :: "string option"
  activeTomatoExpiresAt :: real
  activeTomatoShowAt :: real
  tomatoImpactTimeout :: "nat option"
  openTomatoMenu :: "nat option"
  gameActionToastTimeout :: "nat option"
  emitted :: "socket_event list"
  timers :: "timer list"
  flight_listeners :: "(nat \<times> target_ref) list"
  fresh :: nat
  doc :: dom

section \<open>The script\<close>

text \<open>
  Every function of the script is a function on \<^typ>\<open>client\<close>. What the browser
  supplies is a parameter: the current time \<^verbatim>\<open>Date.now()\<close> in milliseconds, the answer
  of a \<^verbatim>\<open>confirm\<close> dialog, the value of \<^verbatim>\<open>crypto.randomUUID()\<close>.
\<close>

definition emit :: "string \<Rightarrow> json list \<Rightarrow> client \<Rightarrow> client" where
  "emit ev args c = c\<lparr>emitted := emitted c @ [(ev, args)]\<rparr>"

definition TOMATO_LIFETIME_MS :: real where "TOMATO_LIFETIME_MS = 3000"

definition TOMATO_FLIGHT_MS :: real where "TOMATO_FLIGHT_MS = 650"

definition GAME_ACTION_TOAST_MS :: real where "GAME_ACTION_TOAST_MS = 3000"

subsection \<open>Start of the script\<close>

text \<open>
  \<open>init ls uuid d\<close> is the state after the top-level statements have run on a page
  \<open>d\<close> with local storage \<open>ls\<close>, where \<open>uuid\<close> is what \<^verbatim>\<open>crypto.randomUUID()\<close> would
  return. Timer and node numbers start at 1.
\<close>

definition init :: "(string \<rightharpoonup> string) \<Rightarrow> string \<Rightarrow> dom \<Rightarrow> client" where
  "init ls uuid d =
     (let (pid, ls1) =
            (case ls ''player_id'' of
               None \<Rightarrow> (uuid, ls(''player_id'' \<mapsto> uuid))
             | Some s \<Rightarrow>
                 if s = [] then (uuid, ls(''player_id'' \<mapsto> uuid)) else (s, ls))
      in \<lparr>localStorage = ls1,
          playerId = pid,
          myName = (case ls1 ''player_name'' of Some n \<Rightarrow> n | None \<Rightarrow> []),
          isObserver = (ls1 ''observer_mode'' = Some ''true''),
          showResultDetails = False,
          lastState = None,
          tomatoClearTimeout = None,
          lastTomatoEventId = None,
          pendingTomatoEvent = None,
          activeTomatoTargetId = None,
          activeTomatoExpiresAt = 0,
          activeTomatoShowAt = 0,
          tomatoImpactTimeout = None,
          openTomatoMenu = None,
          gameActionToastTimeout = None,
          emitted = [],
          timers = [],
          flight_listeners = [],
          fresh = 1,
          doc = d\<rparr>)"

subsection \<open>Socket listeners and the chat form\<close>

definition join_payload :: "client \<Rightarrow> bool \<Rightarrow> json" where
  "join_payload c obs =
     JObj [(''player_id'', JStr (playerId c)), (''name'', JStr (myName c)),
           (''is_observer'', JBool obs)]"

definition on_request_join :: "client \<Rightarrow> client" where
  "on_request_join c = emit ''join_game'' [join_payload c (isObserver c)] c"

text \<open>The submit listener exists only on a page with a chat form; \<open>chat_input\<close> is
  the value of its input field.\<close>

definition on_chat_submit :: "client \<Rightarrow> client" where
  "on_chat_submit c =
     (case chat_input (doc c) of
        None \<Rightarrow> c
      | Some v \<Rightarrow>
          (let text = js_trim v in
           if text = [] then c
           else (emit ''chat_message'' [JObj [(''text'', JStr text)]] c)
                  \<lparr>doc := (doc c)\<lparr>chat_input := Some []\<rparr>\<rparr>))"

subsection \<open>Actions\<close>

definition startGame :: "client \<Rightarrow> client" where
  "startGame c = emit ''start_game'' [] c"

definition restartGame :: "bool \<Rightarrow> client \<Rightarrow> client" where
  "restartGame ok c = (if \<not> ok then c else emit ''restart_game'' [] c)"

definition changeName :: "client \<Rightarrow> client" where
  "changeName c =
     (let newName = js_trim (name_input (doc c)) in
      if newName \<noteq> [] then
        (emit ''change_name'' [JStr newName]
           (c\<lparr>myName := newName,
              localStorage := (localStorage c)(''player_name'' \<mapsto> newName)\<rparr>))
          \<lparr>doc := (doc c)\<lparr>name_input := []\<rparr>\<rparr>
      else c)"

definition js_String_bool :: "bool \<Rightarrow> string" where
  "js_String_bool b = (if b then ''true'' else ''false'')"

definition setObserverMode :: "bool \<Rightarrow> client \<Rightarrow> client" where
  "setObserverMode nextIsObserver c =
     (let c1 = c\<lparr>isObserver := nextIsObserver,
                  localStorage :=
                    (localStorage c)(''observer_mode'' \<mapsto> js_String_bool nextIsObserver)\<rparr>
      in emit ''join_game'' [join_payload c1 nextIsObserver] c1)"

definition toggleObserver :: "bool \<Rightarrow> client \<Rightarrow> client" where
  "toggleObserver ok c =
     (if \<not> isObserver c then (if \<not> ok then c else setObserverMode True c)
      else setObserverMode False c)"

definition removePlayer :: "string \<Rightarrow> bool \<Rightarrow> client \<Rightarrow> client" where
  "removePlayer targetPlayerId ok c =
     (if \<not> ok then c
      else emit ''remove_player'' [JObj [(''target_player_id'', JStr targetPlayerId)]] c)"

definition takeChip :: "json \<Rightarrow> json \<Rightarrow> client \<Rightarrow> client" where
  "takeChip v source c =
     emit ''take_chip'' [JObj [(''chip_value'', v), (''source'', source)]] c"

definition returnChip :: "client \<Rightarrow> client" where
  "returnChip c = emit ''return_chip'' [] c"

definition toggleSettle :: "client \<Rightarrow> client" where
  "toggleSettle c = emit ''toggle_settle'' [] c"

subsection \<open>The tomato menu\<close>

text \<open>
  \<open>toggleTomatoMenu targetPlayerId anchor\<close>: the anchor is the name button of the card
  with node \<open>anchor\<close>. A menu that hangs on a card outside the document is not part of
  the document. The bookkeeping of the outside-click listeners is left out; the listener
  itself is \<open>closeOnOutsideClick\<close>.
\<close>

definition toggleTomatoMenu :: "string option \<Rightarrow> nat \<Rightarrow> client \<Rightarrow> client" where
  "toggleTomatoMenu targetPlayerId anchor c =
     (if \<not> truthy_str targetPlayerId then c
      else
        (let c1 = (case menu (doc c) of
                     None \<Rightarrow> c
                   | Some existing \<Rightarrow>
                       c\<lparr>doc := (doc c)\<lparr>menu := None\<rparr>, openTomatoMenu := None\<rparr>);
             n = fresh c1;
             m = \<lparr>tm_node = n, tm_anchor = anchor,
                  tm_target = (case targetPlayerId of Some t \<Rightarrow> t | None \<Rightarrow> [])\<rparr>
         in c1\<lparr>doc := (doc c1)\<lparr>menu :=
                    (if anchor \<in> set (map pc_node (opponents_row (doc c1)))
                     then Some m else None)\<rparr>,
               openTomatoMenu := Some n,
               fresh := n + 1\<rparr>))"

text \<open>\<^verbatim>\<open>removeMenu\<close> of the menu with node \<open>n\<close>.\<close>

definition removeMenu :: "nat \<Rightarrow> client \<Rightarrow> client" where
  "removeMenu n c =
     (let d = (case menu (doc c) of
                 None \<Rightarrow> doc c
               | Some m \<Rightarrow> if tm_node m = n then (doc c)\<lparr>menu := None\<rparr> else doc c)
      in c\<lparr>doc := d, openTomatoMenu := None\<rparr>)"

text \<open>A click on the button of the menu that is open in the document.\<close>

definition on_tomato_menu_btn_click :: "client \<Rightarrow> client" where
  "on_tomato_menu_btn_click c =
     (case menu (doc c) of
        None \<Rightarrow> c
      | Some m \<Rightarrow>
          removeMenu (tm_node m)
            (emit ''throw_tomato'' [JObj [(''target_player_id'', JStr (tm_target m))]] c))"

text \<open>A click in the document, inside the menu, inside its anchor, or elsewhere.\<close>

definition closeOnOutsideClick :: "bool \<Rightarrow> bool \<Rightarrow> client \<Rightarrow> client" where
  "closeOnOutsideClick in_menu in_anchor c =
     (case menu (doc c) of
        None \<Rightarrow> c
      | Some m \<Rightarrow> if in_menu then c else if in_anchor then c else removeMenu (tm_node m) c)"

text \<open>A click on the name button of the opponent card with node \<open>n\<close>.\<close>

definition on_name_btn_click :: "nat \<Rightarrow> client \<Rightarrow> client" where
  "on_name_btn_click n c =
     (case find (\<lambda>p. pc_node p = n) (opponents_row (doc c)) of
        None \<Rightarrow> c
      | Some p \<Rightarrow> toggleTomatoMenu (pc_name_btn p) n c)"


subsection \<open>Class lists and small pieces of markup\<close>

definition cl_add :: "string \<Rightarrow> string list \<Rightarrow> string list" where
  "cl_add tok cls = (if tok \<in> set cls then cls else cls @ [tok])"

definition cl_remove :: "string \<Rightarrow> string list \<Rightarrow> string list" where
  "cl_remove tok cls = filter (\<lambda>t. t \<noteq> tok) cls"

definition cl_toggle :: "string \<Rightarrow> bool \<Rightarrow> string list \<Rightarrow> string list" where
  "cl_toggle tok force cls = (if force then cl_add tok cls else cl_remove tok cls)"

definition star :: string where
  "star = [CHR 0xE2, CHR 0x98, CHR 0x85]"

definition heart_suit :: string where
  "heart_suit = [CHR 0xE2, CHR 0x99, CHR 0xA5]"

definition diamond_suit :: string where
  "diamond_suit = [CHR 0xE2, CHR 0x99, CHR 0xA6]"

definition tomato_emoji :: string where
  "tomato_emoji = [CHR 0xF0, CHR 0x9F, CHR 0x8D, CHR 0x85]"

definition createCardDiv :: "card \<Rightarrow> card_div" where
  "createCardDiv cd =
     (let d = \<lparr>cd_className = [''card''], cd_innerText = str cd\<rparr> in
      if suit cd \<in> set [heart_suit, diamond_suit]
      then d\<lparr>cd_className := cl_add ''red-suit'' (cd_className d)\<rparr>
      else d)"

text \<open>The serialisation of text in \<^verbatim>\<open>outerHTML\<close> escapes the ampersand and the angle
  brackets.\<close>

definition html_escape :: "string \<Rightarrow> string" where
  "html_escape s =
     concat (map (\<lambda>c. if c = CHR ''&'' then ''&amp;''
                        else if c = CHR ''<'' then ''&lt;''
                        else if c = CHR ''>'' then ''&gt;'' else [c]) s)"

fun join_tokens :: "string list \<Rightarrow> string" where
  "join_tokens [] = []"
| "join_tokens [t] = t"
| "join_tokens (t # ts) = t @ '' '' @ join_tokens ts"

definition card_outerHTML :: "card_div \<Rightarrow> string" where
  \<open>card_outerHTML d =
     ''<div class="'' @ join_tokens (cd_className d) @ ''">'' @
     html_escape (cd_innerText d) @ ''</div>''\<close>

definition result_html :: "string \<Rightarrow> string \<Rightarrow> string \<Rightarrow> string \<Rightarrow> string" where
  \<open>result_html successColor msg detailsBtnLabel detailsHtml =
     ''\<newline>'' @
     ''      <div style="color: '' @
     successColor @
     ''">\<newline>'' @
     ''        '' @
     msg @
     ''\<newline>'' @
     ''      </div>\<newline>'' @
     ''\<newline>'' @
     ''      <div style="display:flex; gap:10px; justify-content:center; margin-top:10px; flex-wrap:wrap;">\<newline>'' @
     ''        <button onclick="startGame()">\<newline>'' @
     ''          Next Heist\<newline>'' @
     ''        </button>\<newline>'' @
     ''\<newline>'' @
     ''        <button onclick="restartGame()" style="background:#e74c3c; border:none; color:white; padding:10px 14px; border-radius:4px; cursor:pointer;">\<newline>'' @
     ''          Restart Game (Reset 0/0)\<newline>'' @
     ''        </button>\<newline>'' @
     ''\<newline>'' @
     ''        <button onclick="toggleResultDetails()">\<newline>'' @
     ''          '' @
     detailsBtnLabel @
     ''\<newline>'' @
     ''        </button>\<newline>'' @
     ''      </div>\<newline>'' @
     ''      '' @
     detailsHtml @
     ''\<newline>'' @
     ''    ''\<close>

definition result_row_html :: "ranking_row \<Rightarrow> string" where
  \<open>result_row_html row =
     (let statusClass = (if row_is_correct row then ''ok'' else ''off'');
          statusLabel = (if row_is_correct row then ''OK'' else ''OFF'')
      in
     ''\<newline>'' @
     ''          <div class="result-row">\<newline>'' @
     ''            <span class="result-name">'' @
     row_name row @
     ''</span>\<newline>'' @
     ''            <span class="result-guess">Guess #'' @
     show_int (row_guess_rank row) @
     ''</span>\<newline>'' @
     ''            <span class="result-true">True #'' @
     show_int (row_true_rank row) @
     ''</span>\<newline>'' @
     ''            <span class="result-hand">'' @
     row_hand_class row @
     ''</span>\<newline>'' @
     ''            <span class="result-status '' @
     statusClass @
     ''">'' @
     statusLabel @
     ''</span>\<newline>'' @
     ''          </div>\<newline>'' @
     ''        '')\<close>

definition opp_chip_html :: "string \<Rightarrow> int \<Rightarrow> string \<Rightarrow> string" where
  \<open>opp_chip_html chip_color_v chip_v pid =
     ''\<newline>'' @
     ''        <button class="chip chip-'' @
     toLowerCase chip_color_v @
     ''"\<newline>'' @
     ''                onclick="takeChip('' @
     show_int chip_v @
     '', '' @
     [CHR 0x27] @
     pid @
     [CHR 0x27] @
     '')">\<newline>'' @
     ''          '' @
     [CHR 0xE2, CHR 0x98, CHR 0x85] @
     '' '' @
     show_int chip_v @
     ''\<newline>'' @
     ''        </button>\<newline>'' @
     ''      ''\<close>

subsection \<open>buildResultDetails\<close>

definition result_phase_html :: "(string \<times> ranking_row list) list \<Rightarrow> string \<Rightarrow> string" where
  \<open>result_phase_html details ph =
     (let rows = (case map_of details ph of Some r \<Rightarrow> r | None \<Rightarrow> []) in
      ''<div class="result-phase">'' @
      ''<div class="result-phase-title">'' @ ph @ ''</div>'' @
      (if length rows = 0 then ''<div class="result-empty">No rankings available.</div>''
       else concat (map result_row_html rows)) @
      ''</div>'')\<close>

definition buildResultDetails :: "(string \<times> ranking_row list) list option \<Rightarrow> string" where
  \<open>buildResultDetails details =
     (case details of
        None \<Rightarrow> []
      | Some d \<Rightarrow>
          ''<div class="result-details">'' @
          concat (map (result_phase_html d) [''FLOP'', ''TURN'', ''RIVER'']) @
          ''</div>'')\<close>


subsection \<open>renderGame: the sections of the page\<close>

text \<open>
  The sections follow the numbered comments of \<^verbatim>\<open>renderGame\<close>. A \<^verbatim>\<open>forEach\<close> that
  appends children is a fold over the list; a \<^verbatim>\<open>forEach\<close> that appends to a string is
  the concatenation of the pieces.
\<close>

definition render_status :: "bool \<Rightarrow> snapshot \<Rightarrow> player \<Rightarrow> dom \<Rightarrow> dom" where
  "render_status showDetails s m d =
     (let statusText =
            (if phase s = ''LOBBY'' then ''Waiting for Players...''
             else phase s @ '' - '' @ chip_color s @ '' Chips'');
          d1 = (if phase s \<noteq> ''RESULT'' then d\<lparr>phase_display := InnerText statusText\<rparr>
                else d);
          d2 = d1\<lparr>vault_count := show_int (vaults s),
                   alarm_count := show_int (alarms s),
                   my_name := name m\<rparr>
      in if phase s = ''RESULT'' then
           (let msg = (case result_message s of Some r \<Rightarrow> r | None \<Rightarrow> []);
                successColor =
                  (if js_includes msg ''SUCCESS'' \<or> js_includes msg ''WIN''
                   then ''#2ecc71'' else ''#e74c3c'');
                detailsBtnLabel =
                  (if showDetails then ''Hide Detailed Rankings''
                   else ''Show Detailed Rankings'');
                detailsHtml =
                  (if showDetails then buildResultDetails (result_details s) else [])
            in d2\<lparr>phase_display :=
                    InnerHTML (result_html successColor msg detailsBtnLabel detailsHtml)\<rparr>)
         else d2)"

definition render_community_cards :: "snapshot \<Rightarrow> dom \<Rightarrow> dom" where
  "render_community_cards s d =
     foldl (\<lambda>d1 cd. d1\<lparr>community_cards_el := community_cards_el d1 @ [createCardDiv cd]\<rparr>)
       (d\<lparr>community_cards_el := []\<rparr>) (community_cards s)"

definition chip_class :: "string \<Rightarrow> string list" where
  "chip_class col = [''chip'', ''chip-'' @ toLowerCase col]"

definition make_chip_button :: "string \<Rightarrow> int \<Rightarrow> chip_button" where
  "make_chip_button col val =
     \<lparr>cb_className = chip_class col,
      cb_innerText = star @ '' '' @ show_int val,
      cb_onclick = (JNum val, JStr ''center'')\<rparr>"

definition render_chip_bank :: "snapshot \<Rightarrow> dom \<Rightarrow> dom" where
  "render_chip_bank s d =
     foldl (\<lambda>d1 val. d1\<lparr>chip_bank := chip_bank d1 @ [make_chip_button (chip_color s) val]\<rparr>)
       (d\<lparr>chip_bank := []\<rparr>) (chips_available s)"

text \<open>A click on a button of the chip bank runs its handler.\<close>

definition click_chip_button :: "chip_button \<Rightarrow> client \<Rightarrow> client" where
  "click_chip_button b c = takeChip (fst (cb_onclick b)) (snd (cb_onclick b)) c"

definition mini_chip_html :: "chip_entry \<Rightarrow> string" where
  \<open>mini_chip_html h =
     ''<span class="mini-chip chip-'' @ toLowerCase (h_color h) @ ''">'' @
     show_int (h_value h) @ ''</span>''\<close>

definition opp_history_html :: "player \<Rightarrow> string" where
  \<open>opp_history_html p =
     (case chip_history p of
        None \<Rightarrow> []
      | Some hs \<Rightarrow>
          if length hs > 0
          then ''<div class="chip-history">'' @ concat (map mini_chip_html hs) @ ''</div>''
          else [])\<close>

definition opp_hand_html :: "player \<Rightarrow> string" where
  \<open>opp_hand_html p =
     (let hidden = ''<div class="p-hand">'' @ [CHR 0xF0, CHR 0x9F, CHR 0x82, CHR 0xA0] @ '' '' @
                   [CHR 0xF0, CHR 0x9F, CHR 0x82, CHR 0xA0] @ ''</div>''
      in case hand p of
           None \<Rightarrow> hidden
         | Some cs \<Rightarrow>
             if length cs > 0
             then ''<div class="card-container small">'' @
                  concat (map (\<lambda>cd. card_outerHTML
                          ((createCardDiv cd)\<lparr>cd_className :=
                              cl_add ''small-card'' (cd_className (createCardDiv cd))\<rparr>)) cs) @
                  ''</div>''
             else hidden)\<close>

definition opp_chip :: "snapshot \<Rightarrow> player \<Rightarrow> string" where
  \<open>opp_chip s p =
     (case chip p of
        None \<Rightarrow> ''<span class="no-chip">No Chip</span>''
      | Some v \<Rightarrow>
          if v \<noteq> 0 then opp_chip_html (chip_color s) v (player_id p)
          else ''<span class="no-chip">No Chip</span>'')\<close>

definition opp_status :: "real \<Rightarrow> player \<Rightarrow> status_label" where
  "opp_status now p =
     (if \<not> is_connected p then
        (let nowSec = dbl (now / 1000);
             at_v = (case disconnected_at p of Some a \<Rightarrow> a | None \<Rightarrow> 0);
             initial =
               (if at_v \<noteq> 0 then '' ('' @ formatDuration (dbl (nowSec - at_v)) @ '')''
                else [])
         in Disconnected at_v initial)
      else StatusText (if is_settled p
                       then [CHR 0xE2, CHR 0x9C, CHR 0x94] @ '' SETTLED'' else ''...''))"

definition opp_kick_html :: "player \<Rightarrow> string" where
  \<open>opp_kick_html p =
     (if \<not> is_connected p
      then ''<button class="kick-btn" onclick="removePlayer('' @ [CHR 0x27] @ player_id p @
           [CHR 0x27] @ '')">Remove</button>''
      else [])\<close>

definition opp_className :: "player \<Rightarrow> string list" where
  "opp_className p =
     [''player-card'', if is_settled p then ''settled'' else ''thinking''] @
     (if \<not> is_connected p then [''disconnected''] else [])"

definition make_opp_card :: "snapshot \<Rightarrow> real \<Rightarrow> nat \<Rightarrow> player \<Rightarrow> opp_card" where
  \<open>make_opp_card s now n p =
     \<lparr>pc_node = n,
      pc_className = opp_className p,
      pc_data_player_id = Some (player_id p),
      pc_name = ''<button class="p-name-btn" data-player-id="'' @ player_id p @
                ''" data-player-name="'' @ replace_quot (name p) @ ''">'' @ name p @
                ''</button>'',
      pc_name_btn = Some (attr_value [] (player_id p)),
      pc_status = opp_status now p,
      pc_kickHtml = opp_kick_html p,
      pc_handHtml = opp_hand_html p,
      pc_chipHtml = opp_chip s p,
      pc_historyHtml = opp_history_html p,
      pc_splat = True\<rparr>\<close>

definition render_opponents ::
  "(nat \<Rightarrow> player \<Rightarrow> opp_card) \<Rightarrow> player \<Rightarrow> bool \<Rightarrow> player list \<Rightarrow> dom \<times> nat \<Rightarrow> dom \<times> nat" where
  "render_opponents mk m isObserverView ps dn =
     (let myPlayerId = (if isObserverView then None else Some (player_id m)) in
      foldl (\<lambda>(d, n) p.
               if is_observer p then (d, n)
               else if truthy_str myPlayerId \<and> Some (player_id p) = myPlayerId then (d, n)
               else (d\<lparr>opponents_row := opponents_row d @ [mk n p]\<rparr>, n + 1))
        ((fst dn)\<lparr>opponents_row := []\<rparr>, snd dn) ps)"

definition make_pill :: "bool \<Rightarrow> player \<Rightarrow> bool \<Rightarrow> player \<Rightarrow> pill" where
  "make_pill with_queue m isObserverView ob =
     (let youTag = (if isObserverView \<and> player_id ob = player_id m then '' (You)'' else []);
          queueTag = (if with_queue \<and> queued_to_join ob then '' (QUEUING)'' else [])
      in \<lparr>pill_className =
            [''observer-pill''] @ (if \<not> is_connected ob then [''disconnected''] else []),
          pill_textContent = name ob @ queueTag @ youTag\<rparr>)"

definition render_observers :: "bool \<Rightarrow> snapshot \<Rightarrow> player \<Rightarrow> bool \<Rightarrow> dom \<Rightarrow> dom" where
  \<open>render_observers with_queue s m isObserverView d =
     (let d0 = d\<lparr>observer_list_html := [], observer_list := []\<rparr>;
          observerItems = filter is_observer (players s);
          d1 = (if length observerItems = 0
                then d0\<lparr>observer_list_html := ''<span class="observer-empty">No observers</span>''\<rparr>
                else foldl (\<lambda>d2 ob. d2\<lparr>observer_list :=
                               observer_list d2 @ [make_pill with_queue m isObserverView ob]\<rparr>)
                       d0 observerItems)
      in d1\<lparr>observer_status := (if isObserverView then ''You are observing'' else []),
            observer_btn := (if isObserverView then ''Join Game'' else ''Observe'')\<rparr>)\<close>

definition make_chat_line :: "chat_msg \<Rightarrow> chat_line" where
  "make_chat_line msg =
     \<lparr>cl_name = msg_name msg @ (if msg_is_observer msg then '' (Observer)'' else []),
      cl_text = msg_text msg\<rparr>"

text \<open>The scroll position of the chat depends on the layout and is not part of the model.\<close>

definition render_chat :: "snapshot \<Rightarrow> dom \<Rightarrow> dom" where
  "render_chat s d =
     (case chat_messages_el d of
        None \<Rightarrow> d
      | Some old \<Rightarrow>
          foldl (\<lambda>d1 msg. d1\<lparr>chat_messages_el :=
                   Some ((case chat_messages_el d1 of Some ls \<Rightarrow> ls | None \<Rightarrow> []) @
                         [make_chat_line msg])\<rparr>)
            (d\<lparr>chat_messages_el := Some []\<rparr>)
            (case chat_messages s of Some ms \<Rightarrow> ms | None \<Rightarrow> []))"


definition make_mini_chip :: "chip_entry \<Rightarrow> mini_chip" where
  "make_mini_chip h =
     \<lparr>mc_className = [''mini-chip'', ''chip-'' @ toLowerCase (h_color h)],
      mc_innerText = show_int (h_value h)\<rparr>"

definition render_my_cards :: "player \<Rightarrow> bool \<Rightarrow> dom \<Rightarrow> dom" where
  "render_my_cards m isObserverView d =
     (let d0 = d\<lparr>my_cards := []\<rparr> in
      case hand m of
        None \<Rightarrow> d0
      | Some cs \<Rightarrow>
          if \<not> isObserverView \<and> length cs > 0
          then foldl (\<lambda>d1 cd. d1\<lparr>my_cards := my_cards d1 @ [createCardDiv cd]\<rparr>) d0 cs
          else d0)"

definition render_my_history :: "player \<Rightarrow> bool \<Rightarrow> dom \<Rightarrow> dom" where
  "render_my_history m isObserverView d =
     (let d0 = d\<lparr>my_history := []\<rparr> in
      case chip_history m of
        None \<Rightarrow> d0
      | Some hs \<Rightarrow>
          if \<not> isObserverView \<and> length hs > 0
          then foldl (\<lambda>d1 h. d1\<lparr>my_history := my_history d1 @ [make_mini_chip h]\<rparr>) d0 hs
          else d0)"

definition render_my_chip :: "snapshot \<Rightarrow> player \<Rightarrow> bool \<Rightarrow> dom \<Rightarrow> dom" where
  \<open>render_my_chip s m isObserverView d =
     (if \<not> isObserverView \<and> truthy_num (chip m) then
        d\<lparr>my_chip_slot :=
             ''<div class="chip chip-'' @ toLowerCase (chip_color s) @ ''">'' @ star @ '' '' @
             show_int (case chip m of Some v \<Rightarrow> v | None \<Rightarrow> 0) @ ''</div>'',
           settle_btn_disabled := False,
           return_btn_disabled := is_settled m\<rparr>
      else if isObserverView then
        d\<lparr>my_chip_slot := ''<span class="placeholder">Observer</span>'',
           settle_btn_disabled := True,
           return_btn_disabled := True\<rparr>
      else
        d\<lparr>my_chip_slot := ''<span class="placeholder">Pick a chip</span>'',
           settle_btn_disabled := True,
           return_btn_disabled := True\<rparr>)\<close>

definition render_settle :: "player \<Rightarrow> bool \<Rightarrow> dom \<Rightarrow> dom" where
  "render_settle m isObserverView d =
     (if isObserverView then
        d\<lparr>settle_btn_innerText := ''I'' @ [CHR 0x27] @ ''m Settled'',
           settle_btn_classList := cl_remove ''active'' (settle_btn_classList d),
           chip_bank_classList := cl_add ''disabled'' (chip_bank_classList d)\<rparr>
      else if is_settled m then
        d\<lparr>settle_btn_innerText := ''Cancel Settle'',
           settle_btn_classList := cl_add ''active'' (settle_btn_classList d),
           chip_bank_classList := cl_add ''disabled'' (chip_bank_classList d)\<rparr>
      else
        d\<lparr>settle_btn_innerText := ''I'' @ [CHR 0x27] @ ''m Settled'',
           settle_btn_classList := cl_remove ''active'' (settle_btn_classList d),
           chip_bank_classList := cl_remove ''disabled'' (chip_bank_classList d)\<rparr>)"

definition render_my_state :: "snapshot \<Rightarrow> player \<Rightarrow> bool \<Rightarrow> dom \<Rightarrow> dom" where
  "render_my_state s m isObserverView d =
     render_settle m isObserverView
       (render_my_chip s m isObserverView
          (render_my_history m isObserverView (render_my_cards m isObserverView d)))"

definition ensureTomatoSplat :: "player_area \<Rightarrow> player_area" where
  "ensureTomatoSplat pa = (if pa_splat pa then pa else pa\<lparr>pa_splat := True\<rparr>)"

text \<open>The last statements on the player area, in the version with the tomato effect.\<close>

definition render_player_area :: "player \<Rightarrow> bool \<Rightarrow> dom \<Rightarrow> dom" where
  "render_player_area m isObserverView d =
     (case player_area_el d of
        None \<Rightarrow> d
      | Some pa \<Rightarrow>
          d\<lparr>player_area_el := Some
               ((ensureTomatoSplat
                   (pa\<lparr>pa_classList :=
                         cl_toggle ''playing-settled'' (\<not> isObserverView \<and> is_settled m)
                           (pa_classList pa)\<rparr>))
                  \<lparr>pa_data_player_id := Some (player_id m)\<rparr>)\<rparr>)"

text \<open>The refresh of the \<^verbatim>\<open>disc-time\<close> spans; every number of the model is finite.\<close>

definition updateDisconnectedTimers :: "real \<Rightarrow> client \<Rightarrow> client" where
  "updateDisconnectedTimers now c =
     (let nowSec = dbl (now / 1000) in
      c\<lparr>doc := (doc c)\<lparr>opponents_row :=
            map (\<lambda>p. case pc_status p of
                        Disconnected a txt \<Rightarrow>
                          if a \<le> 0 then p
                          else p\<lparr>pc_status :=
                                  Disconnected a
                                    ('' ('' @ formatDuration (dbl (nowSec - a)) @ '')'')\<rparr>
                      | StatusText txt \<Rightarrow> p)
              (opponents_row (doc c))\<rparr>\<rparr>)"


subsection \<open>Timers\<close>

text \<open>\<^verbatim>\<open>setTimeout\<close> at time \<open>now\<close>; the new timer's number is \<open>fresh c\<close>.\<close>

definition setTimeout :: "timer_cb \<Rightarrow> real \<Rightarrow> real \<Rightarrow> client \<Rightarrow> client" where
  "setTimeout cb delay now c =
     c\<lparr>timers := timers c @ [\<lparr>t_id = fresh c, t_due = now + delay, t_cb = cb\<rparr>],
       fresh := fresh c + 1\<rparr>"

definition clearTimeout :: "nat \<Rightarrow> client \<Rightarrow> client" where
  "clearTimeout i c = c\<lparr>timers := filter (\<lambda>t. t_id t \<noteq> i) (timers c)\<rparr>"

text \<open>\<^verbatim>\<open>if (x) clearTimeout(x)\<close>; timer numbers are positive.\<close>

definition clear_if_set :: "nat option \<Rightarrow> client \<Rightarrow> client" where
  "clear_if_set v c = (case v of None \<Rightarrow> c | Some i \<Rightarrow> clearTimeout i c)"

subsection \<open>The tomato effect\<close>

text \<open>\<open>map_classes f\<close> applies \<open>f\<close> to the class list of every element of the document.\<close>

definition map_classes :: "(string list \<Rightarrow> string list) \<Rightarrow> dom \<Rightarrow> dom" where
  "map_classes f d =
     d\<lparr>body_classList := f (body_classList d),
       chip_bank_classList := f (chip_bank_classList d),
       settle_btn_classList := f (settle_btn_classList d),
       community_cards_el :=
         map (\<lambda>x. x\<lparr>cd_className := f (cd_className x)\<rparr>) (community_cards_el d),
       chip_bank := map (\<lambda>x. x\<lparr>cb_className := f (cb_className x)\<rparr>) (chip_bank d),
       opponents_row := map (\<lambda>x. x\<lparr>pc_className := f (pc_className x)\<rparr>) (opponents_row d),
       observer_list := map (\<lambda>x. x\<lparr>pill_className := f (pill_className x)\<rparr>) (observer_list d),
       my_cards := map (\<lambda>x. x\<lparr>cd_className := f (cd_className x)\<rparr>) (my_cards d),
       my_history := map (\<lambda>x. x\<lparr>mc_className := f (mc_className x)\<rparr>) (my_history d),
       player_area_el :=
         map_option (\<lambda>x. x\<lparr>pa_classList := f (pa_classList x)\<rparr>) (player_area_el d),
       tomato_toast :=
         map_option (\<lambda>x. x\<lparr>toast_classList := f (toast_classList x)\<rparr>) (tomato_toast d),
       game_action_toast :=
         map_option (\<lambda>x. x\<lparr>toast_classList := f (toast_classList x)\<rparr>) (game_action_toast d)\<rparr>"

text \<open>\<^verbatim>\<open>document.querySelectorAll(".tomato-hit").forEach(el => el.classList.remove(...))\<close>\<close>

definition clear_hits :: "dom \<Rightarrow> dom" where
  "clear_hits d = map_classes (cl_remove ''tomato-hit'') d"

text \<open>All class lists of the document, to say that a class is nowhere.\<close>

definition all_classes :: "dom \<Rightarrow> string list list" where
  "all_classes d =
     [body_classList d, chip_bank_classList d, settle_btn_classList d] @
     map cd_className (community_cards_el d) @ map cb_className (chip_bank d) @
     map pc_className (opponents_row d) @ map pill_className (observer_list d) @
     map cd_className (my_cards d) @ map mc_className (my_history d) @
     (case player_area_el d of None \<Rightarrow> [] | Some x \<Rightarrow> [pa_classList x]) @
     (case tomato_toast d of None \<Rightarrow> [] | Some x \<Rightarrow> [toast_classList x]) @
     (case game_action_toast d of None \<Rightarrow> [] | Some x \<Rightarrow> [toast_classList x])"

definition no_hits :: "dom \<Rightarrow> bool" where
  "no_hits d = (''tomato-hit'' \<notin> set (concat (all_classes d)))"

definition updateTomatoToast :: "string option \<Rightarrow> dom \<Rightarrow> dom" where
  "updateTomatoToast txt d =
     (if \<not> game_container d then d
      else
        (let t = (case tomato_toast d of
                    None \<Rightarrow> \<lparr>toast_classList = [], toast_textContent = []\<rparr>
                  | Some t0 \<Rightarrow> t0)
         in case txt of
              None \<Rightarrow>
                d\<lparr>tomato_toast := Some (t\<lparr>toast_classList := cl_remove ''show'' (toast_classList t),
                                            toast_textContent := []\<rparr>)\<rparr>
            | Some x \<Rightarrow>
                if x = [] then
                  d\<lparr>tomato_toast := Some (t\<lparr>toast_classList := cl_remove ''show'' (toast_classList t),
                                              toast_textContent := []\<rparr>)\<rparr>
                else
                  d\<lparr>tomato_toast := Some (t\<lparr>toast_textContent := x,
                                              toast_classList := cl_add ''show'' (toast_classList t)\<rparr>)\<rparr>))"

text \<open>\<^verbatim>\<open>document.querySelector(`.player-card[data-player-id="${id}"]`)\<close>: the first
  element of class \<^verbatim>\<open>player-card\<close> whose \<^verbatim>\<open>data-player-id\<close> is the value the selector
  asks for, or the error that \<^verbatim>\<open>querySelector\<close> throws. The opponents' cards are the
  elements of that class.\<close>

definition find_card :: "string \<Rightarrow> dom \<Rightarrow> js_error + opp_card option" where
  "find_card tid d =
     (case selector_value tid of
        Inl err \<Rightarrow> Inl err
      | Inr v \<Rightarrow>
          Inr (find (\<lambda>p. ''player-card'' \<in> set (pc_className p) \<and> pc_data_player_id p = Some v)
                 (opponents_row d)))"

text \<open>\<^verbatim>\<open>card || (me && me.player_id === id ? playerAreaEl : null)\<close>\<close>

definition card_or_area :: "opp_card option \<Rightarrow> string option \<Rightarrow> player option \<Rightarrow> dom \<Rightarrow> target_ref option" where
  "card_or_area cd tid me_v d =
     (case cd of
        Some p \<Rightarrow> Some (CardRef (pc_node p))
      | None \<Rightarrow>
          (case me_v of
             None \<Rightarrow> None
           | Some m \<Rightarrow>
               if Some (player_id m) = tid
               then (case player_area_el d of None \<Rightarrow> None | Some pa \<Rightarrow> Some AreaRef)
               else None))"

text \<open>The element of an id that may be absent: \<^verbatim>\<open>id ? querySelector(...) : null\<close> first.\<close>

definition resolve_el :: "string option \<Rightarrow> player option \<Rightarrow> dom \<Rightarrow> js_error + target_ref option" where
  "resolve_el tid me_v d =
     (case tid of
        None \<Rightarrow> Inr (card_or_area None tid me_v d)
      | Some t \<Rightarrow>
          if t = [] then Inr (card_or_area None tid me_v d)
          else (case find_card t d of
                  Inl err \<Rightarrow> Inl err
                | Inr cd \<Rightarrow> Inr (card_or_area cd tid me_v d)))"

text \<open>\<^verbatim>\<open>el.classList.add("tomato-hit")\<close>. A card that is no longer in the document never
  returns to it, so a class added to such a card is not recorded.\<close>

definition add_hit :: "target_ref \<Rightarrow> dom \<Rightarrow> dom" where
  "add_hit r d =
     (case r of
        CardRef n \<Rightarrow>
          d\<lparr>opponents_row :=
               map (\<lambda>p. if pc_node p = n
                         then p\<lparr>pc_className := cl_add ''tomato-hit'' (pc_className p)\<rparr> else p)
                 (opponents_row d)\<rparr>
      | AreaRef \<Rightarrow>
          d\<lparr>player_area_el :=
               map_option (\<lambda>pa. pa\<lparr>pa_classList := cl_add ''tomato-hit'' (pa_classList pa)\<rparr>)
                 (player_area_el d)\<rparr>)"

definition scheduleTomatoClear :: "real \<Rightarrow> client \<Rightarrow> client" where
  "scheduleTomatoClear now c =
     (let c1 = clear_if_set (tomatoClearTimeout c) c in
      (setTimeout ClearCb TOMATO_LIFETIME_MS now c1)\<lparr>tomatoClearTimeout := Some (fresh c1)\<rparr>)"

definition scheduleTomatoImpact ::
  "string option \<Rightarrow> player option \<Rightarrow> real \<Rightarrow> real \<Rightarrow> client \<Rightarrow> client" where
  "scheduleTomatoImpact targetId me_v delayMs now c =
     (case targetId of
        None \<Rightarrow> c
      | Some tid \<Rightarrow>
          if tid = [] then c
          else
            (let c1 = clear_if_set (tomatoImpactTimeout c) c in
             (setTimeout (ImpactCb tid me_v) (max 0 delayMs) now c1)
               \<lparr>tomatoImpactTimeout := Some (fresh c1)\<rparr>))"

text \<open>The position and the movement of the flying tomato depend on the layout; the model
  keeps the element, its \<^verbatim>\<open>transitionend\<close> listener and its timeout.\<close>

definition animateTomatoFlight :: "target_ref \<Rightarrow> target_ref \<Rightarrow> real \<Rightarrow> client \<Rightarrow> client" where
  "animateTomatoFlight sourceEl targetEl now c =
     (if \<not> game_container (doc c) then c
      else
        (let n = fresh c;
             c1 = c\<lparr>doc := (doc c)\<lparr>tomato_flights := tomato_flights (doc c) @ [n]\<rparr>,
                    flight_listeners := flight_listeners c @ [(n, targetEl)],
                    fresh := n + 1\<rparr>
         in setTimeout (FlightCb n targetEl) (TOMATO_FLIGHT_MS + 200) now c1))"


text \<open>The two early exits of \<^verbatim>\<open>applyTomatoEffect\<close> run the same statements.\<close>

definition clear_stale :: "client \<Rightarrow> client" where
  "clear_stale c =
     (let c1 = c\<lparr>doc := clear_hits (doc c)\<rparr>;
          c2 = clear_if_set (tomatoImpactTimeout c1) c1
      in c2\<lparr>doc := updateTomatoToast None (doc c2)\<rparr>)"

definition splat_text :: "tomato_ev \<Rightarrow> string" where
  "splat_text e =
     tomato_emoji @ '' '' @ ev_from_name e @ '' splats '' @ ev_to_name e @ ''!''"

definition show_toast :: "tomato_ev \<Rightarrow> client \<Rightarrow> client" where
  "show_toast e c = c\<lparr>doc := updateTomatoToast (Some (splat_text e)) (doc c)\<rparr>"

text \<open>The assignments of \<^verbatim>\<open>applyTomatoEffect\<close> to the variables of the effect, for an
  event with time \<open>a\<close>.\<close>

definition note_event :: "tomato_ev \<Rightarrow> real \<Rightarrow> real \<Rightarrow> client \<Rightarrow> client" where
  "note_event e a now c =
     (let c1 = (if truthy_str (ev_id e) then c\<lparr>lastTomatoEventId := ev_id e\<rparr> else c)
      in if truthy_str (ev_to_id e)
         then c1\<lparr>activeTomatoTargetId := ev_to_id e,
                 activeTomatoExpiresAt := dbl (dbl (a * 1000) + TOMATO_LIFETIME_MS),
                 activeTomatoShowAt := dbl (now + TOMATO_FLIGHT_MS)\<rparr>
         else c1)"

text \<open>The last statement of \<^verbatim>\<open>applyTomatoEffect\<close>, on the source and target elements.\<close>

definition splat ::
  "tomato_ev \<Rightarrow> player option \<Rightarrow> real \<Rightarrow> target_ref option \<Rightarrow> target_ref option \<Rightarrow> client \<Rightarrow> client" where
  "splat e me_v now sourceEl targetEl c =
     (case targetEl of
        None \<Rightarrow> scheduleTomatoClear now (show_toast e c)
      | Some tgt \<Rightarrow>
          (case sourceEl of
             Some src \<Rightarrow>
               scheduleTomatoClear now
                 (show_toast e
                    (scheduleTomatoImpact (ev_to_id e) me_v TOMATO_FLIGHT_MS now
                       (animateTomatoFlight src tgt now c)))
           | None \<Rightarrow>
               scheduleTomatoClear now (show_toast e (c\<lparr>doc := add_hit tgt (doc c)\<rparr>))))"

text \<open>
  \<open>applyTomatoEffect event me now\<close>; the player area is the one of the document. An
  event without a numeric \<^verbatim>\<open>at\<close> has \<open>ev_at = None\<close>. The result is the error with
  which the function was left, if any, and the state at that point; both calls of
  \<^verbatim>\<open>querySelector\<close> come before the first assignment.
\<close>

definition applyTomatoEffect ::
  "tomato_ev option \<Rightarrow> player option \<Rightarrow> real \<Rightarrow> client \<Rightarrow> js_error option \<times> client" where
  "applyTomatoEffect event me_v now c =
     (case event of
        None \<Rightarrow> (None, clear_stale c)
      | Some e \<Rightarrow>
          (case ev_at e of
             None \<Rightarrow> (None, clear_stale c)
           | Some a \<Rightarrow>
               (let ageMs = dbl (now - dbl (a * 1000)) in
                if ageMs > TOMATO_LIFETIME_MS then (None, clear_stale c)
                else if truthy_str (ev_id e) \<and> ev_id e = lastTomatoEventId c then (None, c)
                else
                  (case resolve_el (ev_to_id e) me_v (doc c) of
                     Inl err \<Rightarrow> (Some err, c)
                   | Inr targetEl \<Rightarrow>
                       (case resolve_el (ev_from_id e) me_v (doc c) of
                          Inl err \<Rightarrow> (Some err, c)
                        | Inr sourceEl \<Rightarrow>
                            (None, splat e me_v now sourceEl targetEl
                                     (note_event e a now c)))))))"

definition applyActiveTomatoTarget ::
  "player option \<Rightarrow> real \<Rightarrow> client \<Rightarrow> js_error option \<times> client" where
  "applyActiveTomatoTarget me_v now c =
     (if \<not> truthy_str (activeTomatoTargetId c) \<or> now > activeTomatoExpiresAt c then
        (let c1 = c\<lparr>doc := clear_hits (doc c),
                     activeTomatoTargetId := None,
                     activeTomatoExpiresAt := 0,
                     activeTomatoShowAt := 0\<rparr>
         in (None, clear_if_set (tomatoImpactTimeout c1) c1))
      else if activeTomatoShowAt c \<noteq> 0 \<and> now < activeTomatoShowAt c then
        (None, scheduleTomatoImpact (activeTomatoTargetId c) me_v
                 (dbl (activeTomatoShowAt c - now)) now c)
      else
        (case find_card (case activeTomatoTargetId c of Some t \<Rightarrow> t | None \<Rightarrow> []) (doc c) of
           Inl err \<Rightarrow> (Some err, c)
         | Inr cd \<Rightarrow>
             (case card_or_area cd (activeTomatoTargetId c) me_v (doc c) of
                None \<Rightarrow> (None, c)
              | Some tgt \<Rightarrow> (None, c\<lparr>doc := add_hit tgt (doc c)\<rparr>))))"

subsection \<open>What the pending callbacks do\<close>

definition fire_clear :: "client \<Rightarrow> client" where
  "fire_clear c =
     (let c1 = c\<lparr>doc := (clear_hits (doc c))\<lparr>tomato_flights := []\<rparr>,
                  activeTomatoTargetId := None,
                  activeTomatoExpiresAt := 0,
                  activeTomatoShowAt := 0\<rparr>;
          c2 = clear_if_set (tomatoImpactTimeout c1) c1
      in c2\<lparr>doc := updateTomatoToast None (doc c2)\<rparr>)"

text \<open>The callback of the impact timeout; an error of \<^verbatim>\<open>querySelector\<close> ends it.\<close>

definition fire_impact :: "string \<Rightarrow> player option \<Rightarrow> client \<Rightarrow> client" where
  "fire_impact tid me_v c =
     (case find_card tid (doc c) of
        Inl err \<Rightarrow> c
      | Inr cd \<Rightarrow>
          (case card_or_area cd (Some tid) me_v (doc c) of
             None \<Rightarrow> c
           | Some tgt \<Rightarrow> c\<lparr>doc := add_hit tgt (doc c)\<rparr>))"

text \<open>The timeout of a flying tomato, \<^verbatim>\<open>if (!tomato.isConnected) return; ...\<close>\<close>

definition fire_flight :: "nat \<Rightarrow> target_ref \<Rightarrow> client \<Rightarrow> client" where
  "fire_flight n targetEl c =
     (if n \<notin> set (tomato_flights (doc c)) then c
      else c\<lparr>flight_listeners := filter (\<lambda>l. fst l \<noteq> n) (flight_listeners c),
             doc := add_hit targetEl
                      ((doc c)\<lparr>tomato_flights := filter (\<lambda>k. k \<noteq> n) (tomato_flights (doc c))\<rparr>)\<rparr>)"

text \<open>The \<^verbatim>\<open>transitionend\<close> listener \<^verbatim>\<open>cleanup\<close> of the flying tomato with node \<open>n\<close>.\<close>

definition on_transitionend :: "nat \<Rightarrow> client \<Rightarrow> client" where
  "on_transitionend n c =
     (case find (\<lambda>l. fst l = n) (flight_listeners c) of
        None \<Rightarrow> c
      | Some l \<Rightarrow>
          c\<lparr>flight_listeners := filter (\<lambda>l. fst l \<noteq> n) (flight_listeners c),
            doc := add_hit (snd l)
                     ((doc c)\<lparr>tomato_flights := filter (\<lambda>k. k \<noteq> n) (tomato_flights (doc c))\<rparr>)\<rparr>)"

definition fire_toast :: "client \<Rightarrow> client" where
  "fire_toast c =
     c\<lparr>doc := (doc c)\<lparr>game_action_toast :=
           map_option (\<lambda>t. t\<lparr>toast_classList := cl_remove ''show'' (toast_classList t)\<rparr>)
             (game_action_toast (doc c))\<rparr>\<rparr>"

definition fire :: "timer_cb \<Rightarrow> client \<Rightarrow> client" where
  "fire cb c =
     (case cb of
        ClearCb \<Rightarrow> fire_clear c
      | ImpactCb tid me_v \<Rightarrow> fire_impact tid me_v c
      | FlightCb n targetEl \<Rightarrow> fire_flight n targetEl c
      | ToastCb \<Rightarrow> fire_toast c)"

text \<open>
  The browser runs a pending callback when its time has come, the earliest first and, of
  two with the same time, the one set first. \<open>earliest\<close> picks it; \<open>advance t\<close> runs the
  callbacks due up to time \<open>t\<close> while nothing else happens.
\<close>

definition before :: "timer \<Rightarrow> timer \<Rightarrow> bool" where
  "before x y = (t_due x < t_due y \<or> (t_due x = t_due y \<and> t_id x \<le> t_id y))"

fun earliest :: "timer list \<Rightarrow> timer option" where
  "earliest [] = None"
| "earliest (x # xs) =
     (case earliest xs of
        None \<Rightarrow> Some x
      | Some y \<Rightarrow> if before x y then Some x else Some y)"







subsection \<open>The remaining socket listeners\<close>

definition showGameActionToast :: "string option \<Rightarrow> real \<Rightarrow> client \<Rightarrow> client" where
  "showGameActionToast txt now c =
     (if \<not> game_container (doc c) then c
      else
        (let t = (case game_action_toast (doc c) of
                    None \<Rightarrow> \<lparr>toast_classList = [], toast_textContent = []\<rparr>
                  | Some t0 \<Rightarrow> t0)
         in if \<not> truthy_str txt then
              c\<lparr>doc := (doc c)\<lparr>game_action_toast :=
                    Some (t\<lparr>toast_classList := cl_remove ''show'' (toast_classList t),
                            toast_textContent := []\<rparr>)\<rparr>\<rparr>
            else
              (let c1 = c\<lparr>doc := (doc c)\<lparr>game_action_toast :=
                              Some (t\<lparr>toast_textContent :=
                                        (case txt of Some x \<Rightarrow> x | None \<Rightarrow> []),
                                      toast_classList := cl_add ''show'' (toast_classList t)\<rparr>)\<rparr>\<rparr>;
                   c2 = clear_if_set (gameActionToastTimeout c1) c1
               in (setTimeout ToastCb GAME_ACTION_TOAST_MS now c2)
                    \<lparr>gameActionToastTimeout := Some (fresh c2)\<rparr>)))"

definition on_tomato_event :: "tomato_ev option \<Rightarrow> real \<Rightarrow> client \<Rightarrow> client" where
  "on_tomato_event event now c =
     (case lastState c of
        None \<Rightarrow> c\<lparr>pendingTomatoEvent := event\<rparr>
      | Some s \<Rightarrow>
          (let c1 = (case player_area_el (doc c) of
                       None \<Rightarrow> c
                     | Some pa \<Rightarrow>
                         (case me s of
                            None \<Rightarrow> c
                          | Some m \<Rightarrow>
                              c\<lparr>doc := (doc c)\<lparr>player_area_el :=
                                    Some (ensureTomatoSplat
                                            (pa\<lparr>pa_data_player_id := Some (player_id m)\<rparr>))\<rparr>\<rparr>))
           in snd (applyTomatoEffect event (me s) now c1)))"

subsection \<open>renderGame\<close>

text \<open>The statements of \<^verbatim>\<open>renderGame\<close> after \<^verbatim>\<open>if (!me) return;\<close>, for a snapshot \<open>s\<close>
  with \<open>me s = Some m\<close>. Emptying the opponents row takes an open tomato menu, which hangs
  on a card, out of the document.\<close>

definition sync_observer :: "bool \<Rightarrow> client \<Rightarrow> client" where
  "sync_observer isObserverView c =
     (if isObserverView \<noteq> isObserver c
      then c\<lparr>isObserver := isObserverView,
             localStorage :=
               (localStorage c)(''observer_mode'' \<mapsto> js_String_bool isObserverView)\<rparr>
      else c)"

definition menu_connected :: "nat \<Rightarrow> dom \<Rightarrow> bool" where
  "menu_connected n d = (case menu d of None \<Rightarrow> False | Some m \<Rightarrow> tm_node m = n)"

text \<open>\<^verbatim>\<open>if (openTomatoMenu && !openTomatoMenu.isConnected) openTomatoMenu = null;\<close>\<close>

definition forget_detached_menu :: "client \<Rightarrow> client" where
  "forget_detached_menu c =
     (case openTomatoMenu c of
        None \<Rightarrow> c
      | Some n \<Rightarrow> if \<not> menu_connected n (doc c) then c\<lparr>openTomatoMenu := None\<rparr> else c)"

text \<open>The statements that rebuild the page, from the toggle of the body's class to the
  player area: on the document and the next node number.\<close>

definition render_page ::
  "snapshot \<Rightarrow> player \<Rightarrow> bool \<Rightarrow> real \<Rightarrow> bool \<Rightarrow> dom \<times> nat \<Rightarrow> dom \<times> nat" where
  "render_page s m isObserverView now showDetails dn =
     (let d1 = (fst dn)\<lparr>body_classList :=
                  cl_toggle ''observer-mode'' isObserverView (body_classList (fst dn))\<rparr>;
          d2 = render_status showDetails s m d1;
          d3 = render_community_cards s d2;
          d4 = render_chip_bank s d3;
          (d5, n5) = render_opponents (make_opp_card s now) m isObserverView (players s)
                       (d4\<lparr>menu := None\<rparr>, snd dn);
          d6 = render_observers True s m isObserverView d5;
          d7 = render_chat s d6;
          d8 = render_my_state s m isObserverView d7;
          d9 = render_player_area m isObserverView d8
      in (d9, n5))"

text \<open>The statements on the tomato effect at the end of \<^verbatim>\<open>renderGame\<close>; an error
  leaves them at the call that throws it.\<close>

definition render_tomato ::
  "snapshot \<Rightarrow> player \<Rightarrow> real \<Rightarrow> client \<Rightarrow> js_error option \<times> client" where
  "render_tomato s m now c =
     (case applyActiveTomatoTarget (Some m) now c of
        (Some err, c4) \<Rightarrow> (Some err, c4)
      | (None, c4) \<Rightarrow>
          (case applyTomatoEffect (tomato_event s) (Some m) now c4 of
             (Some err, c5) \<Rightarrow> (Some err, c5)
           | (None, c5) \<Rightarrow>
               (case pendingTomatoEvent c5 of
                  None \<Rightarrow> (None, c5)
                | Some e \<Rightarrow>
                    (case applyTomatoEffect (Some e) (Some m) now c5 of
                       (Some err, c6) \<Rightarrow> (Some err, c6)
                     | (None, c6) \<Rightarrow> (None, c6\<lparr>pendingTomatoEvent := None\<rparr>)))))"

text \<open>The last statement of \<^verbatim>\<open>renderGame\<close>, which an error before it skips.\<close>

definition render_end :: "real \<Rightarrow> js_error option \<times> client \<Rightarrow> client" where
  "render_end now r =
     (case r of
        (Some err, c) \<Rightarrow> c
      | (None, c) \<Rightarrow> updateDisconnectedTimers now c)"

definition render_joined :: "snapshot \<Rightarrow> player \<Rightarrow> real \<Rightarrow> client \<Rightarrow> client" where
  "render_joined s m now c =
     (let c1 = forget_detached_menu c;
          isObserverView = (viewer_role s = ''observer'');
          c2 = sync_observer isObserverView c1;
          (d9, n5) = render_page s m isObserverView now (showResultDetails c2) (doc c2, fresh c2);
          c3 = c2\<lparr>doc := d9, fresh := n5\<rparr>
      in render_end now (render_tomato s m now c3))"

text \<open>\<open>renderGame state now\<close>: \<open>state\<close> is \<open>None\<close> when the listener is given no object. The
  result is the state in which \<^verbatim>\<open>renderGame\<close> returns or is left by an error.\<close>

definition renderGame :: "snapshot option \<Rightarrow> real \<Rightarrow> client \<Rightarrow> client" where
  "renderGame state now c =
     (let c0 = c\<lparr>lastState := state\<rparr> in
      case state of
        None \<Rightarrow> c0
      | Some s \<Rightarrow>
          (case me s of
             None \<Rightarrow> c0
           | Some m \<Rightarrow> render_joined s m now c0))"

definition toggleResultDetails :: "real \<Rightarrow> client \<Rightarrow> client" where
  "toggleResultDetails now c =
     (let c1 = c\<lparr>showResultDetails := \<not> showResultDetails c\<rparr> in
      case lastState c1 of
        None \<Rightarrow> c1
      | Some s \<Rightarrow> renderGame (Some s) now c1)"


subsection \<open>The version before the tomato effect\<close>

text \<open>
  The first version of \<^verbatim>\<open>static/script.js\<close> has the same actions and listeners; its
  \<^verbatim>\<open>renderGame\<close> differs in the opponents' cards, the observers' pills and the last
  statements.
\<close>

definition make_opp_card_v1 :: "snapshot \<Rightarrow> real \<Rightarrow> nat \<Rightarrow> player \<Rightarrow> opp_card" where
  \<open>make_opp_card_v1 s now n p =
     \<lparr>pc_node = n,
      pc_className = opp_className p,
      pc_data_player_id = None,
      pc_name = ''<div class="p-name">'' @ name p @ ''</div>'',
      pc_name_btn = None,
      pc_status = opp_status now p,
      pc_kickHtml = opp_kick_html p,
      pc_handHtml = opp_hand_html p,
      pc_chipHtml = opp_chip s p,
      pc_historyHtml = opp_history_html p,
      pc_splat = False\<rparr>\<close>

definition render_player_area_v1 :: "player \<Rightarrow> bool \<Rightarrow> dom \<Rightarrow> dom" where
  "render_player_area_v1 m isObserverView d =
     (case player_area_el d of
        None \<Rightarrow> d
      | Some pa \<Rightarrow>
          d\<lparr>player_area_el := Some
               (pa\<lparr>pa_classList :=
                     cl_toggle ''playing-settled'' (\<not> isObserverView \<and> is_settled m)
                       (pa_classList pa)\<rparr>)\<rparr>)"

definition render_page_v1 ::
  "snapshot \<Rightarrow> player \<Rightarrow> bool \<Rightarrow> real \<Rightarrow> bool \<Rightarrow> dom \<times> nat \<Rightarrow> dom \<times> nat" where
  "render_page_v1 s m isObserverView now showDetails dn =
     (let d1 = (fst dn)\<lparr>body_classList :=
                  cl_toggle ''observer-mode'' isObserverView (body_classList (fst dn))\<rparr>;
          d2 = render_status showDetails s m d1;
          d3 = render_community_cards s d2;
          d4 = render_chip_bank s d3;
          (d5, n5) = render_opponents (make_opp_card_v1 s now) m isObserverView (players s)
                       (d4, snd dn);
          d6 = render_observers False s m isObserverView d5;
          d7 = render_chat s d6;
          d8 = render_my_state s m isObserverView d7;
          d9 = render_player_area_v1 m isObserverView d8
      in (d9, n5))"

definition render_joined_v1 :: "snapshot \<Rightarrow> player \<Rightarrow> real \<Rightarrow> client \<Rightarrow> client" where
  "render_joined_v1 s m now c =
     (let isObserverView = (viewer_role s = ''observer'');
          c2 = sync_observer isObserverView c;
          (d9, n5) = render_page_v1 s m isObserverView now (showResultDetails c2)
                       (doc c2, fresh c2)
      in updateDisconnectedTimers now (c2\<lparr>doc := d9, fresh := n5\<rparr>))"

definition renderGame_v1 :: "snapshot option \<Rightarrow> real \<Rightarrow> client \<Rightarrow> client" where
  "renderGame_v1 state now c =
     (let c0 = c\<lparr>lastState := state\<rparr> in
      case state of
        None \<Rightarrow> c0
      | Some s \<Rightarrow>
          (case me s of
             None \<Rightarrow> c0
           | Some m \<Rightarrow> render_joined_v1 s m now c0))"

subsection \<open>The earliest version\<close>




subsection \<open>Everything that can happen to the client\<close>

text \<open>
  The events of the current script: the socket listeners, the actions bound to the page,
  the clicks the script listens to, the one-second interval, and a pending timeout coming
  due. \<open>handle\<close> runs the listener of an event.
\<close>

datatype event =
    RequestJoin
  | GameUpdate "snapshot option" real
  | GameActionError "string option" real
  | TomatoEvent "tomato_ev option" real
  | ChatSubmit
  | Interval real
  | TimeoutDue
  | StartGame
  | RestartGame bool
  | ChangeName
  | ToggleObserver bool
  | RemovePlayer string bool
  | TakeChip json json
  | ReturnChip
  | ToggleSettle
  | ToggleResultDetails real
  | NameBtnClick nat
  | MenuBtnClick
  | DocClick bool bool
  | TransitionEnd nat

definition run_next :: "client \<Rightarrow> client" where
  "run_next c =
     (case earliest (timers c) of
        None \<Rightarrow> c
      | Some x \<Rightarrow> fire (t_cb x) (clearTimeout (t_id x) c))"

fun handle :: "event \<Rightarrow> client \<Rightarrow> client" where
  "handle RequestJoin c = on_request_join c"
| "handle (GameUpdate state now) c = renderGame state now c"
| "handle (GameActionError msg now) c = showGameActionToast msg now c"
| "handle (TomatoEvent e now) c = on_tomato_event e now c"
| "handle ChatSubmit c = on_chat_submit c"
| "handle (Interval now) c = updateDisconnectedTimers now c"
| "handle TimeoutDue c = run_next c"
| "handle StartGame c = startGame c"
| "handle (RestartGame ok) c = restartGame ok c"
| "handle ChangeName c = changeName c"
| "handle (ToggleObserver ok) c = toggleObserver ok c"
| "handle (RemovePlayer t ok) c = removePlayer t ok c"
| "handle (TakeChip v src) c = takeChip v src c"
| "handle ReturnChip c = returnChip c"
| "handle ToggleSettle c = toggleSettle c"
| "handle (ToggleResultDetails now) c = toggleResultDetails now c"
| "handle (NameBtnClick n) c = on_name_btn_click n c"
| "handle MenuBtnClick c = on_tomato_menu_btn_click c"
| "handle (DocClick in_menu in_anchor) c = closeOnOutsideClick in_menu in_anchor c"
| "handle (TransitionEnd n) c = on_transitionend n c"

text \<open>The states the client can be in: from the start of the script, any events.\<close>

inductive reachable :: "(string \<rightharpoonup> string) \<Rightarrow> string \<Rightarrow> dom \<Rightarrow> client \<Rightarrow> bool"
  for ls :: "string \<rightharpoonup> string" and uuid :: string and d :: dom where
  start: "reachable ls uuid d (init ls uuid d)"
| step: "reachable ls uuid d c \<Longrightarrow> reachable ls uuid d (handle e c)"


section \<open>Notions used in the properties\<close>

text \<open>The variables that only the listeners of the game itself write: the identity, the
  observer flag, the result-detail flag, the last state, the local storage and the events
  sent so far.\<close>

definition core ::
  "client \<Rightarrow> (string \<rightharpoonup> string) \<times> string \<times> string \<times> bool \<times> bool \<times> snapshot option \<times> socket_event list" where
  "core c =
     (localStorage c, playerId c, myName c, isObserver c, showResultDetails c, lastState c,
      emitted c)"

text \<open>The \<^verbatim>\<open>player_id\<close> fields of the \<^verbatim>\<open>join_game\<close> events among the events sent.\<close>

fun payload_field :: "string \<Rightarrow> json list \<Rightarrow> json option" where
  "payload_field k [JObj kv] = map_of kv k"
| "payload_field k args = None"

definition join_ids :: "socket_event list \<Rightarrow> json option list" where
  "join_ids evs =
     map (\<lambda>ev. payload_field ''player_id'' (snd ev)) (filter (\<lambda>ev. fst ev = ''join_game'') evs)"

text \<open>The cards of the opponents row, as the loop over the players builds them: observers
  and the player's own entry are skipped, and each card takes the next node number.\<close>

fun opp_cards :: "(nat \<Rightarrow> player \<Rightarrow> opp_card) \<Rightarrow> string option \<Rightarrow> nat \<Rightarrow> player list \<Rightarrow> opp_card list" where
  "opp_cards mk myPlayerId n [] = []"
| "opp_cards mk myPlayerId n (p # ps) =
     (if is_observer p then opp_cards mk myPlayerId n ps
      else if truthy_str myPlayerId \<and> Some (player_id p) = myPlayerId
      then opp_cards mk myPlayerId n ps
      else mk n p # opp_cards mk myPlayerId (n + 1) ps)"

text \<open>What the phase display shows after a render, for the value of the result-detail
  flag and the snapshot.\<close>

definition phase_content :: "bool \<Rightarrow> snapshot \<Rightarrow> content" where
  "phase_content showDetails s =
     (if phase s \<noteq> ''RESULT''
      then InnerText (if phase s = ''LOBBY'' then ''Waiting for Players...''
                      else phase s @ '' - '' @ chip_color s @ '' Chips'')
      else InnerHTML
             (result_html
                (if js_includes (case result_message s of Some r \<Rightarrow> r | None \<Rightarrow> []) ''SUCCESS'' \<or>
                    js_includes (case result_message s of Some r \<Rightarrow> r | None \<Rightarrow> []) ''WIN''
                 then ''#2ecc71'' else ''#e74c3c'')
                (case result_message s of Some r \<Rightarrow> r | None \<Rightarrow> [])
                (if showDetails then ''Hide Detailed Rankings'' else ''Show Detailed Rankings'')
                (if showDetails then buildResultDetails (result_details s) else [])))"

text \<open>The chip bank and the community cards are the ones of a snapshot.\<close>

definition shows_board :: "string \<Rightarrow> int list \<Rightarrow> card list \<Rightarrow> dom \<Rightarrow> bool" where
  "shows_board col chips cards d =
     (chip_bank d = map (make_chip_button col) chips \<and>
      community_cards_el d = map createCardDiv cards)"

text \<open>The phase display is the one rendered from the last state and the result-detail
  flag, when the last state is that of a player who has joined.\<close>

definition phase_in_sync :: "client \<Rightarrow> bool" where
  "phase_in_sync c =
     (case lastState c of
        None \<Rightarrow> True
      | Some s \<Rightarrow>
          (case me s of
             None \<Rightarrow> True
           | Some m \<Rightarrow> phase_display (doc c) = phase_content (showResultDetails c) s))"

text \<open>A document with the two counters replaced, and a client with the last state and
  the two counters replaced: what a change of \<^verbatim>\<open>vaults\<close> and \<^verbatim>\<open>alarms\<close> in a snapshot
  may change in the result of a render.\<close>

definition recount :: "string \<Rightarrow> string \<Rightarrow> dom \<Rightarrow> dom" where
  "recount x y d = d\<lparr>vault_count := x, alarm_count := y\<rparr>"

definition retag :: "snapshot option \<Rightarrow> string \<Rightarrow> string \<Rightarrow> client \<Rightarrow> client" where
  "retag st x y c = c\<lparr>lastState := st, doc := recount x y (doc c)\<rparr>"

text \<open>The numbers of the pending timers, of the impact timeout and of the clear timeout
  are below the next fresh number.\<close>

definition timers_wf :: "client \<Rightarrow> bool" where
  "timers_wf c =
     ((\<forall>t \<in> set (timers c). t_id t < fresh c) \<and>
      (\<forall>i. tomatoImpactTimeout c = Some i \<longrightarrow> i < fresh c) \<and>
      (\<forall>i. tomatoClearTimeout c = Some i \<longrightarrow> i < fresh c))"





section \<open>Example data\<close>

text \<open>A page with every optional element present and nothing rendered yet, a player and
  a snapshot, for running the script on concrete inputs.\<close>

definition blank_page :: dom where
  "blank_page =
     \<lparr>body_classList = [], phase_display = InnerText [], vault_count = [], alarm_count = [],
      my_name = [], community_cards_el = [], chip_bank = [], chip_bank_classList = [],
      opponents_row = [], observer_list_html = [], observer_list = [], observer_status = [],
      observer_btn = [], chat_messages_el = Some [], my_cards = [], my_history = [],
      my_chip_slot = [], settle_btn_disabled = False, settle_btn_innerText = [],
      settle_btn_classList = [], return_btn_disabled = False,
      player_area_el = Some \<lparr>pa_classList = [], pa_data_player_id = None, pa_splat = False\<rparr>,
      game_container = True, tomato_flights = [], tomato_toast = None,
      game_action_toast = None, chat_input = Some [], name_input = [], menu = None\<rparr>"

definition alice :: player where
  "alice =
     \<lparr>player_id = ''p-alice'', name = ''Alice'', is_observer = False, is_connected = True,
      is_settled = False, chip = None, chip_history = None, hand = None,
      disconnected_at = None, queued_to_join = False\<rparr>"

definition bob :: player where
  "bob =
     \<lparr>player_id = ''p-bob'', name = ''Bob'', is_observer = False, is_connected = True,
      is_settled = True, chip = Some 2, chip_history = None, hand = None,
      disconnected_at = None, queued_to_join = False\<rparr>"

definition result_snapshot :: snapshot where
  "result_snapshot =
     \<lparr>me = Some alice, viewer_role = ''player'', phase = ''RESULT'', chip_color = ''White'',
      community_cards = [\<lparr>str = ''A'' @ heart_suit, suit = heart_suit\<rparr>],
      chips_available = [1, 2], players = [alice, bob],
      result_message = Some ''HEIST FAILED'', result_details = None, vaults = 2, alarms = 0,
      chat_messages = None, tomato_event = None\<rparr>"

definition fresh_client :: client where
  "fresh_client = init Map.empty ''uuid-1'' blank_page"


definition bob_card :: opp_card where
  "bob_card =
     \<lparr>pc_node = 7, pc_className = [''player-card'', ''settled''],
      pc_data_player_id = Some ''p-bob'', pc_name = ''Bob'', pc_name_btn = Some ''p-bob'',
      pc_status = StatusText ''...'', pc_kickHtml = [], pc_handHtml = [], pc_chipHtml = [],
      pc_historyHtml = [], pc_splat = True\<rparr>"

text \<open>A client in the middle of a game: Bob's card is shown, a tomato menu is open on
  it, and there is text in the chat input.\<close>

definition busy_client :: client where
  "busy_client =
     fresh_client\<lparr>doc := blank_page
        \<lparr>opponents_row := [bob_card],
         menu := Some \<lparr>tm_node = 9, tm_anchor = 7, tm_target = ''p-bob''\<rparr>,
         chat_input := Some ''  hi there  ''\<rparr>,
        fresh := 10\<rparr>"

text \<open>A client that found an identity in the local storage, was asked to join and then
  moved to an observer seat.\<close>

definition returning_client :: client where
  "returning_client =
     handle (ToggleObserver True)
       (handle RequestJoin (init (Map.empty(''player_id'' \<mapsto> ''stored-7'')) ''uuid-1'' blank_page))"

text \<open>A client whose stored observer mode disagrees with its flag, as after another tab
  of the same browser has written the entry.\<close>

definition stale_client :: client where
  "stale_client = busy_client\<lparr>localStorage := Map.empty(''observer_mode'' \<mapsto> ''true'')\<rparr>"

text \<open>A snapshot of the result phase with detailed rankings, and the client after it.\<close>

definition detailed_snapshot :: snapshot where
  "detailed_snapshot =
     result_snapshot\<lparr>result_details := Some
       [(''FLOP'', [\<lparr>row_name = ''Alice'', row_guess_rank = 1, row_true_rank = 2,
                     row_hand_class = ''Pair'', row_is_correct = False\<rparr>])]\<rparr>"

definition result_client :: client where
  "result_client = handle (GameUpdate (Some result_snapshot) 0) fresh_client"

definition detailed_client :: client where
  "detailed_client = handle (GameUpdate (Some detailed_snapshot) 0) fresh_client"




section \<open>Auxiliary facts\<close>

subsection \<open>Rounding\<close>

lemma bit_length_nonneg: "0 \<le> bit_length n"
  by (induction n rule: bit_length.induct) (subst bit_length.simps, simp)

lemma bit_length_bounds:
  "0 < n \<Longrightarrow> 2 ^ nat (bit_length n - 1) \<le> n \<and> n < 2 ^ nat (bit_length n)"
proof (induction n rule: bit_length.induct)
  case (1 n)
  show ?case
  proof (cases "n = 1")
    case True
    then show ?thesis by (simp add: bit_length.simps [of 1] bit_length.simps [of 0])
  next
    case False
    with 1(2) have pos: "0 < n div 2" by simp
    from 1(2) have nle: "\<not> n \<le> 0" by simp
    from 1(1) [OF nle pos]
    have ih: "2 ^ nat (bit_length (n div 2) - 1) \<le> n div 2"
             "n div 2 < 2 ^ nat (bit_length (n div 2))" by simp_all
    have b: "bit_length n = bit_length (n div 2) + 1"
      using nle by (subst bit_length.simps) simp
    have ge1: "1 \<le> bit_length (n div 2)"
    proof (rule ccontr)
      assume "\<not> 1 \<le> bit_length (n div 2)"
      with bit_length_nonneg [of "n div 2"] have "bit_length (n div 2) = 0" by simp
      with ih(2) pos show False by simp
    qed
    have p: "(2::int) ^ nat (bit_length (n div 2)) = 2 * 2 ^ nat (bit_length (n div 2) - 1)"
      using ge1 by (metis Suc_nat_eq_nat_zadd1 add.commute diff_add_cancel diff_ge_0_iff_ge power_Suc)
    have "2 ^ nat (bit_length n - 1) \<le> n"
      unfolding b using ih(1) p by simp
    moreover have "n < 2 ^ nat (bit_length n)"
    proof -
      have "nat (bit_length (n div 2) + 1) = Suc (nat (bit_length (n div 2)))"
        using ge1 by simp
      then show ?thesis unfolding b using ih(2) by simp
    qed
    ultimately show ?thesis by blast
  qed
qed

lemma bit_length_pos: "0 < n \<Longrightarrow> 1 \<le> bit_length n"
  by (subst bit_length.simps) (simp add: bit_length_nonneg)

lemma pow2_pos [simp]: "0 < pow2 e"
  by (simp add: pow2_def)

lemma pow2_add: "pow2 (a + b) = pow2 a * pow2 b"
proof -
  have "pow2 e = 2 powr (real_of_int e)" for e
    by (simp add: pow2_def powr_realpow [symmetric] powr_minus field_simps)
  then show ?thesis by (simp add: powr_add)
qed

lemma pow2_mono: "a \<le> b \<Longrightarrow> pow2 a \<le> pow2 b"
proof -
  have "pow2 e = 2 powr (real_of_int e)" for e
    by (simp add: pow2_def powr_realpow [symmetric] powr_minus field_simps)
  then show "a \<le> b \<Longrightarrow> pow2 a \<le> pow2 b" by simp
qed

lemma pow2_less_cancel: "pow2 a < pow2 b \<Longrightarrow> a < b"
  using pow2_mono [of b a] by (cases "a < b") auto

lemma pow2_0 [simp]: "pow2 0 = 1"
  by (simp add: pow2_def)

lemma pow2_nat: "pow2 (int n) = 2 ^ n"
  by (simp add: pow2_def)

lemma pow2_nonzero [simp]: "pow2 e \<noteq> 0"
  using pow2_pos [of e] by linarith

lemma pow2_minus: "pow2 (- e) = 1 / pow2 e"
proof -
  have "pow2 e * pow2 (- e) = 1" using pow2_add [of e "- e"] by simp
  then show ?thesis by (simp add: nonzero_eq_divide_eq mult.commute)
qed

lemma expo_bounds:
  assumes "0 < x"
  shows "pow2 (expo x) \<le> x" and "x < pow2 (expo x + 1)"
proof -
  have "pow2 (expo x) \<le> x \<and> x < pow2 (expo x + 1)"
  proof (cases "1 \<le> x")
    case True
    then have fp: "0 < \<lfloor>x\<rfloor>" by simp
    define b where "b = bit_length \<lfloor>x\<rfloor>"
    have b1: "1 \<le> b" unfolding b_def using fp by (rule bit_length_pos)
    from bit_length_bounds [OF fp]
    have lo: "2 ^ nat (b - 1) \<le> \<lfloor>x\<rfloor>" and hi: "\<lfloor>x\<rfloor> < 2 ^ nat b"
      by (simp_all add: b_def)
    have e: "expo x = b - 1" using True by (simp add: expo_def b_def)
    have "real_of_int (2 ^ nat (b - 1)) \<le> x" using lo by (meson le_floor_iff)
    then have 1: "pow2 (expo x) \<le> x" using b1 by (simp add: e pow2_def)
    have "x < real_of_int (2 ^ nat b)" using hi by (meson floor_less_iff)
    then have 2: "x < pow2 (expo x + 1)" using b1 by (simp add: e pow2_def)
    from 1 2 show ?thesis by blast
  next
    case False
    define y where "y = 1 / x"
    have y1: "1 < y" using False assms by (simp add: y_def)
    define m where "m = \<lceil>y\<rceil> - 1"
    have mp: "0 < m" using y1 by (simp add: m_def less_ceiling_iff)
    define b where "b = bit_length m"
    have b1: "1 \<le> b" unfolding b_def using mp by (rule bit_length_pos)
    from bit_length_bounds [OF mp]
    have lo: "2 ^ nat (b - 1) \<le> m" and hi: "m < 2 ^ nat b" by (simp_all add: b_def)
    have e: "expo x = - b" using False by (simp add: expo_def b_def m_def y_def)
    have "2 ^ nat (b - 1) < \<lceil>y\<rceil>" using lo by (simp add: m_def)
    then have ylo: "real_of_int (2 ^ nat (b - 1)) < y" by (simp only: less_ceiling_iff)
    have "\<lceil>y\<rceil> \<le> 2 ^ nat b" using hi by (simp add: m_def)
    then have yhi: "y \<le> real_of_int (2 ^ nat b)" by (simp only: ceiling_le_iff)
    have xy: "x = 1 / y" using assms by (simp add: y_def)
    have p1: "pow2 (- b) = 1 / 2 ^ nat b" using b1 by (simp add: pow2_def)
    have p2: "pow2 (- b + 1) = 1 / 2 ^ nat (b - 1)"
      using b1 by (cases "b = 1") (simp_all add: pow2_def algebra_simps)
    have "1 / 2 ^ nat b \<le> 1 / y" using yhi y1 by (simp add: frac_le)
    then have 1: "pow2 (expo x) \<le> x" by (simp only: e p1 xy [symmetric])
    have "1 / y < 1 / 2 ^ nat (b - 1)" using ylo y1 by (simp add: frac_less2)
    then have 2: "x < pow2 (expo x + 1)" by (simp only: e p2 xy [symmetric])
    from 1 2 show ?thesis by blast
  qed
  then show "pow2 (expo x) \<le> x" and "x < pow2 (expo x + 1)" by blast+
qed

lemma expo_eqI:
  assumes "pow2 e \<le> x" "x < pow2 (e + 1)"
  shows "expo x = e"
proof -
  have x: "0 < x" using assms(1) pow2_pos [of e] by linarith
  note b = expo_bounds [OF x]
  have "pow2 e < pow2 (expo x + 1)" using assms(1) b(2) by linarith
  then have 1: "e < expo x + 1" by (rule pow2_less_cancel)
  have "pow2 (expo x) < pow2 (e + 1)" using assms(2) b(1) by linarith
  then have 2: "expo x < e + 1" by (rule pow2_less_cancel)
  from 1 2 show ?thesis by simp
qed

lemma round_even_of_int [simp]: "round_even (of_int k) = k"
  by (simp add: round_even_def)

lemma round_even_close: "\<bar>of_int (round_even r) - r\<bar> \<le> 1 / 2"
  unfolding round_even_def Let_def by (auto simp: abs_le_iff)

lemma round_even_ge: "of_int k \<le> r \<Longrightarrow> k \<le> round_even r"
proof -
  assume "of_int k \<le> r"
  then have "k \<le> \<lfloor>r\<rfloor>" by (simp add: le_floor_iff)
  then show ?thesis unfolding round_even_def Let_def by auto
qed

lemma round_even_le: "r \<le> of_int k \<Longrightarrow> round_even r \<le> k"
proof -
  assume a: "r \<le> of_int k"
  show ?thesis
  proof (cases "r = of_int k")
    case True
    then show ?thesis by simp
  next
    case False
    with a have "r < of_int k" by simp
    then have "\<lfloor>r\<rfloor> < k" by (simp add: floor_less_iff)
    then show ?thesis unfolding round_even_def Let_def by auto
  qed
qed

text \<open>The value of \<open>dbl\<close> from the binary exponent.\<close>

lemma dbl_eval:
  assumes "pow2 e \<le> \<bar>x\<bar>" "\<bar>x\<bar> < pow2 (e + 1)" "- 1022 \<le> e"
  shows "dbl x = sgn x * (of_int (round_even (\<bar>x\<bar> / pow2 (e - 52))) * pow2 (e - 52))"
proof -
  have "expo \<bar>x\<bar> = e" using assms(1,2) by (rule expo_eqI)
  moreover have "x \<noteq> 0"
  proof
    assume "x = 0"
    with assms(1) have "pow2 e \<le> 0" by simp
    with pow2_pos [of e] show False by linarith
  qed
  ultimately show ?thesis using assms(3) by (simp add: dbl_def Let_def max_def)
qed

lemma dbl_int:
  assumes "\<bar>n\<bar> < 2 ^ 53"
  shows "dbl (of_int n) = of_int n"
proof (cases "n = 0")
  case True
  then show ?thesis by (simp add: dbl_def)
next
  case False
  define a where "a = \<bar>n\<bar>"
  have ap: "0 < a" using False by (simp add: a_def)
  define e where "e = expo (real_of_int a)"
  have ra: "0 < real_of_int a" using ap by simp
  note b = expo_bounds [OF ra, folded e_def]
  have e0: "0 \<le> e"
  proof -
    have "pow2 0 \<le> real_of_int a" using ap by simp
    also have "\<dots> < pow2 (e + 1)" by (rule b(2))
    finally have "0 < e + 1" by (rule pow2_less_cancel)
    then show ?thesis by simp
  qed
  have e52: "e \<le> 52"
  proof -
    have "real_of_int a < 2 ^ 53" using assms by (simp add: a_def)
    then have "pow2 e < pow2 53" using b(1) by (simp add: pow2_def)
    then have "e < 53" by (rule pow2_less_cancel)
    then show ?thesis by simp
  qed
  define k where "k = nat (52 - e)"
  have u: "pow2 (e - 52) = 1 / 2 ^ k"
    using e52 pow2_minus [of "52 - e"] by (simp add: k_def pow2_def)
  have "real_of_int a / pow2 (e - 52) = of_int (a * 2 ^ k)" by (simp add: u)
  then have r: "round_even (real_of_int a / pow2 (e - 52)) = a * 2 ^ k"
    by (simp only: round_even_of_int)
  have "dbl (of_int n) = sgn (real_of_int n) * (of_int (a * 2 ^ k) * pow2 (e - 52))"
    using False e0 r by (simp add: dbl_def Let_def max_def e_def a_def)
  also have "\<dots> = sgn (real_of_int n) * real_of_int a" by (simp add: u)
  also have "\<dots> = of_int n" by (simp add: a_def sgn_if)
  finally show ?thesis .
qed

text \<open>Rounding does not reach the next integer when the fraction stays away from it.\<close>

lemma floor_dbl:
  assumes "0 \<le> x" "x < 2 ^ 42" "x + 1 / 4096 < of_int \<lfloor>x\<rfloor> + 1"
  shows "\<lfloor>dbl x\<rfloor> = \<lfloor>x\<rfloor>"
proof (cases "x = 0")
  case True
  then show ?thesis by (simp add: dbl_def)
next
  case False
  with assms(1) have xp: "0 < x" by simp
  define e where "e = max (expo x) (- 1022)"
  define n where "n = \<lfloor>x\<rfloor>"
  have e41: "e \<le> 41"
  proof -
    have "pow2 (expo x) \<le> x" using xp by (rule expo_bounds)
    also have "x < 2 ^ 42" by (rule assms(2))
    finally have "pow2 (expo x) < pow2 42" by (simp add: pow2_def)
    then have "expo x < 42" by (rule pow2_less_cancel)
    then show ?thesis by (simp add: e_def)
  qed
  define k where "k = nat (52 - e)"
  have k11: "11 \<le> k" using e41 by (simp add: k_def)
  have u: "pow2 (e - 52) = 1 / 2 ^ k"
    using e41 pow2_minus [of "52 - e"] by (simp add: k_def pow2_def)
  define r where "r = round_even (x * 2 ^ k)"
  have f: "dbl x = of_int r / 2 ^ k"
    using xp by (simp add: dbl_def Let_def e_def [symmetric] u r_def)
  have "of_int (n * 2 ^ k) \<le> x * 2 ^ k" by (simp add: n_def)
  then have "n * 2 ^ k \<le> r" unfolding r_def by (rule round_even_ge)
  then have "real_of_int (n * 2 ^ k) \<le> of_int r" by (simp only: of_int_le_iff)
  then have lo: "of_int n \<le> dbl x" unfolding f by (simp add: field_simps)
  have "of_int r \<le> x * 2 ^ k + 1 / 2"
    using round_even_close [of "x * 2 ^ k"] unfolding r_def by linarith
  then have "dbl x \<le> x + (1 / 2) / 2 ^ k" unfolding f by (simp add: field_simps)
  also have "(1 / 2) / (2::real) ^ k \<le> 1 / 4096"
  proof -
    have "(2::real) ^ 11 \<le> 2 ^ k" using k11 by (intro power_increasing) simp_all
    then show ?thesis by (simp add: field_simps)
  qed
  finally have "dbl x \<le> x + 1 / 4096" by simp
  with assms(3) have hi: "dbl x < of_int n + 1" by (simp add: n_def)
  from lo hi show ?thesis unfolding n_def by (simp add: floor_eq_iff)
qed

text \<open>Whole numbers below \<open>2 ^ 53\<close> in size are doubles.\<close>

lemma dbl_numeral [simp]: "numeral k < (2::int) ^ 53 \<Longrightarrow> dbl (numeral k) = numeral k"
  using dbl_int [of "numeral k"] by simp

lemma dbl_neg_numeral [simp]:
  "numeral k < (2::int) ^ 53 \<Longrightarrow> dbl (- numeral k) = - numeral k"
  using dbl_int [of "- numeral k"] by simp

lemma dbl_0 [simp]: "dbl 0 = 0"
  by (simp add: dbl_def)

lemma dbl_1 [simp]: "dbl 1 = 1"
  using dbl_int [of 1] by simp

subsection \<open>Ids in a selector\<close>






subsection \<open>Arithmetic of formatDuration\<close>




text \<open>The quotient by 3600 or 60 of a whole number below \<open>2\<^sup>5\<^sup>3\<close>, rounded, has the floor
  of the exact quotient.\<close>

lemma floor_dbl_quotient:
  assumes "0 \<le> t" "t < 2 ^ 42 * d" "0 < d" "d \<le> 3600"
  shows "\<lfloor>dbl (real_of_int t / real_of_int d)\<rfloor> = t div d"
proof -
  define x where "x = real_of_int t / real_of_int d"
  have fx: "\<lfloor>x\<rfloor> = t div d" unfolding x_def by (rule floor_divide_of_int_eq)
  have x0: "0 \<le> x" using assms by (simp add: x_def)
  have "real_of_int t < real_of_int (2 ^ 42 * d)" using assms(2) by (simp only: of_int_less_iff)
  then have small: "x < 2 ^ 42" using assms(3) by (simp add: x_def field_simps)
  have t: "real_of_int t = real_of_int (t div d) * real_of_int d + real_of_int (t mod d)"
    by (metis div_mult_mod_eq of_int_add of_int_mult)
  have md: "t mod d \<le> d - 1" using assms(3) by (simp add: zle_diff1_eq)
  have "x = real_of_int (t div d) + real_of_int (t mod d) / real_of_int d"
    unfolding x_def using assms(3) by (subst t) (simp add: field_simps)
  also have "real_of_int (t mod d) / real_of_int d \<le> real_of_int (d - 1) / real_of_int d"
  proof -
    have "real_of_int (t mod d) \<le> real_of_int (d - 1)" using md by (simp only: of_int_le_iff)
    then show ?thesis using assms(3) by (intro divide_right_mono) simp_all
  qed
  also have "real_of_int (d - 1) / real_of_int d = 1 - 1 / real_of_int d"
    using assms(3) by (simp add: field_simps)
  also have "1 - 1 / real_of_int d \<le> 1 - 1 / 3600"
    using assms(3,4) by (simp add: field_simps)
  finally have "x \<le> real_of_int (t div d) + (1 - 1 / 3600)" by simp
  then have close: "x + 1 / 4096 < of_int \<lfloor>x\<rfloor> + 1" unfolding fx by simp
  have "\<lfloor>dbl x\<rfloor> = \<lfloor>x\<rfloor>" using x0 small close by (rule floor_dbl)
  then show ?thesis unfolding fx unfolding x_def .
qed


lemma dbl_binade_54:
  assumes "2 ^ 54 \<le> x" "x < 2 ^ 55"
  shows "dbl x = 4 * real_of_int (round_even (x / 4))"
proof -
  have 1: "pow2 54 \<le> \<bar>x\<bar>" using assms(1) by (simp add: pow2_def)
  have 2: "\<bar>x\<bar> < pow2 (54 + 1)" using assms by (simp add: pow2_def)
  have p: "0 < x" using assms(1) by simp
  show ?thesis using dbl_eval [OF 1 2] p by (simp add: pow2_def)
qed

subsection \<open>What the helpers leave alone\<close>

lemma core_setTimeout [simp]: "core (setTimeout cb dl now c) = core c"
  by (simp add: core_def setTimeout_def)

lemma core_clearTimeout [simp]: "core (clearTimeout i c) = core c"
  by (simp add: core_def clearTimeout_def)

lemma core_clear_if_set [simp]: "core (clear_if_set v c) = core c"
  by (simp add: clear_if_set_def split: option.splits)

lemma core_doc_update [simp]: "core (c\<lparr>doc := d\<rparr>) = core c"
  by (simp add: core_def)

lemma core_scheduleTomatoClear [simp]: "core (scheduleTomatoClear now c) = core c"
proof -
  have "core (scheduleTomatoClear now c)
        = core (setTimeout ClearCb TOMATO_LIFETIME_MS now (clear_if_set (tomatoClearTimeout c) c))"
    by (simp add: scheduleTomatoClear_def Let_def core_def)
  then show ?thesis by simp
qed

lemma core_scheduleTomatoImpact [simp]: "core (scheduleTomatoImpact t m dl now c) = core c"
proof (cases "truthy_str t")
  case False
  then show ?thesis by (auto simp: scheduleTomatoImpact_def truthy_str_def split: option.splits)
next
  case True
  then obtain tid where t: "t = Some tid" "tid \<noteq> []"
    by (auto simp: truthy_str_def split: option.splits)
  have "core (scheduleTomatoImpact t m dl now c)
        = core (setTimeout (ImpactCb tid m) (max 0 dl) now (clear_if_set (tomatoImpactTimeout c) c))"
    using t by (simp add: scheduleTomatoImpact_def Let_def core_def)
  then show ?thesis by simp
qed

lemma core_animateTomatoFlight [simp]: "core (animateTomatoFlight src tgt now c) = core c"
proof (cases "game_container (doc c)")
  case False
  then show ?thesis by (simp add: animateTomatoFlight_def)
next
  case True
  have "core (c\<lparr>doc := (doc c)\<lparr>tomato_flights := tomato_flights (doc c) @ [fresh c]\<rparr>,
                 flight_listeners := flight_listeners c @ [(fresh c, tgt)],
                 fresh := fresh c + 1\<rparr>) = core c"
    by (simp add: core_def)
  with True show ?thesis by (simp add: animateTomatoFlight_def Let_def)
qed

lemma core_clear_stale [simp]: "core (clear_stale c) = core c"
  by (simp add: clear_stale_def Let_def)

lemma core_show_toast [simp]: "core (show_toast e c) = core c"
  by (simp add: show_toast_def)

lemma core_tomato_fields [simp]:
  "core (c\<lparr>lastTomatoEventId := x\<rparr>) = core c"
  "core (c\<lparr>activeTomatoTargetId := y\<rparr>) = core c"
  "core (c\<lparr>activeTomatoExpiresAt := z\<rparr>) = core c"
  "core (c\<lparr>activeTomatoShowAt := z\<rparr>) = core c"
  "core (c\<lparr>pendingTomatoEvent := p\<rparr>) = core c"
  "core (c\<lparr>openTomatoMenu := q\<rparr>) = core c"
  "core (c\<lparr>fresh := k\<rparr>) = core c"
  "core (c\<lparr>flight_listeners := fl\<rparr>) = core c"
  "core (c\<lparr>tomatoClearTimeout := q\<rparr>) = core c"
  "core (c\<lparr>tomatoImpactTimeout := q\<rparr>) = core c"
  "core (c\<lparr>gameActionToastTimeout := q\<rparr>) = core c"
  by (simp_all add: core_def)

lemma core_note_event [simp]: "core (note_event e a now c) = core c"
  by (simp add: note_event_def Let_def)

lemma core_splat [simp]: "core (splat e m now src tgt c) = core c"
  by (simp add: splat_def split: option.splits)

lemma core_applyTomatoEffect [simp]: "core (snd (applyTomatoEffect ev m now c)) = core c"
  by (simp add: applyTomatoEffect_def Let_def split: option.splits sum.splits)

lemma core_applyActiveTomatoTarget [simp]: "core (snd (applyActiveTomatoTarget m now c)) = core c"
  by (simp add: applyActiveTomatoTarget_def Let_def split: option.splits sum.splits)

lemma core_fire [simp]: "core (fire cb c) = core c"
  by (cases cb)
     (simp_all add: fire_def fire_clear_def fire_impact_def fire_flight_def fire_toast_def
        Let_def split: option.splits sum.splits)

lemma core_run_next [simp]: "core (run_next c) = core c"
  by (simp add: run_next_def split: option.splits)

lemma core_updateDisconnectedTimers [simp]: "core (updateDisconnectedTimers now c) = core c"
  by (simp add: updateDisconnectedTimers_def Let_def)

lemma core_showGameActionToast [simp]: "core (showGameActionToast t now c) = core c"
  by (simp add: showGameActionToast_def Let_def)

lemma core_on_tomato_event [simp]: "core (on_tomato_event ev now c) = core c"
  by (simp add: on_tomato_event_def Let_def split: option.splits)

lemma core_on_transitionend [simp]: "core (on_transitionend n c) = core c"
  by (simp add: on_transitionend_def core_def split: option.splits)

lemma core_toggleTomatoMenu [simp]: "core (toggleTomatoMenu t a c) = core c"
  by (simp add: toggleTomatoMenu_def Let_def core_def split: option.splits)

lemma core_removeMenu [simp]: "core (removeMenu n c) = core c"
  by (simp add: removeMenu_def Let_def core_def)

lemma core_menu_clicks [simp]:
  "core (closeOnOutsideClick a b c) = core c"
  "core (on_name_btn_click n c) = core c"
  by (simp_all add: closeOnOutsideClick_def on_name_btn_click_def split: option.splits)

lemma core_forget_detached_menu [simp]: "core (forget_detached_menu c) = core c"
  by (simp add: forget_detached_menu_def split: option.splits)

text \<open>What every step of the tomato statements keeps, the statements keep.\<close>

lemma render_tomato_keeps:
  assumes "\<And>ev c. P c \<Longrightarrow> P (snd (applyTomatoEffect ev (Some m) now c))"
    and "\<And>c. P c \<Longrightarrow> P (snd (applyActiveTomatoTarget (Some m) now c))"
    and "\<And>c. P c \<Longrightarrow> P (c\<lparr>pendingTomatoEvent := None\<rparr>)"
    and "P c"
  shows "P (snd (render_tomato s m now c))"
proof -
  obtain e1 c4 where 1: "applyActiveTomatoTarget (Some m) now c = (e1, c4)"
    by (cases "applyActiveTomatoTarget (Some m) now c")
  have p4: "P c4" using assms(2) [OF assms(4)] 1 by simp
  obtain e2 c5 where 2: "applyTomatoEffect (tomato_event s) (Some m) now c4 = (e2, c5)"
    by (cases "applyTomatoEffect (tomato_event s) (Some m) now c4")
  have p5: "P c5" using assms(1) [OF p4, of "tomato_event s"] 2 by simp
  show ?thesis
  proof (cases "pendingTomatoEvent c5")
    case None
    then show ?thesis using p4 p5 by (simp add: render_tomato_def 1 2 split: option.splits)
  next
    case (Some e)
    obtain e3 c6 where 3: "applyTomatoEffect (Some e) (Some m) now c5 = (e3, c6)"
      by (cases "applyTomatoEffect (Some e) (Some m) now c5")
    have p6: "P c6" using assms(1) [OF p5, of "Some e"] 3 by simp
    show ?thesis
      using Some p4 p5 p6 assms(3) [OF p6]
      by (simp add: render_tomato_def 1 2 3 split: option.splits)
  qed
qed

lemma render_end_keeps:
  assumes "\<And>c. P c \<Longrightarrow> P (updateDisconnectedTimers now c)" and "P (snd r)"
  shows "P (render_end now r)"
  using assms by (cases r) (simp add: render_end_def split: option.splits)

lemma core_render_tomato [simp]: "core (snd (render_tomato s m now c)) = core c"
  by (rule render_tomato_keeps [where P = "\<lambda>c'. core c' = core c"]) simp_all

lemma core_render_end [simp]: "core (render_end now r) = core (snd r)"
  by (rule render_end_keeps [where P = "\<lambda>c'. core c' = core (snd r)"]) simp_all

lemma core_sync_observer_menu:
  "core (sync_observer b (forget_detached_menu c)) = core (sync_observer b c)"
  by (simp add: core_def sync_observer_def forget_detached_menu_def split: option.splits)

lemma core_render_joined:
  "core (render_joined s m now c) = core (sync_observer (viewer_role s = ''observer'') c)"
  by (simp add: render_joined_def Let_def core_sync_observer_menu split: prod.splits)

subsection \<open>The identity is kept\<close>

lemma core_eqD:
  assumes "core a = core b"
  shows "localStorage a = localStorage b" "playerId a = playerId b" "myName a = myName b"
    "isObserver a = isObserver b" "showResultDetails a = showResultDetails b"
    "lastState a = lastState b" "emitted a = emitted b"
  using assms by (simp_all add: core_def)

lemma core_renderGame:
  "core (renderGame state now c) =
     (case state of
        None \<Rightarrow> core (c\<lparr>lastState := None\<rparr>)
      | Some s \<Rightarrow>
          (case me s of
             None \<Rightarrow> core (c\<lparr>lastState := Some s\<rparr>)
           | Some m \<Rightarrow>
               core (sync_observer (viewer_role s = ''observer'') (c\<lparr>lastState := Some s\<rparr>))))"
  by (simp add: renderGame_def core_render_joined split: option.splits)

lemma renderGame_frame:
  "playerId (renderGame state now c) = playerId c"
  "myName (renderGame state now c) = myName c"
  "emitted (renderGame state now c) = emitted c"
  "showResultDetails (renderGame state now c) = showResultDetails c"
  "lastState (renderGame state now c) = state"
  "localStorage (renderGame state now c) ''player_id'' = localStorage c ''player_id''"
  using core_renderGame [of state now c]
  by (auto simp: core_def sync_observer_def split: option.splits if_splits)

lemma toggleResultDetails_frame:
  "playerId (toggleResultDetails now c) = playerId c"
  "emitted (toggleResultDetails now c) = emitted c"
  "lastState (toggleResultDetails now c) = lastState c"
  "showResultDetails (toggleResultDetails now c) = (\<not> showResultDetails c)"
  "localStorage (toggleResultDetails now c) ''player_id'' = localStorage c ''player_id''"
  by (simp_all add: toggleResultDetails_def Let_def renderGame_frame split: option.splits)

lemma join_ids_append [simp]: "join_ids (xs @ ys) = join_ids xs @ join_ids ys"
  by (simp add: join_ids_def)

lemma join_ids_Nil [simp]: "join_ids [] = []"
  by (simp add: join_ids_def)

lemma join_ids_single [simp]:
  "join_ids [(n, a)] = (if n = ''join_game'' then [payload_field ''player_id'' a] else [])"
  by (simp add: join_ids_def)

lemma payload_field_join [simp]:
  "payload_field ''player_id'' [join_payload c b] = Some (JStr (playerId c))"
  by (simp add: join_payload_def)

text \<open>An event keeps the identity, and every \<^verbatim>\<open>join_game\<close> it sends carries it.\<close>

lemma handle_identity:
  "playerId (handle e c) = playerId c \<and>
   localStorage (handle e c) ''player_id'' = localStorage c ''player_id'' \<and>
   (\<exists>new. emitted (handle e c) = emitted c @ new \<and>
          set (join_ids new) \<subseteq> {Some (JStr (playerId c))})"
proof (cases e)
  case RequestJoin
  then show ?thesis by (simp add: on_request_join_def emit_def)
next
  case (GameUpdate state now)
  then show ?thesis by (simp add: renderGame_frame)
next
  case (GameActionError msg now)
  then show ?thesis
    using core_eqD [OF core_showGameActionToast [of msg now c]] by simp
next
  case (TomatoEvent ev now)
  then show ?thesis
    using core_eqD [OF core_on_tomato_event [of ev now c]] by simp
next
  case ChatSubmit
  then show ?thesis
    by (auto simp: on_chat_submit_def emit_def Let_def join_ids_def split: option.splits)
next
  case (Interval now)
  then show ?thesis
    using core_eqD [OF core_updateDisconnectedTimers [of now c]] by simp
next
  case TimeoutDue
  then show ?thesis using core_eqD [OF core_run_next [of c]] by simp
next
  case StartGame
  then show ?thesis by (simp add: startGame_def emit_def)
next
  case (RestartGame ok)
  then show ?thesis by (simp add: restartGame_def emit_def)
next
  case ChangeName
  then show ?thesis by (simp add: changeName_def emit_def Let_def)
next
  case (ToggleObserver ok)
  then show ?thesis
    by (simp add: toggleObserver_def setObserverMode_def emit_def Let_def join_payload_def
         )
next
  case (RemovePlayer t ok)
  then show ?thesis by (simp add: removePlayer_def emit_def)
next
  case (TakeChip v src)
  then show ?thesis by (simp add: takeChip_def emit_def)
next
  case ReturnChip
  then show ?thesis by (simp add: returnChip_def emit_def)
next
  case ToggleSettle
  then show ?thesis by (simp add: toggleSettle_def emit_def)
next
  case (ToggleResultDetails now)
  then show ?thesis by (simp add: toggleResultDetails_frame)
next
  case (NameBtnClick n)
  then show ?thesis
    using core_eqD [OF core_menu_clicks(2) [of n c]] by simp
next
  case MenuBtnClick
  then show ?thesis
    by (cases "menu (doc c)")
       (simp_all add: on_tomato_menu_btn_click_def removeMenu_def emit_def Let_def)
next
  case (DocClick a b)
  then show ?thesis
    using core_eqD [OF core_menu_clicks(1) [of a b c]] by simp
next
  case (TransitionEnd n)
  then show ?thesis
    using core_eqD [OF core_on_transitionend [of n c]] by simp
qed

lemma init_identity:
  "localStorage (init ls uuid d) ''player_id'' = Some (playerId (init ls uuid d))"
  "emitted (init ls uuid d) = []"
  by (simp_all add: init_def split: option.splits)

lemma reachable_identity:
  assumes "reachable ls uuid d c"
  shows "playerId c = playerId (init ls uuid d) \<and>
         localStorage c ''player_id'' = Some (playerId c) \<and>
         set (join_ids (emitted c)) \<subseteq> {Some (JStr (playerId c))}"
  using assms
proof (induction rule: reachable.induct)
  case start
  show ?case by (simp add: init_identity)
next
  case (step c e)
  from handle_identity [of e c] obtain new where
    h: "playerId (handle e c) = playerId c"
       "localStorage (handle e c) ''player_id'' = localStorage c ''player_id''"
       "emitted (handle e c) = emitted c @ new"
       "set (join_ids new) \<subseteq> {Some (JStr (playerId c))}"
    by blast
  with step.IH show ?case by auto
qed

subsection \<open>The observer flag after a render\<close>

lemma renderGame_observer:
  assumes "me s = Some m"
  shows "isObserver (renderGame (Some s) now c) = (viewer_role s = ''observer'')"
    and "localStorage (renderGame (Some s) now c) =
           (if (viewer_role s = ''observer'') \<noteq> isObserver c
            then (localStorage c)(''observer_mode'' \<mapsto>
                    js_String_bool (viewer_role s = ''observer''))
            else localStorage c)"
  using core_renderGame [of "Some s" now c] assms
  by (auto simp: core_def sync_observer_def split: if_splits)

lemma result_snapshot_me: "me result_snapshot = Some alice"
  by (simp add: result_snapshot_def)

lemma result_snapshot_role: "viewer_role result_snapshot = ''player''"
  by (simp add: result_snapshot_def)

subsection \<open>Closed forms of the loops\<close>

lemma render_status_closed:
  "render_status sh s m d =
     d\<lparr>phase_display := phase_content sh s,
       vault_count := show_int (vaults s),
       alarm_count := show_int (alarms s),
       my_name := name m\<rparr>"
  by (simp add: render_status_def phase_content_def Let_def)

lemma foldl_community:
  "foldl (\<lambda>d1 cd. d1\<lparr>community_cards_el := community_cards_el d1 @ [f cd]\<rparr>) d xs
     = d\<lparr>community_cards_el := community_cards_el d @ map f xs\<rparr>"
  by (induction xs arbitrary: d) simp_all

lemma render_community_cards_closed:
  "render_community_cards s d =
     d\<lparr>community_cards_el := map createCardDiv (community_cards s)\<rparr>"
  by (simp add: render_community_cards_def foldl_community)

lemma foldl_chip_bank:
  "foldl (\<lambda>d1 v. d1\<lparr>chip_bank := chip_bank d1 @ [f v]\<rparr>) d xs
     = d\<lparr>chip_bank := chip_bank d @ map f xs\<rparr>"
  by (induction xs arbitrary: d) simp_all

lemma render_chip_bank_closed:
  "render_chip_bank s d =
     d\<lparr>chip_bank := map (make_chip_button (chip_color s)) (chips_available s)\<rparr>"
  by (simp add: render_chip_bank_def foldl_chip_bank)

lemma foldl_opponents:
  "foldl (\<lambda>(d, n) p.
            if is_observer p then (d, n)
            else if truthy_str my \<and> Some (player_id p) = my then (d, n)
            else (d\<lparr>opponents_row := opponents_row d @ [mk n p]\<rparr>, n + 1)) (d, n) ps
     = (d\<lparr>opponents_row := opponents_row d @ opp_cards mk my n ps\<rparr>,
        n + length (opp_cards mk my n ps))"
  by (induction ps arbitrary: d n) simp_all

lemma render_opponents_closed:
  "render_opponents mk m obs ps (d, n) =
     (d\<lparr>opponents_row := opp_cards mk (if obs then None else Some (player_id m)) n ps\<rparr>,
      n + length (opp_cards mk (if obs then None else Some (player_id m)) n ps))"
  by (simp add: render_opponents_def Let_def foldl_opponents)

lemma foldl_observers:
  "foldl (\<lambda>d2 ob. d2\<lparr>observer_list := observer_list d2 @ [f ob]\<rparr>) d xs
     = d\<lparr>observer_list := observer_list d @ map f xs\<rparr>"
  by (induction xs arbitrary: d) simp_all

lemma render_observers_closed:
  \<open>render_observers q s m obs d =
     d\<lparr>observer_list_html :=
         (if filter is_observer (players s) = []
          then ''<span class="observer-empty">No observers</span>'' else []),
       observer_list := map (make_pill q m obs) (filter is_observer (players s)),
       observer_status := (if obs then ''You are observing'' else []),
       observer_btn := (if obs then ''Join Game'' else ''Observe'')\<rparr>\<close>
  by (simp add: render_observers_def Let_def foldl_observers)

lemma foldl_chat:
  "foldl (\<lambda>d1 msg. d1\<lparr>chat_messages_el :=
             Some ((case chat_messages_el d1 of Some ls \<Rightarrow> ls | None \<Rightarrow> []) @ [f msg])\<rparr>)
      (d\<lparr>chat_messages_el := Some ys\<rparr>) xs
     = d\<lparr>chat_messages_el := Some (ys @ map f xs)\<rparr>"
  by (induction xs arbitrary: ys) simp_all

lemma render_chat_closed:
  "render_chat s d =
     (case chat_messages_el d of
        None \<Rightarrow> d
      | Some old \<Rightarrow>
          d\<lparr>chat_messages_el :=
               Some (map make_chat_line (case chat_messages s of Some ms \<Rightarrow> ms | None \<Rightarrow> []))\<rparr>)"
  by (simp add: render_chat_def foldl_chat split: option.splits)

lemma foldl_my_cards:
  "foldl (\<lambda>d1 cd. d1\<lparr>my_cards := my_cards d1 @ [f cd]\<rparr>) d xs
     = d\<lparr>my_cards := my_cards d @ map f xs\<rparr>"
  by (induction xs arbitrary: d) simp_all

lemma foldl_my_history:
  "foldl (\<lambda>d1 h. d1\<lparr>my_history := my_history d1 @ [f h]\<rparr>) d xs
     = d\<lparr>my_history := my_history d @ map f xs\<rparr>"
  by (induction xs arbitrary: d) simp_all

lemma render_my_cards_closed:
  "render_my_cards m obs d =
     d\<lparr>my_cards := (case hand m of
                       None \<Rightarrow> []
                     | Some cs \<Rightarrow> if obs then [] else map createCardDiv cs)\<rparr>"
  by (simp add: render_my_cards_def Let_def foldl_my_cards split: option.splits)

lemma render_my_history_closed:
  "render_my_history m obs d =
     d\<lparr>my_history := (case chip_history m of
                         None \<Rightarrow> []
                       | Some hs \<Rightarrow> if obs then [] else map make_mini_chip hs)\<rparr>"
  by (simp add: render_my_history_def Let_def foldl_my_history split: option.splits)

subsection \<open>The document after the helpers\<close>

lemma doc_timers [simp]:
  "doc (setTimeout cb dl now c) = doc c"
  "doc (clearTimeout i c) = doc c"
  "doc (clear_if_set v c) = doc c"
  by (simp_all add: setTimeout_def clearTimeout_def clear_if_set_def split: option.splits)

lemma doc_schedule [simp]:
  "doc (scheduleTomatoClear now c) = doc c"
  "doc (scheduleTomatoImpact t m dl now c) = doc c"
  by (simp_all add: scheduleTomatoClear_def scheduleTomatoImpact_def Let_def
        split: option.splits)

lemma doc_animateTomatoFlight:
  "doc (animateTomatoFlight src tgt now c) =
     (if game_container (doc c)
      then (doc c)\<lparr>tomato_flights := tomato_flights (doc c) @ [fresh c]\<rparr> else doc c)"
  by (simp add: animateTomatoFlight_def Let_def)

lemma doc_clear_stale: "doc (clear_stale c) = updateTomatoToast None (clear_hits (doc c))"
  by (simp add: clear_stale_def Let_def)

lemma doc_show_toast: "doc (show_toast e c) = updateTomatoToast (Some (splat_text e)) (doc c)"
  by (simp add: show_toast_def)

lemma phase_dom_ops [simp]:
  "phase_display (clear_hits d) = phase_display d"
  "phase_display (updateTomatoToast t d) = phase_display d"
  "phase_display (add_hit r d) = phase_display d"
  by (simp_all add: clear_hits_def map_classes_def updateTomatoToast_def add_hit_def Let_def
        split: option.splits target_ref.splits)

lemma doc_note_event [simp]: "doc (note_event e a now c) = doc c"
  by (simp add: note_event_def Let_def)

lemma phase_splat [simp]:
  "phase_display (doc (splat e m now src tgt c)) = phase_display (doc c)"
  by (simp add: splat_def doc_show_toast doc_animateTomatoFlight split: option.splits)

lemma phase_applyTomatoEffect [simp]:
  "phase_display (doc (snd (applyTomatoEffect ev m now c))) = phase_display (doc c)"
  by (simp add: applyTomatoEffect_def Let_def doc_clear_stale split: option.splits sum.splits)

lemma phase_applyActiveTomatoTarget [simp]:
  "phase_display (doc (snd (applyActiveTomatoTarget m now c))) = phase_display (doc c)"
  by (simp add: applyActiveTomatoTarget_def Let_def split: option.splits sum.splits)

lemma phase_updateDisconnectedTimers [simp]:
  "phase_display (doc (updateDisconnectedTimers now c)) = phase_display (doc c)"
  by (simp add: updateDisconnectedTimers_def Let_def)

lemma phase_render_my_state [simp]:
  "phase_display (render_my_state s m obs d) = phase_display d"
  by (simp add: render_my_state_def render_settle_def render_my_chip_def
        render_my_history_closed render_my_cards_closed)

lemma phase_render_player_area [simp]:
  "phase_display (render_player_area m obs d) = phase_display d"
  by (simp add: render_player_area_def split: option.splits)

lemma phase_render_chat [simp]: "phase_display (render_chat s d) = phase_display d"
  by (simp add: render_chat_closed split: option.splits)


lemma phase_render_tomato [simp]:
  "phase_display (doc (snd (render_tomato s m now c))) = phase_display (doc c)"
  by (rule render_tomato_keeps [where P = "\<lambda>c'. phase_display (doc c') = phase_display (doc c)"])
     simp_all

lemma phase_render_end [simp]:
  "phase_display (doc (render_end now r)) = phase_display (doc (snd r))"
  by (rule render_end_keeps
        [where P = "\<lambda>c'. phase_display (doc c') = phase_display (doc (snd r))"])
     simp_all

lemma phase_render_page:
  "phase_display (fst (render_page s m obs now sh dn)) = phase_content sh s"
  by (simp add: render_page_def Let_def render_opponents_closed render_observers_closed
        render_chip_bank_closed render_community_cards_closed render_status_closed)

lemma phase_render_page_v1:
  "phase_display (fst (render_page_v1 s m obs now sh dn)) = phase_content sh s"
  by (simp add: render_page_v1_def Let_def render_opponents_closed render_observers_closed
        render_chip_bank_closed render_community_cards_closed render_status_closed
        render_player_area_v1_def split: option.splits)

lemma sync_observer_keeps [simp]:
  "doc (sync_observer b c) = doc c"
  "fresh (sync_observer b c) = fresh c"
  "showResultDetails (sync_observer b c) = showResultDetails c"
  by (simp_all add: sync_observer_def)

lemma forget_detached_menu_keeps [simp]:
  "doc (forget_detached_menu c) = doc c"
  "fresh (forget_detached_menu c) = fresh c"
  "showResultDetails (forget_detached_menu c) = showResultDetails c"
  by (simp_all add: forget_detached_menu_def split: option.splits)

lemma phase_render_joined:
  "phase_display (doc (render_joined s m now c)) = phase_content (showResultDetails c) s"
proof -
  obtain d9 n5 where
    p: "render_page s m (viewer_role s = ''observer'') now (showResultDetails c)
          (doc c, fresh c) = (d9, n5)"
    by (cases "render_page s m (viewer_role s = ''observer'') now (showResultDetails c)
          (doc c, fresh c)")
  have "phase_display d9 = phase_content (showResultDetails c) s"
    using phase_render_page [of s m "viewer_role s = ''observer''" now "showResultDetails c"
        "(doc c, fresh c)"] p by simp
  then show ?thesis
    by (simp add: render_joined_def Let_def p)
qed

subsection \<open>The phase display changes only in a render\<close>

lemma phase_fire [simp]: "phase_display (doc (fire cb c)) = phase_display (doc c)"
  by (cases cb)
     (simp_all add: fire_def fire_clear_def fire_impact_def fire_flight_def fire_toast_def
        Let_def split: option.splits sum.splits)

lemma phase_run_next [simp]: "phase_display (doc (run_next c)) = phase_display (doc c)"
  by (simp add: run_next_def split: option.splits)

lemma phase_showGameActionToast [simp]:
  "phase_display (doc (showGameActionToast t now c)) = phase_display (doc c)"
  by (simp add: showGameActionToast_def Let_def)

lemma phase_on_tomato_event [simp]:
  "phase_display (doc (on_tomato_event ev now c)) = phase_display (doc c)"
  by (simp add: on_tomato_event_def Let_def split: option.splits)

lemma phase_menu [simp]:
  "phase_display (doc (toggleTomatoMenu t a c)) = phase_display (doc c)"
  "phase_display (doc (removeMenu n c)) = phase_display (doc c)"
  by (simp_all add: toggleTomatoMenu_def removeMenu_def Let_def split: option.splits)

lemma phase_emit [simp]: "phase_display (doc (emit ev args c)) = phase_display (doc c)"
  by (simp add: emit_def)

lemma phase_clicks [simp]:
  "phase_display (doc (on_name_btn_click n c)) = phase_display (doc c)"
  "phase_display (doc (on_tomato_menu_btn_click c)) = phase_display (doc c)"
  "phase_display (doc (closeOnOutsideClick a b c)) = phase_display (doc c)"
  "phase_display (doc (on_transitionend n c)) = phase_display (doc c)"
  by (simp_all add: on_name_btn_click_def on_tomato_menu_btn_click_def
        closeOnOutsideClick_def on_transitionend_def split: option.splits)

lemma phase_actions [simp]:
  "phase_display (doc (on_request_join c)) = phase_display (doc c)"
  "phase_display (doc (on_chat_submit c)) = phase_display (doc c)"
  "phase_display (doc (startGame c)) = phase_display (doc c)"
  "phase_display (doc (restartGame ok c)) = phase_display (doc c)"
  "phase_display (doc (changeName c)) = phase_display (doc c)"
  "phase_display (doc (setObserverMode b c)) = phase_display (doc c)"
  "phase_display (doc (toggleObserver ok c)) = phase_display (doc c)"
  "phase_display (doc (removePlayer t ok c)) = phase_display (doc c)"
  "phase_display (doc (takeChip v src c)) = phase_display (doc c)"
  "phase_display (doc (returnChip c)) = phase_display (doc c)"
  "phase_display (doc (toggleSettle c)) = phase_display (doc c)"
  by (simp_all add: on_request_join_def on_chat_submit_def startGame_def restartGame_def
        changeName_def setObserverMode_def toggleObserver_def removePlayer_def takeChip_def
        returnChip_def toggleSettle_def Let_def split: option.splits)

lemma flags_actions [simp]:
  "lastState (emit ev args c) = lastState c"
  "showResultDetails (emit ev args c) = showResultDetails c"
  "lastState (on_chat_submit c) = lastState c"
  "showResultDetails (on_chat_submit c) = showResultDetails c"
  "lastState (changeName c) = lastState c"
  "showResultDetails (changeName c) = showResultDetails c"
  "lastState (setObserverMode b c) = lastState c"
  "showResultDetails (setObserverMode b c) = showResultDetails c"
  "lastState (on_tomato_menu_btn_click c) = lastState c"
  "showResultDetails (on_tomato_menu_btn_click c) = showResultDetails c"
  by (simp_all add: emit_def on_chat_submit_def changeName_def setObserverMode_def
        on_tomato_menu_btn_click_def removeMenu_def Let_def split: option.splits)

lemma phase_renderGame:
  "phase_display (doc (renderGame state now c)) =
     (case state of
        None \<Rightarrow> phase_display (doc c)
      | Some s \<Rightarrow>
          (case me s of
             None \<Rightarrow> phase_display (doc c)
           | Some m \<Rightarrow> phase_content (showResultDetails c) s))"
  by (simp add: renderGame_def phase_render_joined split: option.splits)

lemma phase_in_sync_same:
  assumes "phase_display (doc c') = phase_display (doc c)" "lastState c' = lastState c"
    "showResultDetails c' = showResultDetails c" "phase_in_sync c"
  shows "phase_in_sync c'"
  using assms by (auto simp: phase_in_sync_def split: option.splits)

lemma phase_in_sync_renderGame: "phase_in_sync (renderGame state now c)"
  unfolding phase_in_sync_def renderGame_frame phase_renderGame
  by (auto split: option.splits)

lemma phase_in_sync_handle:
  assumes "phase_in_sync c"
  shows "phase_in_sync (handle e c)"
proof (cases e)
  case (GameUpdate state now)
  then show ?thesis by (simp add: phase_in_sync_renderGame)
next
  case (ToggleResultDetails now)
  show ?thesis
  proof (cases "lastState c")
    case None
    then show ?thesis
      unfolding ToggleResultDetails by (simp add: toggleResultDetails_def Let_def phase_in_sync_def)
  next
    case (Some s)
    then show ?thesis
      unfolding ToggleResultDetails
      by (simp add: toggleResultDetails_def Let_def phase_in_sync_renderGame)
  qed
next
  case (GameActionError msg now)
  then show ?thesis
    using assms core_eqD [OF core_showGameActionToast [of msg now c]]
    by (auto intro: phase_in_sync_same)
next
  case (TomatoEvent ev now)
  then show ?thesis
    using assms core_eqD [OF core_on_tomato_event [of ev now c]]
    by (auto intro: phase_in_sync_same)
next
  case (Interval now)
  then show ?thesis
    using assms core_eqD [OF core_updateDisconnectedTimers [of now c]]
    by (auto intro: phase_in_sync_same)
next
  case TimeoutDue
  then show ?thesis
    using assms core_eqD [OF core_run_next [of c]] by (auto intro: phase_in_sync_same)
next
  case (NameBtnClick n)
  then show ?thesis
    using assms core_eqD [OF core_menu_clicks(2) [of n c]] by (auto intro: phase_in_sync_same)
next
  case (DocClick a b)
  then show ?thesis
    using assms core_eqD [OF core_menu_clicks(1) [of a b c]]
    by (auto intro: phase_in_sync_same)
next
  case (TransitionEnd n)
  then show ?thesis
    using assms core_eqD [OF core_on_transitionend [of n c]]
    by (auto intro: phase_in_sync_same)
next
  case (ToggleObserver ok)
  then show ?thesis
    using assms by (auto simp: toggleObserver_def intro: phase_in_sync_same)
qed (use assms in \<open>auto simp: on_request_join_def startGame_def restartGame_def
      removePlayer_def takeChip_def returnChip_def toggleSettle_def
      intro: phase_in_sync_same\<close>)

lemma reachable_phase_in_sync:
  assumes "reachable ls uuid d c"
  shows "phase_in_sync c"
  using assms
proof (induction rule: reachable.induct)
  case start
  show ?case by (simp add: phase_in_sync_def init_def split: option.splits)
next
  case (step c e)
  then show ?case by (simp add: phase_in_sync_handle)
qed

lemma buildResultDetails_empty: "(buildResultDetails r = []) = (r = None)"
  by (cases r) (simp_all add: buildResultDetails_def)

lemma result_client_facts:
  "lastState result_client = Some result_snapshot"
  "showResultDetails result_client = False"
  "lastState detailed_client = Some detailed_snapshot"
  "showResultDetails detailed_client = False"
  by (simp_all add: result_client_def detailed_client_def renderGame_frame fresh_client_def
        init_def)

lemma detailed_snapshot_facts:
  "me detailed_snapshot = Some alice" "phase detailed_snapshot = ''RESULT''"
  "phase result_snapshot = ''RESULT''" "result_details result_snapshot = None"
  "result_message result_snapshot = Some ''HEIST FAILED''"
  by (simp_all add: detailed_snapshot_def result_snapshot_def)

subsection \<open>The chip bank and the community cards after the tomato effect\<close>

lemma hit_free_chip_button:
  "(make_chip_button col v)\<lparr>cb_className :=
      cl_remove ''tomato-hit'' (cb_className (make_chip_button col v))\<rparr> = make_chip_button col v"
  by (simp add: make_chip_button_def chip_class_def cl_remove_def)

lemma hit_free_card:
  "(createCardDiv cd)\<lparr>cd_className := cl_remove ''tomato-hit'' (cd_className (createCardDiv cd))\<rparr>
     = createCardDiv cd"
  by (simp add: createCardDiv_def cl_remove_def cl_add_def Let_def)

lemma shows_board_clear_hits:
  assumes "shows_board col chips cards d"
  shows "shows_board col chips cards (clear_hits d)"
  using assms
  by (simp add: shows_board_def clear_hits_def map_classes_def hit_free_chip_button hit_free_card)

lemma shows_board_updateTomatoToast:
  "shows_board col chips cards (updateTomatoToast t d) = shows_board col chips cards d"
  by (simp add: shows_board_def updateTomatoToast_def Let_def split: option.splits)

lemma shows_board_add_hit:
  "shows_board col chips cards (add_hit r d) = shows_board col chips cards d"
  by (simp add: shows_board_def add_hit_def split: target_ref.splits)

lemma shows_board_fields [simp]:
  "shows_board col chips cards (d\<lparr>tomato_flights := fl\<rparr>) = shows_board col chips cards d"
  "shows_board col chips cards (d\<lparr>opponents_row := ops\<rparr>) = shows_board col chips cards d"
  by (simp_all add: shows_board_def)

lemma shows_board_clear_stale:
  assumes "shows_board col chips cards (doc c)"
  shows "shows_board col chips cards (doc (clear_stale c))"
  using assms
  by (simp add: doc_clear_stale shows_board_updateTomatoToast shows_board_clear_hits)

lemma shows_board_splat:
  assumes "shows_board col chips cards (doc c)"
  shows "shows_board col chips cards (doc (splat e m now src tgt c))"
  using assms
  by (simp add: splat_def doc_show_toast doc_animateTomatoFlight shows_board_updateTomatoToast
        shows_board_add_hit split: option.splits)

lemma shows_board_applyTomatoEffect:
  assumes "shows_board col chips cards (doc c)"
  shows "shows_board col chips cards (doc (snd (applyTomatoEffect ev m now c)))"
  using assms
  by (simp add: applyTomatoEffect_def Let_def shows_board_clear_stale shows_board_splat
        split: option.splits sum.splits)

lemma shows_board_applyActiveTomatoTarget:
  assumes "shows_board col chips cards (doc c)"
  shows "shows_board col chips cards (doc (snd (applyActiveTomatoTarget m now c)))"
  using assms
  by (simp add: applyActiveTomatoTarget_def Let_def shows_board_clear_hits shows_board_add_hit
        split: option.splits sum.splits)

lemma shows_board_render_tomato:
  assumes "shows_board col chips cards (doc c)"
  shows "shows_board col chips cards (doc (snd (render_tomato s m now c)))"
  by (rule render_tomato_keeps [where P = "\<lambda>c'. shows_board col chips cards (doc c')"])
     (simp_all add: assms shows_board_applyTomatoEffect shows_board_applyActiveTomatoTarget)

lemma shows_board_updateDisconnectedTimers:
  "shows_board col chips cards (doc (updateDisconnectedTimers now c))
     = shows_board col chips cards (doc c)"
  by (simp add: updateDisconnectedTimers_def Let_def)

lemma shows_board_render_end:
  assumes "shows_board col chips cards (doc (snd r))"
  shows "shows_board col chips cards (doc (render_end now r))"
  by (rule render_end_keeps [where P = "\<lambda>c'. shows_board col chips cards (doc c')"])
     (simp_all add: assms shows_board_updateDisconnectedTimers)


lemma shows_board_sections [simp]:
  "shows_board col chips cards (render_observers q s m obs d) = shows_board col chips cards d"
  "shows_board col chips cards (render_chat s d) = shows_board col chips cards d"
  "shows_board col chips cards (render_my_state s m obs d) = shows_board col chips cards d"
  "shows_board col chips cards (render_player_area m obs d) = shows_board col chips cards d"
  "shows_board col chips cards (render_player_area_v1 m obs d) = shows_board col chips cards d"
  by (simp_all add: shows_board_def render_observers_closed render_chat_closed
        render_my_state_def render_settle_def render_my_chip_def render_my_history_closed
        render_my_cards_closed render_player_area_def render_player_area_v1_def
        split: option.splits)

lemma shows_board_after_bank:
  "shows_board (chip_color s) (chips_available s) (community_cards s)
     (render_chip_bank s (render_community_cards s d))"
  by (simp add: shows_board_def render_chip_bank_closed render_community_cards_closed)

lemma shows_board_menu [simp]:
  "shows_board col chips cards (d\<lparr>menu := x\<rparr>) = shows_board col chips cards d"
  by (simp add: shows_board_def)

lemma shows_board_render_page:
  "shows_board (chip_color s) (chips_available s) (community_cards s)
     (fst (render_page s m obs now sh dn))"
  by (simp add: render_page_def Let_def render_opponents_closed shows_board_after_bank)

lemma shows_board_render_page_v1:
  "shows_board (chip_color s) (chips_available s) (community_cards s)
     (fst (render_page_v1 s m obs now sh dn))"
  by (simp add: render_page_v1_def Let_def render_opponents_closed shows_board_after_bank)

lemma shows_board_renderGame:
  assumes "me s = Some m"
  shows "shows_board (chip_color s) (chips_available s) (community_cards s)
           (doc (renderGame (Some s) now c))"
proof -
  let ?c0 = "c\<lparr>lastState := Some s\<rparr>"
  obtain d9 n5 where
    p: "render_page s m (viewer_role s = ''observer'') now (showResultDetails ?c0)
          (doc ?c0, fresh ?c0) = (d9, n5)"
    by (cases "render_page s m (viewer_role s = ''observer'') now (showResultDetails ?c0)
          (doc ?c0, fresh ?c0)")
  have "shows_board (chip_color s) (chips_available s) (community_cards s) d9"
    using shows_board_render_page [of s m "viewer_role s = ''observer''" now
        "showResultDetails ?c0" "(doc ?c0, fresh ?c0)"] p by simp
  then show ?thesis
    using assms p
    by (simp add: renderGame_def render_joined_def Let_def shows_board_render_end
          shows_board_render_tomato)
qed

lemma shows_board_renderGame_v1:
  assumes "me s = Some m"
  shows "shows_board (chip_color s) (chips_available s) (community_cards s)
           (doc (renderGame_v1 (Some s) now c))"
proof -
  let ?c0 = "c\<lparr>lastState := Some s\<rparr>"
  obtain d9 n5 where
    p: "render_page_v1 s m (viewer_role s = ''observer'') now (showResultDetails ?c0)
          (doc ?c0, fresh ?c0) = (d9, n5)"
    by (cases "render_page_v1 s m (viewer_role s = ''observer'') now (showResultDetails ?c0)
          (doc ?c0, fresh ?c0)")
  have "shows_board (chip_color s) (chips_available s) (community_cards s) d9"
    using shows_board_render_page_v1 [of s m "viewer_role s = ''observer''" now
        "showResultDetails ?c0" "(doc ?c0, fresh ?c0)"] p by simp
  then show ?thesis
    using assms p
    by (simp add: renderGame_v1_def render_joined_v1_def Let_def
          shows_board_updateDisconnectedTimers)
qed

lemma result_snapshot_board:
  "chips_available result_snapshot = [1, 2]" "chip_color result_snapshot = ''White''"
  "community_cards result_snapshot = [\<lparr>str = ''A'' @ heart_suit, suit = heart_suit\<rparr>]"
  by (simp_all add: result_snapshot_def)

subsection \<open>The counters do not influence the rest of a render\<close>


lemma recount_reads [simp]:
  "find_card t (recount x y d) = find_card t d"
  "card_or_area cd tid m (recount x y d) = card_or_area cd tid m d"
  "resolve_el tid m (recount x y d) = resolve_el tid m d"
  "game_container (recount x y d) = game_container d"
  "tomato_flights (recount x y d) = tomato_flights d"
  "opponents_row (recount x y d) = opponents_row d"
  "player_area_el (recount x y d) = player_area_el d"
  by (simp_all add: recount_def find_card_def card_or_area_def resolve_el_def
        split: option.splits sum.splits)

lemma recount_fields [simp]:
  "(recount x y d)\<lparr>tomato_flights := fl\<rparr> = recount x y (d\<lparr>tomato_flights := fl\<rparr>)"
  "(recount x y d)\<lparr>opponents_row := ops\<rparr> = recount x y (d\<lparr>opponents_row := ops\<rparr>)"
  by (simp_all add: recount_def)

lemma retag_fields [simp]:
  "doc (retag st x y c) = recount x y (doc c)"
  "timers (retag st x y c) = timers c"
  "fresh (retag st x y c) = fresh c"
  "flight_listeners (retag st x y c) = flight_listeners c"
  "tomatoClearTimeout (retag st x y c) = tomatoClearTimeout c"
  "tomatoImpactTimeout (retag st x y c) = tomatoImpactTimeout c"
  "lastTomatoEventId (retag st x y c) = lastTomatoEventId c"
  "pendingTomatoEvent (retag st x y c) = pendingTomatoEvent c"
  "activeTomatoTargetId (retag st x y c) = activeTomatoTargetId c"
  "activeTomatoExpiresAt (retag st x y c) = activeTomatoExpiresAt c"
  "activeTomatoShowAt (retag st x y c) = activeTomatoShowAt c"
  by (simp_all add: retag_def)
















lemma phase_content_counts [simp]:
  "phase_content sh (s\<lparr>vaults := v, alarms := a\<rparr>) = phase_content sh s"
  by (simp add: phase_content_def)







lemma opp_chip_counts [simp]: "opp_chip (s\<lparr>vaults := v, alarms := a\<rparr>) p = opp_chip s p"
  by (simp add: opp_chip_def split: option.splits)

lemma render_my_chip_counts [simp]:
  "render_my_chip (s\<lparr>vaults := v, alarms := a\<rparr>) m obs d = render_my_chip s m obs d"
  by (simp add: render_my_chip_def)

lemma sections_counts [simp]:
  "render_community_cards (s\<lparr>vaults := v, alarms := a\<rparr>) d = render_community_cards s d"
  "render_chip_bank (s\<lparr>vaults := v, alarms := a\<rparr>) d = render_chip_bank s d"
  "render_observers q (s\<lparr>vaults := v, alarms := a\<rparr>) m obs d = render_observers q s m obs d"
  "render_my_state (s\<lparr>vaults := v, alarms := a\<rparr>) m obs d = render_my_state s m obs d"
  "render_tomato (s\<lparr>vaults := v, alarms := a\<rparr>) m now c = render_tomato s m now c"
  by (simp_all add: render_community_cards_def render_chip_bank_def render_observers_def
        render_my_state_def render_tomato_def cong: prod.case_cong option.case_cong)

lemma render_chat_counts [simp]:
  "render_chat (s\<lparr>vaults := v, alarms := a\<rparr>) d = render_chat s d"
  by (cases "chat_messages_el d") (simp_all add: render_chat_closed)

lemma make_opp_card_counts [simp]:
  "make_opp_card (s\<lparr>vaults := v, alarms := a\<rparr>) now = make_opp_card s now"
  "make_opp_card_v1 (s\<lparr>vaults := v, alarms := a\<rparr>) now = make_opp_card_v1 s now"
  by (simp_all add: make_opp_card_def make_opp_card_v1_def fun_eq_iff)








subsection \<open>Clearing the marks\<close>

lemma cl_remove_not_mem [simp]: "tok \<notin> set (cl_remove tok cls)"
  by (simp add: cl_remove_def)




lemma no_hits_flights [simp]: "no_hits (d\<lparr>tomato_flights := fl\<rparr>) = no_hits d"
  by (simp add: no_hits_def all_classes_def)

lemma tomato_flights_ops [simp]:
  "tomato_flights (clear_hits d) = tomato_flights d"
  "tomato_flights (updateTomatoToast t d) = tomato_flights d"
  "tomato_flights (add_hit r d) = tomato_flights d"
  by (simp_all add: clear_hits_def map_classes_def updateTomatoToast_def add_hit_def Let_def
        split: option.splits target_ref.splits)




subsection \<open>The order in which pending callbacks run\<close>

lemma before_refl [simp]: "before x x"
  by (simp add: before_def)







lemma impact_fire [simp]: "tomatoImpactTimeout (fire cb c) = tomatoImpactTimeout c"
  by (cases cb)
     (auto simp: fire_def fire_clear_def fire_impact_def fire_flight_def fire_toast_def
        Let_def clear_if_set_def clearTimeout_def split: option.splits sum.splits)



lemma timers_clearTimeout [simp]:
  "timers (clearTimeout i c) = filter (\<lambda>t. t_id t \<noteq> i) (timers c)"
  "tomatoImpactTimeout (clearTimeout i c) = tomatoImpactTimeout c"
  by (simp_all add: clearTimeout_def)



subsection \<open>Timer numbers stay below the fresh number\<close>




lemma timers_wf_doc [simp]: "timers_wf (c\<lparr>doc := d\<rparr>) = timers_wf c"
  by (simp add: timers_wf_def)

lemma timers_wf_vars [simp]:
  "timers_wf (c\<lparr>lastTomatoEventId := x\<rparr>) = timers_wf c"
  "timers_wf (c\<lparr>activeTomatoTargetId := y\<rparr>) = timers_wf c"
  "timers_wf (c\<lparr>activeTomatoExpiresAt := z\<rparr>) = timers_wf c"
  "timers_wf (c\<lparr>activeTomatoShowAt := z\<rparr>) = timers_wf c"
  "timers_wf (c\<lparr>pendingTomatoEvent := p\<rparr>) = timers_wf c"
  "timers_wf (c\<lparr>openTomatoMenu := q\<rparr>) = timers_wf c"
  "timers_wf (c\<lparr>flight_listeners := fl\<rparr>) = timers_wf c"
  "timers_wf (c\<lparr>gameActionToastTimeout := q\<rparr>) = timers_wf c"
  "timers_wf (c\<lparr>lastState := st\<rparr>) = timers_wf c"
  "timers_wf (c\<lparr>showResultDetails := b\<rparr>) = timers_wf c"
  "timers_wf (c\<lparr>emitted := es\<rparr>) = timers_wf c"
  "timers_wf (c\<lparr>isObserver := b\<rparr>) = timers_wf c"
  "timers_wf (c\<lparr>localStorage := l\<rparr>) = timers_wf c"
  "timers_wf (c\<lparr>myName := nm\<rparr>) = timers_wf c"
  by (simp_all add: timers_wf_def)





lemma timers_wf_note_event [simp]: "timers_wf (note_event e a now c) = timers_wf c"
  by (simp add: note_event_def Let_def)

lemma timers_wf_show_toast [simp]: "timers_wf (show_toast e c) = timers_wf c"
  by (simp add: show_toast_def)











lemma timers_wf_updateDisconnectedTimers [simp]:
  "timers_wf (updateDisconnectedTimers now c) = timers_wf c"
  by (simp add: updateDisconnectedTimers_def Let_def)



lemma timers_wf_head [simp]:
  "timers_wf (sync_observer b c) = timers_wf c"
  "timers_wf (forget_detached_menu c) = timers_wf c"
  by (simp_all add: sync_observer_def forget_detached_menu_def split: option.splits)









section \<open>Properties\<close>

subsection \<open>formatDuration\<close>

text \<open>
  The claim C10 as stated fails for large inputs: the script divides in doubles, and the
  quotient of \<open>10 ^ 20\<close> by 3600 is rounded to 27777777777777776, one less than the floor
  of the exact quotient that the claim gives.
\<close>

theorem formatDuration_rounds_hours:
  "formatDuration (10 ^ 20) = ''27777777777777776h 46m'' \<and>
   formatDuration_spec (10 ^ 20) = ''27777777777777777h 46m''"
proof
  have q: "dbl (250000000000000000 / 9) = 27777777777777776"
    by (simp add: dbl_binade_54 round_even_def)
  have f: "\<lfloor>(10::real) ^ 20\<rfloor> = 10 ^ 20"
    by (metis floor_of_int of_int_numeral of_int_power)
  have m: "\<lfloor>dbl (140 / 3)\<rfloor> = 46"
    using floor_dbl_quotient [of 2800 60] by simp
  have s: "js_String_int 46 = ''46''"
    by (simp add: js_String_int_def show_int_def show_nat.simps)
  have h: "js_String_int 27777777777777776 = ''27777777777777776''"
    by (simp add: js_String_int_def big_num_string_def shortest_def Let_def digits.simps
          dbl_binade_54 round_even_def upt_rec)
  show "formatDuration (10 ^ 20) = ''27777777777777776h 46m''"
    unfolding formatDuration_def f Let_def
    by (simp add: js_rem_def q h m s)
  show "formatDuration_spec (10 ^ 20) = ''27777777777777777h 46m''"
    by (simp add: formatDuration_spec_def show_int_def show_nat.simps)
qed



lemma formatDuration_examples:
  "formatDuration_spec 3725.5 = ''1h 2m''" "formatDuration_spec 125 = ''2m 5s''"
  "formatDuration_spec 59.9 = ''59s''" "formatDuration_spec 3600 = ''1h 0m''"
  by (simp_all add: formatDuration_spec_def show_int_def show_nat.simps)

subsection \<open>The chat form\<close>

lemma js_trim_hi: "js_trim ''  hi there  '' = ''hi there''"
  by (simp add: js_trim_def js_trimStart.simps js_trimEnd.simps ws_len_def ws_len_end_def
        ws_seqs_def)

lemma js_trim_blank: "js_trim ''   '' = []"
  by (simp add: js_trim_def js_trimStart.simps js_trimEnd.simps ws_len_def ws_len_end_def
        ws_seqs_def)

text \<open>
  C9. Submitting the chat form when the trimmed value of the input is empty changes
  nothing: no event is emitted and the input keeps its value. When the trimmed value
  \<open>t\<close> is not empty, exactly one \<^verbatim>\<open>chat_message\<close> event with payload \<^verbatim>\<open>{text: t}\<close> is
  emitted, and the input is cleared.
\<close>

theorem chat_submit_trimmed:
  assumes "chat_input (doc c) = Some v"
  shows "(js_trim v = [] \<longrightarrow> on_chat_submit c = c) \<and>
         (js_trim v \<noteq> [] \<longrightarrow>
            on_chat_submit c =
              c\<lparr>emitted := emitted c @ [(''chat_message'', [JObj [(''text'', JStr (js_trim v))]])],
                doc := (doc c)\<lparr>chat_input := Some []\<rparr>\<rparr>)"
  using assms by (simp add: on_chat_submit_def emit_def Let_def)

theorem chat_submit_trimmed_witness:
  "emitted (on_chat_submit (fresh_client\<lparr>doc := blank_page\<lparr>chat_input := Some ''  hi there  ''\<rparr>\<rparr>))
     = [(''chat_message'', [JObj [(''text'', JStr ''hi there'')]])] \<and>
   chat_input (doc (on_chat_submit
       (fresh_client\<lparr>doc := blank_page\<lparr>chat_input := Some ''  hi there  ''\<rparr>\<rparr>))) = Some [] \<and>
   on_chat_submit (fresh_client\<lparr>doc := blank_page\<lparr>chat_input := Some ''   ''\<rparr>\<rparr>)
     = fresh_client\<lparr>doc := blank_page\<lparr>chat_input := Some ''   ''\<rparr>\<rparr>"
  using chat_submit_trimmed [of "fresh_client\<lparr>doc := blank_page\<lparr>chat_input := Some ''  hi there  ''\<rparr>\<rparr>" "''  hi there  ''"]
        chat_submit_trimmed [of "fresh_client\<lparr>doc := blank_page\<lparr>chat_input := Some ''   ''\<rparr>\<rparr>" "''   ''"]
  by (simp add: js_trim_hi js_trim_blank fresh_client_def init_def)

subsection \<open>User intents\<close>

text \<open>
  C2. Each user-intent entry point emits exactly one socket event with the given payload
  and changes no game state: \<^verbatim>\<open>startGame\<close>, \<^verbatim>\<open>takeChip\<close>, \<^verbatim>\<open>returnChip\<close> and
  \<^verbatim>\<open>toggleSettle\<close> change nothing but the list of emitted events; the button of the tomato
  menu emits \<^verbatim>\<open>throw_tomato\<close> for the player the menu was opened on (the one whose name
  button was clicked), and submitting a chat text that is not blank emits \<^verbatim>\<open>chat_message\<close>
  with the trimmed text; neither touches \<^verbatim>\<open>lastState\<close>.
\<close>

theorem intents_emit_one_event:
  "startGame c = c\<lparr>emitted := emitted c @ [(''start_game'', [])]\<rparr> \<and>
   takeChip v source c =
     c\<lparr>emitted := emitted c @
          [(''take_chip'', [JObj [(''chip_value'', v), (''source'', source)]])]\<rparr> \<and>
   returnChip c = c\<lparr>emitted := emitted c @ [(''return_chip'', [])]\<rparr> \<and>
   toggleSettle c = c\<lparr>emitted := emitted c @ [(''toggle_settle'', [])]\<rparr> \<and>
   (menu (doc c) = Some mn \<longrightarrow>
      emitted (on_tomato_menu_btn_click c) =
        emitted c @ [(''throw_tomato'', [JObj [(''target_player_id'', JStr (tm_target mn))]])] \<and>
      lastState (on_tomato_menu_btn_click c) = lastState c) \<and>
   (find (\<lambda>p. pc_node p = n) (opponents_row (doc c)) = Some p \<and>
    pc_name_btn p = Some tid \<and> tid \<noteq> [] \<longrightarrow>
      emitted (on_tomato_menu_btn_click (on_name_btn_click n c)) =
        emitted c @ [(''throw_tomato'', [JObj [(''target_player_id'', JStr tid)]])] \<and>
      lastState (on_tomato_menu_btn_click (on_name_btn_click n c)) = lastState c) \<and>
   (chat_input (doc c) = Some txt \<and> js_trim txt \<noteq> [] \<longrightarrow>
      emitted (on_chat_submit c) =
        emitted c @ [(''chat_message'', [JObj [(''text'', JStr (js_trim txt))]])] \<and>
      lastState (on_chat_submit c) = lastState c)"
proof (intro conjI impI)
  show "startGame c = c\<lparr>emitted := emitted c @ [(''start_game'', [])]\<rparr>"
    by (simp add: startGame_def emit_def)
  show "takeChip v source c =
     c\<lparr>emitted := emitted c @
          [(''take_chip'', [JObj [(''chip_value'', v), (''source'', source)]])]\<rparr>"
    by (simp add: takeChip_def emit_def)
  show "returnChip c = c\<lparr>emitted := emitted c @ [(''return_chip'', [])]\<rparr>"
    by (simp add: returnChip_def emit_def)
  show "toggleSettle c = c\<lparr>emitted := emitted c @ [(''toggle_settle'', [])]\<rparr>"
    by (simp add: toggleSettle_def emit_def)
next
  assume m: "menu (doc c) = Some mn"
  then show "emitted (on_tomato_menu_btn_click c) =
        emitted c @ [(''throw_tomato'', [JObj [(''target_player_id'', JStr (tm_target mn))]])]"
    by (simp add: on_tomato_menu_btn_click_def removeMenu_def emit_def Let_def)
  from m show "lastState (on_tomato_menu_btn_click c) = lastState c"
    by (simp add: on_tomato_menu_btn_click_def removeMenu_def emit_def Let_def)
next
  assume a: "find (\<lambda>p. pc_node p = n) (opponents_row (doc c)) = Some p \<and>
    pc_name_btn p = Some tid \<and> tid \<noteq> []"
  then have mem: "n \<in> pc_node ` set (opponents_row (doc c))"
    by (auto simp: find_Some_iff intro!: imageI nth_mem)
  have mn: "menu (doc (on_name_btn_click n c))
            = Some \<lparr>tm_node = fresh c, tm_anchor = n, tm_target = tid\<rparr>"
    using a mem
    by (simp add: on_name_btn_click_def toggleTomatoMenu_def truthy_str_def Let_def
             split: option.splits)
  have em: "emitted (on_name_btn_click n c) = emitted c"
    using a
    by (simp add: on_name_btn_click_def toggleTomatoMenu_def truthy_str_def Let_def
             split: option.splits)
  have ls: "lastState (on_name_btn_click n c) = lastState c"
    using a
    by (simp add: on_name_btn_click_def toggleTomatoMenu_def truthy_str_def Let_def
             split: option.splits)
  show "emitted (on_tomato_menu_btn_click (on_name_btn_click n c)) =
        emitted c @ [(''throw_tomato'', [JObj [(''target_player_id'', JStr tid)]])]"
    using mn em
    by (simp add: on_tomato_menu_btn_click_def removeMenu_def emit_def Let_def)
  show "lastState (on_tomato_menu_btn_click (on_name_btn_click n c)) = lastState c"
    using mn ls
    by (simp add: on_tomato_menu_btn_click_def removeMenu_def emit_def Let_def)
next
  assume a: "chat_input (doc c) = Some txt \<and> js_trim txt \<noteq> []"
  then show "emitted (on_chat_submit c) =
        emitted c @ [(''chat_message'', [JObj [(''text'', JStr (js_trim txt))]])]"
    by (simp add: on_chat_submit_def emit_def Let_def)
  from a show "lastState (on_chat_submit c) = lastState c"
    by (simp add: on_chat_submit_def emit_def Let_def)
qed

theorem intents_emit_one_event_witness:
  "emitted (startGame busy_client) = [(''start_game'', [])] \<and>
   emitted (on_tomato_menu_btn_click busy_client) =
     [(''throw_tomato'', [JObj [(''target_player_id'', JStr ''p-bob'')]])] \<and>
   emitted (on_tomato_menu_btn_click (on_name_btn_click 7 busy_client)) =
     [(''throw_tomato'', [JObj [(''target_player_id'', JStr ''p-bob'')]])] \<and>
   emitted (on_chat_submit busy_client) =
     [(''chat_message'', [JObj [(''text'', JStr ''hi there'')]])]"
proof -
  have e: "emitted busy_client = []"
    by (simp add: busy_client_def fresh_client_def init_def)
  have m: "menu (doc busy_client) = Some \<lparr>tm_node = 9, tm_anchor = 7, tm_target = ''p-bob''\<rparr>"
    by (simp add: busy_client_def)
  have f: "find (\<lambda>p. pc_node p = 7) (opponents_row (doc busy_client)) = Some bob_card \<and>
           pc_name_btn bob_card = Some ''p-bob'' \<and> ''p-bob'' \<noteq> []"
    by (simp add: busy_client_def bob_card_def)
  have t: "chat_input (doc busy_client) = Some ''  hi there  '' \<and> js_trim ''  hi there  '' \<noteq> []"
    by (simp add: busy_client_def js_trim_hi)
  note inst = intents_emit_one_event
    [of busy_client "JNum 1" "JStr ''center''"
        "\<lparr>tm_node = 9, tm_anchor = 7, tm_target = ''p-bob''\<rparr>" 7 bob_card "''p-bob''"
        "''  hi there  ''"]
  from inst have "emitted (startGame busy_client) = [(''start_game'', [])]"
    using e by simp
  moreover from inst m have "emitted (on_tomato_menu_btn_click busy_client) =
     [(''throw_tomato'', [JObj [(''target_player_id'', JStr ''p-bob'')]])]"
    using e by simp
  moreover from inst f have "emitted (on_tomato_menu_btn_click (on_name_btn_click 7 busy_client)) =
     [(''throw_tomato'', [JObj [(''target_player_id'', JStr ''p-bob'')]])]"
    using e by simp
  moreover from inst t have "emitted (on_chat_submit busy_client) =
     [(''chat_message'', [JObj [(''text'', JStr ''hi there'')]])]"
    using e by (simp add: js_trim_hi)
  ultimately show ?thesis by blast
qed

subsection \<open>renderGame before the player has joined\<close>

text \<open>
  C8. For a state whose \<^verbatim>\<open>me\<close> is null or undefined (or no state object at all),
  \<^verbatim>\<open>renderGame\<close> records the state in \<^verbatim>\<open>lastState\<close> and returns: the document, the local
  storage and the observer flag are as before. This holds for both versions of
  \<^verbatim>\<open>static/script.js\<close>.
\<close>

theorem early_return_without_me:
  assumes "case state of None \<Rightarrow> True | Some s \<Rightarrow> me s = None"
  shows "renderGame state now c = c\<lparr>lastState := state\<rparr> \<and>
         renderGame_v1 state now c = c\<lparr>lastState := state\<rparr>"
  using assms by (auto simp: renderGame_def renderGame_v1_def split: option.splits)

theorem early_return_without_me_witness:
  "renderGame (Some (result_snapshot\<lparr>me := None\<rparr>)) 0 busy_client
     = busy_client\<lparr>lastState := Some (result_snapshot\<lparr>me := None\<rparr>)\<rparr> \<and>
   renderGame_v1 None 0 busy_client = busy_client\<lparr>lastState := None\<rparr>"
  using early_return_without_me [of "Some (result_snapshot\<lparr>me := None\<rparr>)" 0 busy_client]
        early_return_without_me [of None 0 busy_client]
  by simp

subsection \<open>Identity\<close>

text \<open>
  The claim C4 as stated fails where it says that a stored id is never overwritten: the
  script tests \<^verbatim>\<open>!playerId\<close>, so a stored entry that is the empty string counts as
  absent and is replaced by the fresh UUID.
\<close>

theorem empty_stored_id_overwritten:
  "(Map.empty(''player_id'' \<mapsto> [])) ''player_id'' = Some [] \<and>
   localStorage (init (Map.empty(''player_id'' \<mapsto> [])) ''uuid-1'' blank_page) ''player_id''
     = Some ''uuid-1''"
  by (simp add: init_def)

text \<open>
  C4, amended. At the start of the script, if the local storage has no \<^verbatim>\<open>player_id\<close>
  entry (or an empty one) the fresh UUID is stored under that key; in every case the
  variable \<^verbatim>\<open>playerId\<close> then equals the stored entry; a stored id that is not empty is
  never overwritten (the storage is left as it was). In every state the client can reach,
  \<^verbatim>\<open>playerId\<close> is still that id and still the stored entry, and every \<^verbatim>\<open>join_game\<close>
  event sent so far carries it, as do the ones that \<^verbatim>\<open>request_join\<close> and
  \<^verbatim>\<open>setObserverMode\<close> send next.
\<close>

theorem identity_cached:
  "(ls ''player_id'' = None \<longrightarrow> localStorage (init ls uuid d) ''player_id'' = Some uuid) \<and>
   (ls ''player_id'' = Some [] \<longrightarrow> localStorage (init ls uuid d) ''player_id'' = Some uuid) \<and>
   localStorage (init ls uuid d) ''player_id'' = Some (playerId (init ls uuid d)) \<and>
   (ls ''player_id'' = Some p \<and> p \<noteq> [] \<longrightarrow>
      localStorage (init ls uuid d) = ls \<and> playerId (init ls uuid d) = p) \<and>
   (reachable ls uuid d c \<longrightarrow>
      playerId c = playerId (init ls uuid d) \<and>
      localStorage c ''player_id'' = Some (playerId c) \<and>
      set (join_ids (emitted c)) \<subseteq> {Some (JStr (playerId c))} \<and>
      emitted (on_request_join c) =
        emitted c @ [(''join_game'',
          [JObj [(''player_id'', JStr (playerId c)), (''name'', JStr (myName c)),
                 (''is_observer'', JBool (isObserver c))]])] \<and>
      emitted (setObserverMode b c) =
        emitted c @ [(''join_game'',
          [JObj [(''player_id'', JStr (playerId c)), (''name'', JStr (myName c)),
                 (''is_observer'', JBool b)]])])"
proof (intro conjI impI)
  show "localStorage (init ls uuid d) ''player_id'' = Some (playerId (init ls uuid d))"
    by (rule init_identity)
next
  assume "ls ''player_id'' = None"
  then show "localStorage (init ls uuid d) ''player_id'' = Some uuid"
    by (simp add: init_def)
next
  assume "ls ''player_id'' = Some []"
  then show "localStorage (init ls uuid d) ''player_id'' = Some uuid"
    by (simp add: init_def)
next
  assume a: "ls ''player_id'' = Some p \<and> p \<noteq> []"
  then show "localStorage (init ls uuid d) = ls" by (simp add: init_def)
  from a show "playerId (init ls uuid d) = p" by (simp add: init_def)
next
  assume r: "reachable ls uuid d c"
  from reachable_identity [OF r]
  show "playerId c = playerId (init ls uuid d)"
    and "localStorage c ''player_id'' = Some (playerId c)"
    and "set (join_ids (emitted c)) \<subseteq> {Some (JStr (playerId c))}"
    by blast+
  show "emitted (on_request_join c) =
        emitted c @ [(''join_game'',
          [JObj [(''player_id'', JStr (playerId c)), (''name'', JStr (myName c)),
                 (''is_observer'', JBool (isObserver c))]])]"
    by (simp add: on_request_join_def emit_def join_payload_def)
  show "emitted (setObserverMode b c) =
        emitted c @ [(''join_game'',
          [JObj [(''player_id'', JStr (playerId c)), (''name'', JStr (myName c)),
                 (''is_observer'', JBool b)]])]"
    by (simp add: setObserverMode_def emit_def join_payload_def Let_def)
qed

theorem identity_cached_witness:
  "localStorage (init Map.empty ''uuid-1'' blank_page) ''player_id'' = Some ''uuid-1'' \<and>
   localStorage (init (Map.empty(''player_id'' \<mapsto> ''stored-7'')) ''uuid-1'' blank_page)
     = Map.empty(''player_id'' \<mapsto> ''stored-7'') \<and>
   playerId returning_client = ''stored-7'' \<and>
   localStorage returning_client ''player_id'' = Some ''stored-7'' \<and>
   set (join_ids (emitted returning_client)) \<subseteq> {Some (JStr ''stored-7'')} \<and>
   join_ids (emitted returning_client) = [Some (JStr ''stored-7''), Some (JStr ''stored-7'')]"
proof -
  let ?ls = "Map.empty(''player_id'' \<mapsto> ''stored-7'')"
  have r: "reachable ?ls ''uuid-1'' blank_page returning_client"
    unfolding returning_client_def by (intro reachable.step reachable.start)
  have s: "?ls ''player_id'' = Some ''stored-7'' \<and> ''stored-7'' \<noteq> []" by simp
  have e: "(Map.empty :: string \<rightharpoonup> string) ''player_id'' = None" by simp
  from identity_cached [of Map.empty "''uuid-1''" blank_page "''x''" fresh_client False] e
  have 1: "localStorage (init Map.empty ''uuid-1'' blank_page) ''player_id'' = Some ''uuid-1''"
    by blast
  note inst = identity_cached [of ?ls "''uuid-1''" blank_page "''stored-7''" returning_client False]
  from inst s have 2: "localStorage (init ?ls ''uuid-1'' blank_page) = ?ls"
    and 3: "playerId (init ?ls ''uuid-1'' blank_page) = ''stored-7''" by blast+
  from inst r have 4: "playerId returning_client = playerId (init ?ls ''uuid-1'' blank_page)"
    and 5: "localStorage returning_client ''player_id'' = Some (playerId returning_client)"
    and 6: "set (join_ids (emitted returning_client)) \<subseteq> {Some (JStr (playerId returning_client))}"
    by blast+
  have 7: "join_ids (emitted returning_client) = [Some (JStr ''stored-7''), Some (JStr ''stored-7'')]"
    by (simp add: returning_client_def init_def on_request_join_def toggleObserver_def
          setObserverMode_def emit_def Let_def join_payload_def join_ids_def)
  from 1 2 3 4 5 6 7 show ?thesis by simp
qed

subsection \<open>Observer mode\<close>

text \<open>
  The claim C5 as stated fails for the stored entry: \<^verbatim>\<open>renderGame\<close> writes
  \<^verbatim>\<open>observer_mode\<close> only when the flag changes. With the flag false and the entry
  \<^verbatim>\<open>"true"\<close>, a snapshot for a player leaves the entry \<^verbatim>\<open>"true"\<close>; on a first visit
  (no entry) the same snapshot leaves no entry.
\<close>

theorem stored_observer_mode_not_synced:
  "me result_snapshot = Some alice \<and>
   (viewer_role result_snapshot = ''observer'') = False \<and>
   isObserver stale_client = False \<and>
   localStorage stale_client ''observer_mode'' = Some ''true'' \<and>
   isObserver (renderGame (Some result_snapshot) 0 stale_client) = False \<and>
   localStorage (renderGame (Some result_snapshot) 0 stale_client) ''observer_mode''
     = Some ''true'' \<and>
   localStorage (renderGame (Some result_snapshot) 0 fresh_client) ''observer_mode'' = None"
proof -
  have i: "isObserver stale_client = False" "isObserver fresh_client = False"
    by (simp_all add: stale_client_def busy_client_def fresh_client_def init_def)
  have l: "localStorage stale_client ''observer_mode'' = Some ''true''"
    "localStorage fresh_client ''observer_mode'' = None"
    by (simp_all add: stale_client_def busy_client_def fresh_client_def init_def)
  show ?thesis
    using i l renderGame_observer [OF result_snapshot_me, of 0 stale_client]
      renderGame_observer [OF result_snapshot_me, of 0 fresh_client]
    by (simp add: result_snapshot_me result_snapshot_role)
qed

text \<open>
  C5, amended. After every \<^verbatim>\<open>renderGame\<close> call with \<^verbatim>\<open>state.me\<close> not null the flag
  \<^verbatim>\<open>isObserver\<close> equals \<^verbatim>\<open>state.viewer_role === "observer"\<close>, whatever it was before. The
  stored \<^verbatim>\<open>observer_mode\<close> is written, to that value, exactly when the flag changes, and
  the storage is untouched otherwise; so the entry, read as \<^verbatim>\<open>=== "true"\<close>, agrees with
  the server's view after the call whenever it agreed with the flag before.
  \<^verbatim>\<open>setObserverMode(b)\<close> sets both to \<open>b\<close> and sends \<^verbatim>\<open>join_game\<close> with
  \<^verbatim>\<open>is_observer = b\<close>.
\<close>

theorem observer_flag_synced:
  assumes "me s = Some m"
  shows "isObserver (renderGame (Some s) now c) = (viewer_role s = ''observer'') \<and>
         (isObserver c \<noteq> (viewer_role s = ''observer'') \<longrightarrow>
            localStorage (renderGame (Some s) now c) ''observer_mode''
              = Some (js_String_bool (viewer_role s = ''observer''))) \<and>
         (isObserver c = (viewer_role s = ''observer'') \<longrightarrow>
            localStorage (renderGame (Some s) now c) = localStorage c) \<and>
         ((localStorage c ''observer_mode'' = Some ''true'') = isObserver c \<longrightarrow>
            (localStorage (renderGame (Some s) now c) ''observer_mode'' = Some ''true'')
              = (viewer_role s = ''observer'')) \<and>
         isObserver (setObserverMode b c) = b \<and>
         localStorage (setObserverMode b c) ''observer_mode'' = Some (js_String_bool b) \<and>
         emitted (setObserverMode b c) =
           emitted c @ [(''join_game'',
             [JObj [(''player_id'', JStr (playerId c)), (''name'', JStr (myName c)),
                    (''is_observer'', JBool b)]])]"
proof (intro conjI impI)
  show "isObserver (renderGame (Some s) now c) = (viewer_role s = ''observer'')"
    using assms by (rule renderGame_observer)
next
  assume "isObserver c \<noteq> (viewer_role s = ''observer'')"
  then show "localStorage (renderGame (Some s) now c) ''observer_mode''
              = Some (js_String_bool (viewer_role s = ''observer''))"
    using renderGame_observer(2) [OF assms, of now c] by auto
next
  assume "isObserver c = (viewer_role s = ''observer'')"
  then show "localStorage (renderGame (Some s) now c) = localStorage c"
    using renderGame_observer(2) [OF assms, of now c] by auto
next
  assume "(localStorage c ''observer_mode'' = Some ''true'') = isObserver c"
  then show "(localStorage (renderGame (Some s) now c) ''observer_mode'' = Some ''true'')
              = (viewer_role s = ''observer'')"
    using renderGame_observer(2) [OF assms, of now c]
    by (auto simp: js_String_bool_def)
next
  show "isObserver (setObserverMode b c) = b"
    by (simp add: setObserverMode_def emit_def Let_def)
  show "localStorage (setObserverMode b c) ''observer_mode'' = Some (js_String_bool b)"
    by (simp add: setObserverMode_def emit_def Let_def)
  show "emitted (setObserverMode b c) =
           emitted c @ [(''join_game'',
             [JObj [(''player_id'', JStr (playerId c)), (''name'', JStr (myName c)),
                    (''is_observer'', JBool b)]])]"
    by (simp add: setObserverMode_def emit_def Let_def join_payload_def)
qed

theorem observer_flag_synced_witness:
  "isObserver (renderGame (Some (result_snapshot\<lparr>viewer_role := ''observer''\<rparr>)) 0 fresh_client)
     = True \<and>
   localStorage (renderGame (Some (result_snapshot\<lparr>viewer_role := ''observer''\<rparr>)) 0 fresh_client)
     ''observer_mode'' = Some ''true'' \<and>
   localStorage (renderGame (Some result_snapshot) 0 fresh_client) = localStorage fresh_client \<and>
   isObserver (setObserverMode True fresh_client) = True \<and>
   emitted (setObserverMode True fresh_client) =
     [(''join_game'',
       [JObj [(''player_id'', JStr ''uuid-1''), (''name'', JStr []), (''is_observer'', JBool True)]])]"
proof -
  let ?s = "result_snapshot\<lparr>viewer_role := ''observer''\<rparr>"
  have m: "me ?s = Some alice" by (simp add: result_snapshot_def)
  have v: "(viewer_role ?s = ''observer'') = True" by simp
  have f: "isObserver fresh_client = False" "emitted fresh_client = []"
    "playerId fresh_client = ''uuid-1''" "myName fresh_client = []"
    by (simp_all add: fresh_client_def init_def)
  note a = observer_flag_synced [OF m, of 0 fresh_client True]
  note b = observer_flag_synced [OF result_snapshot_me, of 0 fresh_client True]
  from a v f have 1: "isObserver (renderGame (Some ?s) 0 fresh_client) = True"
    and 2: "localStorage (renderGame (Some ?s) 0 fresh_client) ''observer_mode'' = Some ''true''"
    by (simp_all add: js_String_bool_def)
  from b f have 3: "localStorage (renderGame (Some result_snapshot) 0 fresh_client)
                      = localStorage fresh_client"
    by (simp add: result_snapshot_role)
  from a f have 4: "isObserver (setObserverMode True fresh_client) = True"
    and 5: "emitted (setObserverMode True fresh_client) =
     [(''join_game'',
       [JObj [(''player_id'', JStr ''uuid-1''), (''name'', JStr []), (''is_observer'', JBool True)]])]"
    by simp_all
  from 1 2 3 4 5 show ?thesis by blast
qed

subsection \<open>The result-detail toggle\<close>

text \<open>
  The claim C7 as stated fails where it says that in the result phase the detailed
  rankings are present if and only if the flag is true: \<^verbatim>\<open>buildResultDetails\<close> returns
  the empty string for a snapshot without \<^verbatim>\<open>result_details\<close>. After a result snapshot
  without details, one toggle sets the flag and renders the button label
  \<^verbatim>\<open>Hide Detailed Rankings\<close>, with nothing in the place of the rankings.
\<close>

theorem details_absent_though_flag_set:
  "lastState result_client = Some result_snapshot \<and>
   me result_snapshot = Some alice \<and>
   phase result_snapshot = ''RESULT'' \<and>
   showResultDetails (toggleResultDetails 1 result_client) = True \<and>
   phase_display (doc (toggleResultDetails 1 result_client)) =
     InnerHTML (result_html ''#e74c3c'' ''HEIST FAILED'' ''Hide Detailed Rankings'' [])"
proof -
  have "toggleResultDetails 1 result_client
        = renderGame (Some result_snapshot) 1 (result_client\<lparr>showResultDetails := True\<rparr>)"
    by (simp add: toggleResultDetails_def Let_def result_client_facts)
  then have "phase_display (doc (toggleResultDetails 1 result_client))
             = phase_content True result_snapshot"
    by (simp add: phase_renderGame result_snapshot_me)
  moreover have "phase_content True result_snapshot =
     InnerHTML (result_html ''#e74c3c'' ''HEIST FAILED'' ''Hide Detailed Rankings'' [])"
    by (simp add: phase_content_def detailed_snapshot_facts buildResultDetails_def)
  ultimately show ?thesis
    by (simp add: result_client_facts result_snapshot_me detailed_snapshot_facts
          toggleResultDetails_frame)
qed

text \<open>
  C7, amended. Each call of \<^verbatim>\<open>toggleResultDetails\<close> flips the flag and, when
  \<^verbatim>\<open>lastState\<close> is not null, renders again from \<^verbatim>\<open>lastState\<close> (and does nothing else when
  it is null). When \<^verbatim>\<open>lastState\<close> is a result-phase snapshot of a joined player, the
  phase display is afterwards the result markup whose place for the rankings holds
  \<^verbatim>\<open>buildResultDetails(result_details)\<close> if the flag is now true and nothing otherwise;
  that markup is empty exactly when the snapshot has no \<^verbatim>\<open>result_details\<close>. In every
  state the client can reach, two calls restore the flag and the phase display.
\<close>

theorem toggle_result_details:
  "showResultDetails (toggleResultDetails now c) = (\<not> showResultDetails c) \<and>
   (lastState c = None \<longrightarrow>
      toggleResultDetails now c = c\<lparr>showResultDetails := \<not> showResultDetails c\<rparr>) \<and>
   (lastState c = Some s \<longrightarrow>
      toggleResultDetails now c =
        renderGame (Some s) now (c\<lparr>showResultDetails := \<not> showResultDetails c\<rparr>)) \<and>
   (lastState c = Some s \<and> me s = Some m \<and> phase s = ''RESULT'' \<longrightarrow>
      (\<exists>colour msg label.
         phase_display (doc (toggleResultDetails now c)) =
           InnerHTML (result_html colour msg label
             (if showResultDetails (toggleResultDetails now c)
              then buildResultDetails (result_details s) else [])))) \<and>
   ((buildResultDetails r = []) = (r = None)) \<and>
   (reachable ls uuid d c \<longrightarrow>
      showResultDetails (toggleResultDetails now2 (toggleResultDetails now c))
        = showResultDetails c \<and>
      phase_display (doc (toggleResultDetails now2 (toggleResultDetails now c)))
        = phase_display (doc c))"
proof (intro conjI impI)
  show "showResultDetails (toggleResultDetails now c) = (\<not> showResultDetails c)"
    by (rule toggleResultDetails_frame)
  show "(buildResultDetails r = []) = (r = None)" by (rule buildResultDetails_empty)
next
  assume "lastState c = None"
  then show "toggleResultDetails now c = c\<lparr>showResultDetails := \<not> showResultDetails c\<rparr>"
    by (simp add: toggleResultDetails_def Let_def)
next
  assume "lastState c = Some s"
  then show "toggleResultDetails now c =
        renderGame (Some s) now (c\<lparr>showResultDetails := \<not> showResultDetails c\<rparr>)"
    by (simp add: toggleResultDetails_def Let_def)
next
  assume a: "lastState c = Some s \<and> me s = Some m \<and> phase s = ''RESULT''"
  then have "phase_display (doc (toggleResultDetails now c))
             = phase_content (\<not> showResultDetails c) s"
    by (simp add: toggleResultDetails_def Let_def phase_renderGame)
  with a have "phase_display (doc (toggleResultDetails now c)) =
           InnerHTML (result_html
             (if js_includes (case result_message s of Some r \<Rightarrow> r | None \<Rightarrow> []) ''SUCCESS'' \<or>
                 js_includes (case result_message s of Some r \<Rightarrow> r | None \<Rightarrow> []) ''WIN''
              then ''#2ecc71'' else ''#e74c3c'')
             (case result_message s of Some r \<Rightarrow> r | None \<Rightarrow> [])
             (if \<not> showResultDetails c then ''Hide Detailed Rankings''
              else ''Show Detailed Rankings'')
             (if showResultDetails (toggleResultDetails now c)
              then buildResultDetails (result_details s) else []))"
    by (simp add: phase_content_def toggleResultDetails_frame)
  then show "\<exists>colour msg label.
         phase_display (doc (toggleResultDetails now c)) =
           InnerHTML (result_html colour msg label
             (if showResultDetails (toggleResultDetails now c)
              then buildResultDetails (result_details s) else []))"
    by blast
next
  assume r: "reachable ls uuid d c"
  show "showResultDetails (toggleResultDetails now2 (toggleResultDetails now c))
        = showResultDetails c"
    by (simp add: toggleResultDetails_frame)
  from r have inv: "phase_in_sync c" by (rule reachable_phase_in_sync)
  show "phase_display (doc (toggleResultDetails now2 (toggleResultDetails now c)))
        = phase_display (doc c)"
  proof (cases "lastState c")
    case None
    then show ?thesis by (simp add: toggleResultDetails_def Let_def)
  next
    case (Some s0)
    then have t1: "toggleResultDetails now c
                   = renderGame (Some s0) now (c\<lparr>showResultDetails := \<not> showResultDetails c\<rparr>)"
      by (simp add: toggleResultDetails_def Let_def)
    have l1: "lastState (toggleResultDetails now c) = Some s0"
      using Some by (simp add: toggleResultDetails_frame)
    have f1: "showResultDetails (toggleResultDetails now c) = (\<not> showResultDetails c)"
      by (rule toggleResultDetails_frame)
    have t2: "phase_display (doc (toggleResultDetails now2 (toggleResultDetails now c)))
              = (case me s0 of
                   None \<Rightarrow> phase_display (doc (toggleResultDetails now c))
                 | Some m \<Rightarrow> phase_content (showResultDetails c) s0)"
      using l1 f1
      by (simp add: toggleResultDetails_def [of now2] Let_def phase_renderGame
            split: option.splits)
    show ?thesis
    proof (cases "me s0")
      case None
      then show ?thesis using t2 t1 by (simp add: phase_renderGame)
    next
      case (Some m0)
      then show ?thesis
        using t2 inv \<open>lastState c = Some s0\<close> by (simp add: phase_in_sync_def)
    qed
  qed
qed

theorem toggle_result_details_witness:
  "showResultDetails (toggleResultDetails 1 detailed_client) = True \<and>
   toggleResultDetails 1 detailed_client =
     renderGame (Some detailed_snapshot) 1 (detailed_client\<lparr>showResultDetails := True\<rparr>) \<and>
   (\<exists>colour msg label.
      phase_display (doc (toggleResultDetails 1 detailed_client)) =
        InnerHTML (result_html colour msg label
          (buildResultDetails (result_details detailed_snapshot)))) \<and>
   buildResultDetails (result_details detailed_snapshot) \<noteq> [] \<and>
   showResultDetails (toggleResultDetails 2 (toggleResultDetails 1 detailed_client)) = False \<and>
   phase_display (doc (toggleResultDetails 2 (toggleResultDetails 1 detailed_client)))
     = phase_display (doc detailed_client)"
proof -
  have r: "reachable Map.empty ''uuid-1'' blank_page detailed_client"
    unfolding detailed_client_def fresh_client_def by (intro reachable.step reachable.start)
  have h: "lastState detailed_client = Some detailed_snapshot \<and>
           me detailed_snapshot = Some alice \<and> phase detailed_snapshot = ''RESULT''"
    by (simp add: result_client_facts detailed_snapshot_facts)
  have n: "result_details detailed_snapshot \<noteq> None"
    by (simp add: detailed_snapshot_def)
  note inst = toggle_result_details [of 1 detailed_client detailed_snapshot alice
      "result_details detailed_snapshot" Map.empty "''uuid-1''" blank_page 2]
  from inst have "showResultDetails (toggleResultDetails 1 detailed_client)
                  = (\<not> showResultDetails detailed_client)"
    by blast
  then have 1: "showResultDetails (toggleResultDetails 1 detailed_client) = True"
    by (simp add: result_client_facts)
  from inst h have "toggleResultDetails 1 detailed_client =
     renderGame (Some detailed_snapshot) 1
       (detailed_client\<lparr>showResultDetails := \<not> showResultDetails detailed_client\<rparr>)"
    by blast
  then have 2: "toggleResultDetails 1 detailed_client =
     renderGame (Some detailed_snapshot) 1 (detailed_client\<lparr>showResultDetails := True\<rparr>)"
    by (simp add: result_client_facts)
  from inst h have "\<exists>colour msg label.
      phase_display (doc (toggleResultDetails 1 detailed_client)) =
        InnerHTML (result_html colour msg label
          (if showResultDetails (toggleResultDetails 1 detailed_client)
           then buildResultDetails (result_details detailed_snapshot) else []))"
    by blast
  with 1 have 3: "\<exists>colour msg label.
      phase_display (doc (toggleResultDetails 1 detailed_client)) =
        InnerHTML (result_html colour msg label
          (buildResultDetails (result_details detailed_snapshot)))"
    by simp
  from inst n have 4: "buildResultDetails (result_details detailed_snapshot) \<noteq> []"
    by blast
  from inst r have "showResultDetails (toggleResultDetails 2 (toggleResultDetails 1 detailed_client))
                    = showResultDetails detailed_client"
    and 6: "phase_display (doc (toggleResultDetails 2 (toggleResultDetails 1 detailed_client)))
             = phase_display (doc detailed_client)"
    by blast+
  then have 5: "showResultDetails (toggleResultDetails 2 (toggleResultDetails 1 detailed_client)) = False"
    by (simp add: result_client_facts)
  from 1 2 3 4 5 6 show ?thesis by blast
qed

subsection \<open>Rendering a snapshot\<close>

text \<open>
  C3. The listener of \<^verbatim>\<open>game_update\<close> is \<^verbatim>\<open>renderGame\<close>. For a snapshot with \<^verbatim>\<open>me\<close>
  not null, the chip bank afterwards has exactly one button for each value of
  \<^verbatim>\<open>chips_available\<close>, in the same order, labelled with the star and the value, whose
  click emits \<^verbatim>\<open>take_chip\<close> with that value and the source \<^verbatim>\<open>"center"\<close>; and the
  community cards area has one card element for each entry of \<^verbatim>\<open>community_cards\<close>, in
  order. Both versions of \<^verbatim>\<open>static/script.js\<close> build the same bank and cards.
\<close>

theorem game_update_rebuilds_board:
  assumes "me s = Some m"
  shows "handle (GameUpdate (Some s) now) c = renderGame (Some s) now c \<and>
         chip_bank (doc (renderGame (Some s) now c))
           = map (make_chip_button (chip_color s)) (chips_available s) \<and>
         chip_bank (doc (renderGame_v1 (Some s) now c))
           = map (make_chip_button (chip_color s)) (chips_available s) \<and>
         map cb_innerText (chip_bank (doc (renderGame (Some s) now c)))
           = map (\<lambda>v. star @ '' '' @ show_int v) (chips_available s) \<and>
         (\<forall>i < length (chips_available s).
            emitted (click_chip_button (chip_bank (doc (renderGame (Some s) now c)) ! i) c2)
              = emitted c2 @
                [(''take_chip'',
                  [JObj [(''chip_value'', JNum (chips_available s ! i)),
                         (''source'', JStr ''center'')]])]) \<and>
         community_cards_el (doc (renderGame (Some s) now c))
           = map createCardDiv (community_cards s) \<and>
         community_cards_el (doc (renderGame_v1 (Some s) now c))
           = map createCardDiv (community_cards s)"
proof -
  from shows_board_renderGame [OF assms, of now c]
  have b: "chip_bank (doc (renderGame (Some s) now c))
             = map (make_chip_button (chip_color s)) (chips_available s)"
    and k: "community_cards_el (doc (renderGame (Some s) now c))
             = map createCardDiv (community_cards s)"
    by (simp_all add: shows_board_def)
  from shows_board_renderGame_v1 [OF assms, of now c]
  have b1: "chip_bank (doc (renderGame_v1 (Some s) now c))
             = map (make_chip_button (chip_color s)) (chips_available s)"
    and k1: "community_cards_el (doc (renderGame_v1 (Some s) now c))
             = map createCardDiv (community_cards s)"
    by (simp_all add: shows_board_def)
  have t: "map cb_innerText (chip_bank (doc (renderGame (Some s) now c)))
           = map (\<lambda>v. star @ '' '' @ show_int v) (chips_available s)"
    unfolding b by (simp add: make_chip_button_def)
  have e: "\<forall>i < length (chips_available s).
            emitted (click_chip_button (chip_bank (doc (renderGame (Some s) now c)) ! i) c2)
              = emitted c2 @
                [(''take_chip'',
                  [JObj [(''chip_value'', JNum (chips_available s ! i)),
                         (''source'', JStr ''center'')]])]"
    unfolding b by (simp add: click_chip_button_def make_chip_button_def takeChip_def emit_def)
  show ?thesis using b b1 k k1 t e by simp
qed

theorem game_update_rebuilds_board_witness:
  "map cb_innerText (chip_bank (doc (handle (GameUpdate (Some result_snapshot) 0) fresh_client)))
     = [star @ '' 1'', star @ '' 2''] \<and>
   map cb_className (chip_bank (doc (renderGame_v1 (Some result_snapshot) 0 fresh_client)))
     = [[''chip'', ''chip-white''], [''chip'', ''chip-white'']] \<and>
   emitted (click_chip_button
       (chip_bank (doc (renderGame (Some result_snapshot) 0 fresh_client)) ! 1) fresh_client)
     = [(''take_chip'', [JObj [(''chip_value'', JNum 2), (''source'', JStr ''center'')]])] \<and>
   community_cards_el (doc (renderGame (Some result_snapshot) 0 fresh_client))
     = [\<lparr>cd_className = [''card'', ''red-suit''], cd_innerText = ''A'' @ heart_suit\<rparr>]"
proof -
  note inst = game_update_rebuilds_board [OF result_snapshot_me, of 0 fresh_client fresh_client]
  from inst have h: "handle (GameUpdate (Some result_snapshot) 0) fresh_client
                     = renderGame (Some result_snapshot) 0 fresh_client"
    and t: "map cb_innerText (chip_bank (doc (renderGame (Some result_snapshot) 0 fresh_client)))
           = map (\<lambda>v. star @ '' '' @ show_int v) (chips_available result_snapshot)"
    and b1: "chip_bank (doc (renderGame_v1 (Some result_snapshot) 0 fresh_client))
             = map (make_chip_button (chip_color result_snapshot))
                 (chips_available result_snapshot)"
    and e: "\<forall>i < length (chips_available result_snapshot).
            emitted (click_chip_button
                (chip_bank (doc (renderGame (Some result_snapshot) 0 fresh_client)) ! i)
                fresh_client)
              = emitted fresh_client @
                [(''take_chip'',
                  [JObj [(''chip_value'', JNum (chips_available result_snapshot ! i)),
                         (''source'', JStr ''center'')]])]"
    and k: "community_cards_el (doc (renderGame (Some result_snapshot) 0 fresh_client))
             = map createCardDiv (community_cards result_snapshot)"
    by blast+
  have 1: "map cb_innerText
             (chip_bank (doc (handle (GameUpdate (Some result_snapshot) 0) fresh_client)))
           = [star @ '' 1'', star @ '' 2'']"
    unfolding h t by (simp add: result_snapshot_board show_int_def show_nat.simps)
  have 2: "map cb_className (chip_bank (doc (renderGame_v1 (Some result_snapshot) 0 fresh_client)))
           = [[''chip'', ''chip-white''], [''chip'', ''chip-white'']]"
    unfolding b1
    by (simp add: result_snapshot_board make_chip_button_def chip_class_def toLowerCase_def)
  have "(1::nat) < length (chips_available result_snapshot)"
    by (simp add: result_snapshot_board)
  with e have 3: "emitted (click_chip_button
       (chip_bank (doc (renderGame (Some result_snapshot) 0 fresh_client)) ! 1) fresh_client)
     = emitted fresh_client @
         [(''take_chip'',
           [JObj [(''chip_value'', JNum (chips_available result_snapshot ! 1)),
                  (''source'', JStr ''center'')]])]"
    by blast
  have 4: "community_cards_el (doc (renderGame (Some result_snapshot) 0 fresh_client))
           = [\<lparr>cd_className = [''card'', ''red-suit''], cd_innerText = ''A'' @ heart_suit\<rparr>]"
    unfolding k
    by (simp add: result_snapshot_board createCardDiv_def cl_add_def Let_def)
  from 1 2 3 4 show ?thesis
    by (simp add: result_snapshot_board fresh_client_def init_def)
qed

subsection \<open>No rule of the game is decided by the client\<close>




subsection \<open>The thrown tomato\<close>



end
